theory Spec2Isabelle
  imports Main "HOL-Library.Log_Nat"
begin

section \<open>Python strings\<close>

text \<open>
  A Python \<open>str\<close> is a sequence of Unicode code points, so the model uses lists of
  natural numbers. \<open>asc\<close> embeds an ASCII literal. The Cyrillic literals of the source
  are written out by code point.

  White space is the full set recognised by \<open>str.isspace\<close>. Case mapping covers
  ASCII, the basic Cyrillic block (U+0400 to U+045F) and the two letters outside ASCII whose
  upper case is an ASCII letter. Decimal digits are those of Unicode 14, the version of the
  interpreter's database: the ASCII digits and 65 further runs of ten. The predicate
  \<open>str.isalnum\<close> outside ASCII, which decides what a word character is, covers over
  130000 code points and is a parameter of the model (\<open>alnum\<close>).
\<close>

type_synonym ustr = "nat list"

definition asc :: "string \<Rightarrow> ustr" where
  "asc s = map of_char s"

definition py_isspace :: "nat \<Rightarrow> bool" where
  "py_isspace c \<longleftrightarrow>
     (9 \<le> c \<and> c \<le> 13) \<or> (28 \<le> c \<and> c \<le> 32) \<or> c = 133 \<or> c = 160 \<or> c = 5760 \<or>
     (8192 \<le> c \<and> c \<le> 8202) \<or> c = 8232 \<or> c = 8233 \<or> c = 8239 \<or> c = 8287 \<or> c = 12288"

definition py_strip :: "ustr \<Rightarrow> ustr" where
  "py_strip s = rev (dropWhile py_isspace (rev (dropWhile py_isspace s)))"

definition lower_cp :: "nat \<Rightarrow> nat" where
  "lower_cp c =
     (if 65 \<le> c \<and> c \<le> 90 then c + 32
      else if 1040 \<le> c \<and> c \<le> 1071 then c + 32
      else if 1024 \<le> c \<and> c \<le> 1039 then c + 80
      else c)"

definition upper_cp :: "nat \<Rightarrow> nat" where
  "upper_cp c =
     (if 97 \<le> c \<and> c \<le> 122 then c - 32
      else if 1072 \<le> c \<and> c \<le> 1103 then c - 32
      else if 1104 \<le> c \<and> c \<le> 1119 then c - 80
      else if c = 305 then 73
      else if c = 383 then 83
      else c)"

definition py_lower :: "ustr \<Rightarrow> ustr" where
  "py_lower s = map lower_cp s"

definition py_upper :: "ustr \<Rightarrow> ustr" where
  "py_upper s = map upper_cp s"

text \<open>The class \<open>[0-9]\<close>.\<close>

definition is_digit :: "nat \<Rightarrow> bool" where
  "is_digit c \<longleftrightarrow> 48 \<le> c \<and> c \<le> 57"

text \<open>
  The decimal digits of Unicode: the class \<open>\d\<close>, and the digits that \<open>float\<close>,
  \<open>int\<close> and \<open>Decimal\<close> accept. Outside ASCII they come in runs of ten from a zero
  digit; \<open>decimal_zeros\<close> lists these zeros.
\<close>

definition decimal_zeros :: "nat list" where
  "decimal_zeros =
     [1632, 1776, 1984, 2406, 2534, 2662, 2790, 2918, 3046, 3174, 3302, 3430, 3558, 3664,
      3792, 3872, 4160, 4240, 6112, 6160, 6470, 6608, 6784, 6800, 6992, 7088, 7232, 7248,
      42528, 43216, 43264, 43472, 43504, 43600, 44016, 65296, 66720, 68912, 69734, 69872,
      69942, 70096, 70384, 70736, 70864, 71248, 71360, 71472, 71904, 72016, 72784, 73040,
      73120, 92768, 92864, 93008, 120782, 120792, 120802, 120812, 120822, 123200, 123632,
      125264, 130032]"

definition is_decimal :: "nat \<Rightarrow> bool" where
  "is_decimal c \<longleftrightarrow>
     is_digit c \<or> (128 \<le> c \<and> list_ex (\<lambda>z. z \<le> c \<and> c < z + 10) decimal_zeros)"

definition decimal_value :: "nat \<Rightarrow> nat" where
  "decimal_value c =
     (if c < 128 then c - 48
      else case find (\<lambda>z. z \<le> c \<and> c < z + 10) decimal_zeros of
             None \<Rightarrow> 0
           | Some z \<Rightarrow> c - z)"

definition is_AZ :: "nat \<Rightarrow> bool" where
  "is_AZ c \<longleftrightarrow> 65 \<le> c \<and> c \<le> 90"

definition is_az :: "nat \<Rightarrow> bool" where
  "is_az c \<longleftrightarrow> 97 \<le> c \<and> c \<le> 122"

definition is_cyrillic :: "nat \<Rightarrow> bool" where
  "is_cyrillic c \<longleftrightarrow> 1024 \<le> c \<and> c \<le> 1119"

text \<open>
  The class \<open>\w\<close> of the regular expression engine: the underscore and what
  \<open>str.isalnum\<close> accepts. In ASCII these are the letters and the digits; outside ASCII
  the parameter \<open>alnum\<close> decides.
\<close>

definition is_word :: "(nat \<Rightarrow> bool) \<Rightarrow> nat \<Rightarrow> bool" where
  "is_word alnum c \<longleftrightarrow>
     (if c < 128 then is_digit c \<or> is_AZ c \<or> is_az c \<or> c = 95 else alnum c)"

text \<open>
  Truthiness of an \<open>Optional[str]\<close>: \<open>None\<close> and the empty string are false. \<open>py_or\<close>
  is the \<open>or\<close> of two such values: the first operand when it is true, else the second.
\<close>

definition truthy :: "ustr option \<Rightarrow> bool" where
  "truthy v \<longleftrightarrow> (case v of None \<Rightarrow> False | Some s \<Rightarrow> s \<noteq> [])"

definition py_or :: "ustr option \<Rightarrow> ustr option \<Rightarrow> ustr option" where
  "py_or a b = (if truthy a then a else b)"

section \<open>Regular expressions\<close>

text \<open>
  The patterns of the source are sequences of character classes with bounded or unbounded
  greedy repetition, word-boundary assertions and, for \<open>fullmatch\<close>, an anchor at
  the end of the string. \<open>re_match\<close> is the backtracking matcher
  anchored at the current position: it returns the length of the match. Its second argument
  is the character before the current position, which \<open>\b\<close> needs. \<open>WordB w\<close> is
  \<open>\b\<close> for the word characters \<open>w\<close>.
\<close>

datatype re_item =
    Chr "nat \<Rightarrow> bool"
  | Rep "nat \<Rightarrow> bool" nat "nat option"
  | WordB "nat \<Rightarrow> bool"
  | EndA

definition at_boundary :: "(nat \<Rightarrow> bool) \<Rightarrow> nat option \<Rightarrow> ustr \<Rightarrow> bool" where
  "at_boundary w p s \<longleftrightarrow>
     (case p of None \<Rightarrow> False | Some c \<Rightarrow> w c) \<noteq>
     (case s of [] \<Rightarrow> False | x # _ \<Rightarrow> w x)"

fun re_match :: "re_item list \<Rightarrow> nat option \<Rightarrow> ustr \<Rightarrow> nat option" where
  "re_match [] p s = Some 0"
| "re_match (Chr c # r) p [] = None"
| "re_match (Chr c # r) p (x # s) =
     (if c x then map_option Suc (re_match r (Some x) s) else None)"
| "re_match (WordB w # r) p s = (if at_boundary w p s then re_match r p s else None)"
| "re_match (EndA # r) p s = (if s = [] then re_match r p s else None)"
| "re_match (Rep c lo hi # r) p [] = (if lo = 0 then re_match r p [] else None)"
| "re_match (Rep c lo hi # r) p (x # s) =
     (if c x \<and> hi \<noteq> Some 0 then
        (case re_match (Rep c (lo - 1) (map_option (\<lambda>h. h - 1) hi) # r) (Some x) s of
           Some n \<Rightarrow> Some (Suc n)
         | None \<Rightarrow> if lo = 0 then re_match r p (x # s) else None)
      else if lo = 0 then re_match r p (x # s) else None)"

text \<open>\<open>pattern.search\<close>: the leftmost start position with a match; the result is \<open>group(0)\<close>.\<close>

fun re_search_from :: "re_item list \<Rightarrow> nat option \<Rightarrow> ustr \<Rightarrow> ustr option" where
  "re_search_from r p [] = (case re_match r p [] of Some n \<Rightarrow> Some [] | None \<Rightarrow> None)"
| "re_search_from r p (x # s) =
     (case re_match r p (x # s) of
        Some n \<Rightarrow> Some (take n (x # s))
      | None \<Rightarrow> re_search_from r (Some x) s)"

definition re_search :: "re_item list \<Rightarrow> ustr \<Rightarrow> ustr option" where
  "re_search r s = re_search_from r None s"

definition re_fullmatch :: "re_item list \<Rightarrow> ustr \<Rightarrow> bool" where
  "re_fullmatch r s \<longleftrightarrow> re_match (r @ [EndA]) None s \<noteq> None"

section \<open>ISIN extraction\<close>

text \<open>
  \<open>utils.ISIN_RE = re.compile(r"[A-Z]{2}[A-Z0-9]{9}\d", re.IGNORECASE)\<close>. With the
  flag, the engine compares the lower case of a character with the lower case of the class
  and with the engine's table of further equivalents. So \<open>[A-Z]\<close> accepts the Latin
  letters of both cases and four more characters: the capital I with dot above (U+0130), the
  dotless i (U+0131), the long s (U+017F) and the Kelvin sign (U+212A). The class
  \<open>\d\<close> has no case and accepts every decimal digit.
\<close>

definition letter_i :: "nat \<Rightarrow> bool" where
  "letter_i c \<longleftrightarrow> is_AZ c \<or> is_az c \<or> c = 304 \<or> c = 305 \<or> c = 383 \<or> c = 8490"

definition alnum_i :: "nat \<Rightarrow> bool" where
  "alnum_i c \<longleftrightarrow> letter_i c \<or> is_digit c"

definition ISIN_RE :: "re_item list" where
  "ISIN_RE = [Rep letter_i 2 (Some 2), Rep alnum_i 9 (Some 9), Chr is_decimal]"

text \<open>\<open>utils.extract_isin_from_attr\<close>\<close>

definition extract_isin_from_attr :: "ustr option \<Rightarrow> ustr" where
  "extract_isin_from_attr s =
     (if \<not> truthy s then []
      else case re_search ISIN_RE (the s) of
             Some m \<Rightarrow> py_upper m
           | None \<Rightarrow> py_strip (the s))"

text \<open>
  \<open>FinancialOperationsParser.RE_ISIN = re.compile(r"\b[A-Z]{2}[A-Z0-9]{10}\b")\<close>: no
  flag, so only upper-case letters match.
\<close>

definition alnum_upper :: "nat \<Rightarrow> bool" where
  "alnum_upper c \<longleftrightarrow> is_AZ c \<or> is_digit c"

definition RE_ISIN :: "(nat \<Rightarrow> bool) \<Rightarrow> re_item list" where
  "RE_ISIN alnum =
     [WordB (is_word alnum), Rep is_AZ 2 (Some 2), Rep alnum_upper 10 (Some 10),
      WordB (is_word alnum)]"

text \<open>\<open>FinancialOperationsParser._extract_isin\<close>\<close>

definition FinOps_extract_isin :: "(nat \<Rightarrow> bool) \<Rightarrow> ustr option \<Rightarrow> ustr" where
  "FinOps_extract_isin alnum comment_text =
     (if \<not> truthy comment_text then []
      else case re_search (RE_ISIN alnum) (the comment_text) of
             Some m \<Rightarrow> m
           | None \<Rightarrow> [])"

subsection \<open>The ISIN patterns in the words of the specification\<close>

text \<open>
  The specification describes the comment-text pattern as two upper-case Latin letters
  followed by exactly ten upper-case letters or digits, word-bounded, and the extracted value
  as its first match, or the empty string. The flag \<open>ci\<close> selects the
  case-insensitive reading of the letter classes; a digit is one of 0 to 9. These definitions
  follow the specification; they are compared with the regular expressions of the source
  below.
\<close>

definition spec_letter :: "bool \<Rightarrow> nat \<Rightarrow> bool" where
  "spec_letter ci c \<longleftrightarrow> is_AZ c \<or> (ci \<and> is_az c)"

definition spec_letter_or_digit :: "bool \<Rightarrow> nat \<Rightarrow> bool" where
  "spec_letter_or_digit ci c \<longleftrightarrow> spec_letter ci c \<or> is_digit c"

definition spec_isin_shape :: "bool \<Rightarrow> ustr \<Rightarrow> bool" where
  "spec_isin_shape ci m \<longleftrightarrow>
     length m = 12 \<and> list_all (spec_letter ci) (take 2 m) \<and>
     list_all (spec_letter_or_digit ci) (drop 2 m)"

text \<open>
  Word-bounded: the character before the match (\<open>p\<close>) and the character after it
  (the head of \<open>rest\<close>) are not word characters.
\<close>

definition spec_word_bounded :: "(nat \<Rightarrow> bool) \<Rightarrow> nat option \<Rightarrow> ustr \<Rightarrow> bool" where
  "spec_word_bounded alnum p rest \<longleftrightarrow>
     \<not> (case p of None \<Rightarrow> False | Some c \<Rightarrow> is_word alnum c) \<and>
     \<not> (case rest of [] \<Rightarrow> False | x # _ \<Rightarrow> is_word alnum x)"

text \<open>The first match, scanning the start positions from the left.\<close>

fun spec_first_isin :: "(nat \<Rightarrow> bool) \<Rightarrow> bool \<Rightarrow> nat option \<Rightarrow> ustr \<Rightarrow> ustr" where
  "spec_first_isin alnum ci p [] = []"
| "spec_first_isin alnum ci p (x # s) =
     (if spec_isin_shape ci (take 12 (x # s)) \<and> spec_word_bounded alnum p (drop 12 (x # s))
      then take 12 (x # s)
      else spec_first_isin alnum ci (Some x) s)"



text \<open>The character before position \<open>n\<close> of \<open>s\<close>, given the one before \<open>s\<close>.\<close>

definition prev_of :: "nat option \<Rightarrow> ustr \<Rightarrow> nat \<Rightarrow> nat option" where
  "prev_of p s n = (if n = 0 then p else Some (s ! (n - 1)))"

section \<open>Python floats\<close>

text \<open>
  A \<open>float\<close> is an IEEE 754 binary64 value: a finite value is represented by the
  rational number it denotes (the sign of zero is not represented: \<open>==\<close>, \<open><\<close>,
  \<open>abs\<close> and \<open>round\<close> do not distinguish the two zeros). \<open>to_binary64\<close> rounds
  a rational to the nearest binary64 value, ties to even, with gradual underflow and
  overflow to infinity.
\<close>

datatype pyfloat = Fin rat | PInf | NInf | NaN

definition pow2 :: "int \<Rightarrow> rat" where
  "pow2 e = (if 0 \<le> e then 2 ^ nat e else 1 / 2 ^ nat (- e))"

definition pow10 :: "int \<Rightarrow> rat" where
  "pow10 e = (if 0 \<le> e then 10 ^ nat e else 1 / 10 ^ nat (- e))"

definition round_half_even :: "rat \<Rightarrow> int" where
  "round_half_even x =
     (let f = \<lfloor>x\<rfloor>; d = x - of_int f
      in if d < 1 / 2 then f else if 1 / 2 < d then f + 1 else if even f then f else f + 1)"

text \<open>\<open>ilog2 x\<close> is the integer \<open>e\<close> with \<open>2 ^ e \<le> x < 2 ^ (e + 1)\<close>, for \<open>0 < x\<close>.\<close>

definition ilog2 :: "rat \<Rightarrow> int" where
  "ilog2 x = (if 1 \<le> x then bitlen \<lfloor>x\<rfloor> - 1 else - bitlen (\<lceil>1 / x\<rceil> - 1))"

definition to_binary64 :: "rat \<Rightarrow> pyfloat" where
  "to_binary64 x =
     (if x = 0 then Fin 0
      else let e = max (ilog2 \<bar>x\<bar>) (- 1022);
               q = pow2 (e - 52);
               y = of_int (round_half_even (x / q)) * q
           in if pow2 1024 \<le> \<bar>y\<bar> then (if 0 < x then PInf else NInf) else Fin y)"

text \<open>Float addition: the exact sum, rounded; the special values as IEEE 754 has them.\<close>

fun py_fadd :: "pyfloat \<Rightarrow> pyfloat \<Rightarrow> pyfloat" where
  "py_fadd (Fin a) (Fin b) = to_binary64 (a + b)"
| "py_fadd NaN _ = NaN"
| "py_fadd _ NaN = NaN"
| "py_fadd PInf NInf = NaN"
| "py_fadd NInf PInf = NaN"
| "py_fadd PInf _ = PInf"
| "py_fadd _ PInf = PInf"
| "py_fadd NInf _ = NInf"
| "py_fadd _ NInf = NInf"

definition py_fabs :: "pyfloat \<Rightarrow> pyfloat" where
  "py_fabs x = (case x of Fin a \<Rightarrow> Fin \<bar>a\<bar> | NInf \<Rightarrow> PInf | _ \<Rightarrow> x)"

text \<open>\<open>x == 0\<close> and \<open>x > 0\<close> on floats.\<close>

definition float_is_zero :: "pyfloat \<Rightarrow> bool" where
  "float_is_zero x \<longleftrightarrow> x = Fin 0"

definition float_pos :: "pyfloat \<Rightarrow> bool" where
  "float_pos x \<longleftrightarrow> (case x of Fin a \<Rightarrow> 0 < a | PInf \<Rightarrow> True | _ \<Rightarrow> False)"

subsection \<open>\<open>float(str)\<close>\<close>

text \<open>
  \<open>float\<close> first replaces every white-space character outside ASCII by a blank and
  every decimal digit by its ASCII digit, then strips the surrounding ASCII white space
  (tab to carriage return, and the blank; not the separators U+001C to U+001F). It accepts
  underscores only between digits, an optional sign, and then \<open>inf\<close>, \<open>infinity\<close> or
  \<open>nan\<close> in any case, or a decimal literal with optional fraction and exponent.
  \<open>None\<close> stands for \<open>ValueError\<close>.
\<close>

definition float_isspace :: "nat \<Rightarrow> bool" where
  "float_isspace c \<longleftrightarrow> py_isspace c \<and> \<not> (28 \<le> c \<and> c \<le> 31)"

definition float_strip :: "ustr \<Rightarrow> ustr" where
  "float_strip s = rev (dropWhile float_isspace (rev (dropWhile float_isspace s)))"

fun underscores_ok :: "nat option \<Rightarrow> ustr \<Rightarrow> bool" where
  "underscores_ok p [] = (p \<noteq> Some 95)"
| "underscores_ok p (c # s) =
     ((if c = 95 then (case p of None \<Rightarrow> False | Some d \<Rightarrow> is_decimal d)
       else (if p = Some 95 then is_decimal c else True)) \<and>
      underscores_ok (Some c) s)"

definition split_sign :: "ustr \<Rightarrow> bool \<times> ustr" where
  "split_sign s =
     (case s of
        [] \<Rightarrow> (False, [])
      | c # r \<Rightarrow> if c = 45 then (True, r) else if c = 43 then (False, r) else (False, s))"

definition digits_val :: "ustr \<Rightarrow> nat" where
  "digits_val ds = foldl (\<lambda>a c. 10 * a + decimal_value c) 0 ds"

text \<open>An unsigned decimal literal: the digits of the mantissa and the decimal exponent.\<close>

definition parse_exponent :: "ustr \<Rightarrow> int option" where
  "parse_exponent t =
     (let (neg, ds) = split_sign t
      in if ds \<noteq> [] \<and> list_all is_decimal ds
         then Some (if neg then - int (digits_val ds) else int (digits_val ds))
         else None)"

definition parse_decimal :: "ustr \<Rightarrow> (nat \<times> int) option" where
  "parse_decimal s =
     (let ip = takeWhile is_decimal s;
          r1 = dropWhile is_decimal s;
          fp = (case r1 of [] \<Rightarrow> [] | c # t \<Rightarrow> if c = 46 then takeWhile is_decimal t else []);
          r2 = (case r1 of [] \<Rightarrow> [] | c # t \<Rightarrow> if c = 46 then dropWhile is_decimal t else r1)
      in if ip = [] \<and> fp = [] then None
         else case r2 of
                [] \<Rightarrow> Some (digits_val (ip @ fp), - int (length fp))
              | c # t \<Rightarrow>
                  if c = 101 \<or> c = 69
                  then (case parse_exponent t of
                          None \<Rightarrow> None
                        | Some e \<Rightarrow> Some (digits_val (ip @ fp), e - int (length fp)))
                  else None)"

definition py_float :: "ustr \<Rightarrow> pyfloat option" where
  "py_float s0 =
     (let s = float_strip s0
      in if \<not> underscores_ok None s then None
         else let (neg, body) = split_sign (filter (\<lambda>c. c \<noteq> 95) s);
                  lw = py_lower body
              in if lw = asc ''inf'' \<or> lw = asc ''infinity'' then Some (if neg then NInf else PInf)
                 else if lw = asc ''nan'' then Some NaN
                 else case parse_decimal body of
                        None \<Rightarrow> None
                      | Some (m, e) \<Rightarrow>
                          Some (to_binary64 ((if neg then - 1 else 1) * of_nat m * pow10 e)))"

text \<open>\<open>s.replace(a, b)\<close> for a one-character \<open>a\<close>.\<close>

definition py_replace :: "nat \<Rightarrow> ustr \<Rightarrow> ustr \<Rightarrow> ustr" where
  "py_replace a b s = concat (map (\<lambda>c. if c = a then b else [c]) s)"

text \<open>The normalisation shared by both converters: no-break space, space, decimal comma.\<close>

definition normalize_number :: "ustr \<Rightarrow> ustr" where
  "normalize_number s = py_replace 44 [46] (py_replace 32 [] (py_replace 160 [32] s))"

text \<open>\<open>utils.to_float_safe\<close>\<close>

definition to_float_safe :: "ustr option \<Rightarrow> pyfloat" where
  "to_float_safe v =
     (case v of
        None \<Rightarrow> Fin 0
      | Some raw \<Rightarrow>
          let s = py_strip raw
          in if s = [] \<or> s = asc ''-'' \<or> s = asc ''--'' then Fin 0
             else case py_float (normalize_number s) of
                    Some x \<Rightarrow> x
                  | None \<Rightarrow>
                      (case py_float (py_replace 44 [46] raw) of
                         Some x \<Rightarrow> x
                       | None \<Rightarrow> Fin 0))"

text \<open>
  \<open>utils.to_int_safe\<close>: \<open>int(round(float(s or 0.0)))\<close>. \<open>round\<close> of a float is
  round-half-to-even and raises on infinities and NaN; every exception gives 0.
\<close>

definition py_round :: "pyfloat \<Rightarrow> int option" where
  "py_round x = (case x of Fin a \<Rightarrow> Some (round_half_even a) | _ \<Rightarrow> None)"

definition to_int_safe :: "ustr \<Rightarrow> int" where
  "to_int_safe v =
     (let s = normalize_number v
      in if s = [] then 0
         else case py_float s of
                None \<Rightarrow> 0
              | Some x \<Rightarrow> (case py_round x of None \<Rightarrow> 0 | Some n \<Rightarrow> n))"

section \<open>Dates and times\<close>

record datetime =
  dt_year :: nat
  dt_month :: nat
  dt_day :: nat
  dt_hour :: nat
  dt_minute :: nat
  dt_second :: nat
  dt_microsecond :: nat
  dt_utcoffset :: "int option"

definition is_leap :: "nat \<Rightarrow> bool" where
  "is_leap y \<longleftrightarrow> y mod 4 = 0 \<and> (y mod 100 \<noteq> 0 \<or> y mod 400 = 0)"

definition days_in_month :: "nat \<Rightarrow> nat \<Rightarrow> nat" where
  "days_in_month y m =
     (if m = 2 then (if is_leap y then 29 else 28)
      else if m = 4 \<or> m = 6 \<or> m = 9 \<or> m = 11 then 30 else 31)"

text \<open>The checks of the \<open>datetime\<close> constructor for a naive value.\<close>

definition valid_datetime :: "nat \<Rightarrow> nat \<Rightarrow> nat \<Rightarrow> nat \<Rightarrow> nat \<Rightarrow> nat \<Rightarrow> bool" where
  "valid_datetime y m d H M S \<longleftrightarrow>
     1 \<le> y \<and> y \<le> 9999 \<and> 1 \<le> m \<and> m \<le> 12 \<and> 1 \<le> d \<and> d \<le> days_in_month y m \<and>
     H \<le> 23 \<and> M \<le> 59 \<and> S \<le> 59"

subsection \<open>\<open>datetime.strptime\<close>\<close>

text \<open>
  \<open>strptime\<close> turns the format into a regular expression, one group of alternatives per
  directive, and matches it at the start of the text with backtracking; text left over
  after the match is an error. The directives below are those of the formats in the source.
  A blank in the format matches one or more white-space characters, and a literal matches
  case-insensitively. Where the expression of a directive has \<open>\d\<close>, every decimal
  digit matches; where it has a range such as \<open>[0-1]\<close>, only those ASCII digits do.
\<close>

datatype fmt_item = Dir_d | Dir_m | Dir_Y | Dir_H | Dir_M | Dir_S | Lit nat | Blank

definition rng :: "nat \<Rightarrow> nat \<Rightarrow> nat \<Rightarrow> bool" where
  "rng a b c \<longleftrightarrow> a \<le> c \<and> c \<le> b"

text \<open>The alternatives of a directive, in the order the regular expression tries them.\<close>

fun directive :: "fmt_item \<Rightarrow> (nat \<Rightarrow> bool) list list" where
  "directive Dir_d =
     [[rng 51 51, rng 48 49], [rng 49 50, is_decimal], [rng 48 48, rng 49 57], [rng 49 57],
      [rng 32 32, rng 49 57]]"
| "directive Dir_m = [[rng 49 49, rng 48 50], [rng 48 48, rng 49 57], [rng 49 57]]"
| "directive Dir_Y = [[is_decimal, is_decimal, is_decimal, is_decimal]]"
| "directive Dir_H = [[rng 50 50, rng 48 51], [rng 48 49, is_decimal], [is_decimal]]"
| "directive Dir_M = [[rng 48 53, is_decimal], [is_decimal]]"
| "directive Dir_S = [[rng 54 54, rng 48 49], [rng 48 53, is_decimal], [is_decimal]]"
| "directive (Lit c) = [[\<lambda>x. lower_cp x = lower_cp c]]"
| "directive Blank = []"

definition alt_matches :: "(nat \<Rightarrow> bool) list \<Rightarrow> ustr \<Rightarrow> bool" where
  "alt_matches alt s \<longleftrightarrow>
     length alt \<le> length s \<and> list_all (\<lambda>(c, x). c x) (zip alt s)"

text \<open>The lengths of the candidate matches of an item at the start of \<open>s\<close>, in order.\<close>

definition alts :: "fmt_item \<Rightarrow> ustr \<Rightarrow> nat list" where
  "alts it s =
     (if it = Blank then rev [1..<Suc (length (takeWhile py_isspace s))]
      else map length (filter (\<lambda>alt. alt_matches alt s) (directive it)))"

fun first_some :: "('a \<Rightarrow> 'b option) \<Rightarrow> 'a list \<Rightarrow> 'b option" where
  "first_some f [] = None"
| "first_some f (x # xs) = (case f x of Some y \<Rightarrow> Some y | None \<Rightarrow> first_some f xs)"

primrec fmt_match :: "fmt_item list \<Rightarrow> ustr \<Rightarrow> (ustr list \<times> ustr) option" where
  "fmt_match [] s = Some ([], s)"
| "fmt_match (it # its) s =
     first_some
       (\<lambda>n. case fmt_match its (drop n s) of
              None \<Rightarrow> None
            | Some (caps, rest) \<Rightarrow> Some (take n s # caps, rest))
       (alts it s)"

text \<open>The value of a directive's group; a directive absent from the format has a default.\<close>

definition field :: "fmt_item \<Rightarrow> nat \<Rightarrow> (fmt_item \<times> ustr) list \<Rightarrow> nat" where
  "field it dflt groups =
     (case map_of groups it of
        None \<Rightarrow> dflt
      | Some txt \<Rightarrow> digits_val (filter is_decimal txt))"

definition strptime :: "ustr \<Rightarrow> fmt_item list \<Rightarrow> datetime option" where
  "strptime s fmt =
     (case fmt_match fmt s of
        None \<Rightarrow> None
      | Some (caps, rest) \<Rightarrow>
          if rest \<noteq> [] then None
          else let g = zip fmt caps;
                   y = field Dir_Y 1900 g; m = field Dir_m 1 g; d = field Dir_d 1 g;
                   H = field Dir_H 0 g; M = field Dir_M 0 g; S = field Dir_S 0 g
               in if valid_datetime y m d H M S
                  then Some \<lparr>dt_year = y, dt_month = m, dt_day = d, dt_hour = H, dt_minute = M,
                             dt_second = S, dt_microsecond = 0, dt_utcoffset = None\<rparr>
                  else None)"

text \<open>\<open>"%d.%m.%Y %H:%M:%S"\<close>, \<open>"%d.%m.%Y %H:%M"\<close>, \<open>"%Y-%m-%dT%H:%M:%S"\<close>,
  \<open>"%Y-%m-%d %H:%M:%S"\<close> and \<open>"%Y-%m-%d"\<close>.\<close>

definition fmt_dmY_HMS :: "fmt_item list" where
  "fmt_dmY_HMS = [Dir_d, Lit 46, Dir_m, Lit 46, Dir_Y, Blank, Dir_H, Lit 58, Dir_M, Lit 58, Dir_S]"

definition fmt_dmY_HM :: "fmt_item list" where
  "fmt_dmY_HM = [Dir_d, Lit 46, Dir_m, Lit 46, Dir_Y, Blank, Dir_H, Lit 58, Dir_M]"

definition fmt_iso_T :: "fmt_item list" where
  "fmt_iso_T = [Dir_Y, Lit 45, Dir_m, Lit 45, Dir_d, Lit 84, Dir_H, Lit 58, Dir_M, Lit 58, Dir_S]"

definition fmt_Ymd_HMS :: "fmt_item list" where
  "fmt_Ymd_HMS = [Dir_Y, Lit 45, Dir_m, Lit 45, Dir_d, Blank, Dir_H, Lit 58, Dir_M, Lit 58, Dir_S]"

definition fmt_Ymd :: "fmt_item list" where
  "fmt_Ymd = [Dir_Y, Lit 45, Dir_m, Lit 45, Dir_d]"

subsection \<open>\<open>XmlParserBase.parse_datetime_from_text\<close>\<close>

definition is_dot :: "nat \<Rightarrow> bool" where
  "is_dot c \<longleftrightarrow> c = 46"

definition is_colon :: "nat \<Rightarrow> bool" where
  "is_colon c \<longleftrightarrow> c = 58"

text \<open>\<open>\d{2}\.\d{2}\.\d{4}\s+\d{2}:\d{2}:\d{2}\<close> and \<open>\d{2}\.\d{2}\.\d{4}\s+\d{2}:\d{2}\<close>\<close>

definition RE_DATE_HM :: "re_item list" where
  "RE_DATE_HM =
     [Rep is_decimal 2 (Some 2), Chr is_dot, Rep is_decimal 2 (Some 2), Chr is_dot,
      Rep is_decimal 4 (Some 4), Rep py_isspace 1 None,
      Rep is_decimal 2 (Some 2), Chr is_colon, Rep is_decimal 2 (Some 2)]"

definition RE_DATE_HMS :: "re_item list" where
  "RE_DATE_HMS = RE_DATE_HM @ [Chr is_colon, Rep is_decimal 2 (Some 2)]"

definition try_search :: "re_item list \<Rightarrow> fmt_item list \<Rightarrow> ustr \<Rightarrow> datetime option" where
  "try_search re fmt s =
     (case re_search re s of None \<Rightarrow> None | Some m \<Rightarrow> strptime m fmt)"

definition parse_datetime_from_text :: "ustr option \<Rightarrow> datetime option" where
  "parse_datetime_from_text v =
     (if \<not> truthy v then None
      else let s = the v in
        case try_search RE_DATE_HMS fmt_dmY_HMS s of
          Some d \<Rightarrow> Some d
        | None \<Rightarrow>
           (case try_search RE_DATE_HM fmt_dmY_HM s of
              Some d \<Rightarrow> Some d
            | None \<Rightarrow>
                first_some (\<lambda>fmt. strptime (py_strip s) fmt) [fmt_dmY_HMS, fmt_dmY_HM, fmt_iso_T]))"

section \<open>XML elements and shared helpers\<close>

datatype element = Element (tag: ustr) (attrib: "(ustr \<times> ustr) list") (children: "element list")

type_synonym attrs = "ustr \<rightharpoonup> ustr"

text \<open>\<open>utils._local_name\<close>: the part of the tag after the last closing brace.\<close>

definition local_name :: "ustr option \<Rightarrow> ustr" where
  "local_name t =
     (case t of
        None \<Rightarrow> []
      | Some s \<Rightarrow> if 125 \<in> set s then rev (takeWhile (\<lambda>c. c \<noteq> 125) (rev s)) else s)"

text \<open>
  \<open>utils._normalize_attrib\<close>: a dictionary comprehension over the attributes in document
  order, so a later attribute wins when two keys agree after lower-casing.
\<close>

definition normalize_attrib :: "(ustr \<times> ustr) list \<Rightarrow> attrs" where
  "normalize_attrib kvs = map_of (rev (map (\<lambda>(k, v). (py_lower k, v)) kvs))"

text \<open>
  \<open>a.get(k1) or a.get(k2) or ...\<close>: the first true operand, else the last operand.
  \<open>or_str v d\<close> is \<open>v or d\<close> for a string default \<open>d\<close>.
\<close>

fun get_or :: "attrs \<Rightarrow> ustr list \<Rightarrow> ustr option" where
  "get_or a [] = None"
| "get_or a [k] = a k"
| "get_or a (k # ks) = py_or (a k) (get_or a ks)"

definition or_str :: "ustr option \<Rightarrow> ustr \<Rightarrow> ustr" where
  "or_str v d = (if truthy v then the v else d)"

text \<open>
  \<open>utils.extract_first_value\<close> with its default separator: the first white-space
  delimited token of the trimmed text.
\<close>

definition extract_first_value :: "ustr option \<Rightarrow> ustr" where
  "extract_first_value text =
     (if \<not> truthy text then []
      else py_strip (takeWhile (\<lambda>c. \<not> py_isspace c) (py_strip (the text))))"

section \<open>The operation record\<close>

datatype pynum = PyInt int | PyFloat pyfloat

record OperationDTO =
  date :: "datetime option"
  operation_type :: ustr
  payment_sum :: pyfloat
  currency :: ustr
  ticker :: ustr
  isin :: ustr
  reg_number :: ustr
  price :: pyfloat
  quantity :: pynum
  aci :: pyfloat
  comment :: ustr
  operation_id :: ustr
  commission :: pyfloat

text \<open>
  Exceptions, with the text \<open>str(e)\<close> that ends up under the \<open>error\<close> key. The texts
  of the host's exceptions are carried as given.
\<close>

datatype pyexc = IndexError | OSError ustr | ParseError ustr | CtorError ustr | DecimalError ustr

definition exc_str :: "pyexc \<Rightarrow> ustr" where
  "exc_str e =
     (case e of
        IndexError \<Rightarrow> asc ''list index out of range''
      | OSError m \<Rightarrow> m
      | ParseError m \<Rightarrow> m
      | CtorError m \<Rightarrow> m
      | DecimalError m \<Rightarrow> m)"

text \<open>
  The class \<open>OperationDTO\<close> is not among the sources. Its constructor is a parameter of
  the model: \<open>ctor d = None\<close> when the record is built, \<open>Some e\<close> when the constructor
  raises \<open>e\<close>.
\<close>

type_synonym dto_ctor = "OperationDTO \<Rightarrow> pyexc option"

section \<open>The trades parser\<close>

record trades_stats =
  tr_total_rows :: nat
  tr_parsed :: nat
  tr_skipped_no_date :: nat
  tr_skipped_no_qty :: nat
  tr_skipped_invalid :: nat
  tr_total_commission :: pyfloat

text \<open>\<open>TradesParser.__init__\<close>\<close>

definition TradesParser_init :: trades_stats where
  "TradesParser_init =
     \<lparr>tr_total_rows = 0, tr_parsed = 0, tr_skipped_no_date = 0, tr_skipped_no_qty = 0,
      tr_skipped_invalid = 0, tr_total_commission = Fin 0\<rparr>"

text \<open>\<open>TradesParser._extract_quantity\<close>\<close>

definition Trades_quantity_text :: "attrs \<Rightarrow> ustr" where
  "Trades_quantity_text a =
     or_str (get_or a [asc ''qty'', asc ''quantity'', asc ''textbox14'', asc ''qty '']) (asc ''0'')"

definition Trades_extract_quantity :: "attrs \<Rightarrow> int" where
  "Trades_extract_quantity a = to_int_safe (Trades_quantity_text a)"

text \<open>\<open>TradesParser._extract_date\<close>\<close>

fun Trades_extract_date_from :: "attrs \<Rightarrow> ustr list \<Rightarrow> datetime option" where
  "Trades_extract_date_from a [] = None"
| "Trades_extract_date_from a (k # ks) =
     (if truthy (a k)
      then (case parse_datetime_from_text (a k) of
              Some d \<Rightarrow> Some d
            | None \<Rightarrow> Trades_extract_date_from a ks)
      else Trades_extract_date_from a ks)"

definition Trades_date_keys :: "ustr list" where
  "Trades_date_keys =
     [asc ''db_time'', asc ''dbtime'', asc ''settlement_time'', asc ''save_settlement_date'',
      asc ''save_depo_settlement_date'']"

definition Trades_extract_date :: "attrs \<Rightarrow> datetime option" where
  "Trades_extract_date a = Trades_extract_date_from a Trades_date_keys"

text \<open>\<open>TradesParser._extract_trade_data\<close>. The three rouble aliases are
  \<open>RUR\<close> and the Cyrillic words written by code point.\<close>

definition rouble_aliases :: "ustr list" where
  "rouble_aliases = [asc ''RUR'', [1056, 1059, 1041], [1056, 1059, 1041, 1051, 1068]]"

definition Trades_extract_trade_data :: "attrs \<Rightarrow> pyfloat \<times> pyfloat \<times> pyfloat \<times> ustr" where
  "Trades_extract_trade_data a =
     (let price_v = to_float_safe (get_or a [asc ''price'', asc ''textbox25'', asc ''price '']);
          total_v = to_float_safe
                    (get_or a [asc ''summ_trade'', asc ''summtrade'', asc ''summ_trade'',
                               asc ''summ_trade'']);
          nkd = to_float_safe (get_or a [asc ''summ_nkd'', asc ''summnkd'', asc ''summ_nkd'']);
          currency_v = py_strip
                       (or_str (get_or a [asc ''curr_calc'', asc ''curr'', asc ''textbox14'']) [])
      in (price_v, total_v, nkd,
          if py_upper currency_v \<in> set rouble_aliases then asc ''RUB'' else currency_v))"

text \<open>
  \<open>TradesParser._extract_ticker_from_name\<close>: \<open>str(name).strip().split()[0]\<close> raises
  \<open>IndexError\<close> when the name consists of white space only.
\<close>

definition ticker_class :: "nat \<Rightarrow> bool" where
  "ticker_class c \<longleftrightarrow> is_AZ c \<or> is_az c \<or> is_digit c \<or> c = 45 \<or> c = 46"

definition Trades_extract_ticker_from_name :: "ustr \<Rightarrow> pyexc + ustr" where
  "Trades_extract_ticker_from_name name =
     (if name = [] then Inr []
      else if py_strip name = [] then Inl IndexError
      else let tok = takeWhile (\<lambda>c. \<not> py_isspace c) (py_strip name)
           in Inr (if re_fullmatch [Rep ticker_class 1 (Some 8)] tok then tok else []))"

text \<open>\<open>TradesParser._extract_instrument_data\<close>\<close>

definition Trades_extract_instrument_data :: "attrs \<Rightarrow> pyexc + (ustr \<times> ustr \<times> ustr)" where
  "Trades_extract_instrument_data a =
     (let isin_v = extract_isin_from_attr (get_or a [asc ''isin_reg'', asc ''isin1'', asc ''isin'']);
          p_name = or_str (get_or a [asc ''p_name'', asc ''pname'', asc ''active_name'']) []
      in case Trades_extract_ticker_from_name p_name of
           Inl e \<Rightarrow> Inl e
         | Inr ticker_v \<Rightarrow>
             let trade_no_raw = or_str (get_or a [asc ''trade_no'', asc ''tradeno'', asc ''trade'']) []
             in Inr (isin_v, ticker_v, extract_first_value (Some trade_no_raw)))"

text \<open>\<open>TradesParser._extract_commission\<close> and \<open>TradesParser._extract_comment\<close>\<close>

definition Trades_extract_commission :: "attrs \<Rightarrow> pyfloat" where
  "Trades_extract_commission a =
     to_float_safe (get_or a [asc ''bank_tax'', asc ''banktax'', asc ''bank_tax''])"

definition Trades_extract_comment :: "attrs \<Rightarrow> ustr" where
  "Trades_extract_comment a = or_str (get_or a [asc ''place_name'', asc ''place'']) []"

text \<open>
  \<open>TradesParser._process_details_element\<close>. The statistics are mutated in place, so the
  updated statistics are returned also when the row raises. The result is the exception
  that leaves the method, or the method's return value.
\<close>

definition Trades_build :: "attrs \<Rightarrow> int \<Rightarrow> datetime \<Rightarrow> pyfloat \<times> pyfloat \<times> pyfloat \<times> ustr \<Rightarrow>
    ustr \<times> ustr \<times> ustr \<Rightarrow> pyfloat \<Rightarrow> OperationDTO" where
  "Trades_build a qty date_val td inst commission_v =
     (case td of (price_v, total_v, nkd, currency_v) \<Rightarrow>
      case inst of (isin_v, ticker_v, trade_no) \<Rightarrow>
        \<lparr>date = Some date_val,
         operation_type = (if 0 < qty then asc ''buy'' else asc ''sale''),
         payment_sum = total_v,
         currency = currency_v,
         ticker = ticker_v,
         isin = isin_v,
         reg_number = [],
         price = price_v,
         quantity = PyInt \<bar>qty\<bar>,
         aci = nkd,
         comment = Trades_extract_comment a,
         operation_id = trade_no,
         commission = commission_v\<rparr>)"

definition Trades_process_details_element ::
    "dto_ctor \<Rightarrow> trades_stats \<Rightarrow> attrs \<Rightarrow> trades_stats \<times> (pyexc + OperationDTO option)" where
  "Trades_process_details_element c st0 a =
     (let st = st0\<lparr>tr_total_rows := tr_total_rows st0 + 1\<rparr>;
          qty = Trades_extract_quantity a
      in if qty = 0 then (st\<lparr>tr_skipped_no_qty := tr_skipped_no_qty st + 1\<rparr>, Inr None)
         else case Trades_extract_date a of
                None \<Rightarrow> (st\<lparr>tr_skipped_no_date := tr_skipped_no_date st + 1\<rparr>, Inr None)
              | Some date_val \<Rightarrow>
                  (case Trades_extract_instrument_data a of
                     Inl e \<Rightarrow> (st, Inl e)
                   | Inr inst \<Rightarrow>
                       let commission_v = Trades_extract_commission a;
                           operation = Trades_build a qty date_val (Trades_extract_trade_data a)
                                         inst commission_v
                       in case c operation of
                            Some e \<Rightarrow>
                              (st\<lparr>tr_skipped_invalid := tr_skipped_invalid st + 1\<rparr>, Inr None)
                          | None \<Rightarrow>
                              (st\<lparr>tr_parsed := tr_parsed st + 1,
                                  tr_total_commission :=
                                    py_fadd (tr_total_commission st) commission_v\<rparr>,
                               Inr (Some operation))))"

section \<open>The host: files, the XML reader, the record constructor\<close>

text \<open>
  What the source takes from its environment is a parameter of the model:
  \<^item> \<open>iterparse_events\<close>: the streaming XML reader as a function of the file content: the
    elements of the \<open>end\<close> events in document order and, when the document is malformed,
    the exception raised after them;
  \<^item> \<open>parse_tree\<close>: the tree-building XML reader (\<open>ET.fromstring\<close>, \<open>ET.parse\<close>);
  \<^item> \<open>open_error\<close> and \<open>write_error\<close>: the exceptions for a file that cannot be read
    or written;
  \<^item> \<open>fromisoformat\<close>: \<open>datetime.fromisoformat\<close>, whose grammar depends on the
    interpreter version (\<open>None\<close> stands for \<open>ValueError\<close>);
  \<^item> \<open>isalnum\<close>: \<open>str.isalnum\<close> on the code points outside ASCII, from the
    interpreter's Unicode database;
  \<^item> \<open>ctor\<close>: the constructor of the operation record;
  \<^item> \<open>should_skip_operation\<close> and \<open>determine_operation_type\<close>: the two entry points
    of the Operation Classifier, which is not among the sources. Each returns a value or
    raises.
\<close>

record host =
  iterparse_events :: "nat list \<Rightarrow> element list \<times> pyexc option"
  parse_tree :: "nat list \<Rightarrow> pyexc + element"
  open_error :: "ustr \<Rightarrow> pyexc"
  write_error :: "ustr \<Rightarrow> pyexc"
  fromisoformat :: "ustr \<Rightarrow> datetime option"
  isalnum :: "nat \<Rightarrow> bool"
  ctor :: dto_ctor
  should_skip_operation :: "ustr option \<Rightarrow> ustr \<Rightarrow> ustr \<Rightarrow> pyexc + bool"
  determine_operation_type :: "ustr option \<Rightarrow> ustr \<Rightarrow> pyfloat \<Rightarrow> pyexc + ustr"

text \<open>
  The file system: the content of each file, and whether the working directory accepts
  writes. An argument of a parse call is a path, or a bytes object with its identity
  (\<open>id\<close>) and its content.
\<close>

record world =
  files :: "ustr \<rightharpoonup> nat list"
  writable :: bool

datatype source_arg = Path ustr | Bytes nat "nat list"

text \<open>The result of a call: the exception that leaves it, or the value it returns.\<close>

datatype 'a outcome = Raises pyexc | Returns 'a

text \<open>A returned diagnostics map: the \<open>error\<close> key, when present, and the counters.\<close>

datatype 's diagnostics = Diagnostics (diag_error: "ustr option") (diag_stats: 's)

text \<open>Decimal rendering of a natural number (\<open>str\<close> of a non-negative \<open>int\<close>).\<close>

function str_nat :: "nat \<Rightarrow> ustr" where
  "str_nat n = (if n < 10 then [48 + n] else str_nat (n div 10) @ [48 + n mod 10])"
  by pat_completeness auto
termination
  by (relation "measure id") auto

declare str_nat.simps [simp del]

definition tmp_name :: "nat \<Rightarrow> ustr" where
  "tmp_name i = asc ''__xml_tmp_'' @ str_nat i @ asc ''__.xml''"

text \<open>
  \<open>XmlParserBase.prepare_xml_source\<close>: a failure to write the temporary file is logged
  and raised again.
\<close>

definition prepare_xml_source ::
    "host \<Rightarrow> world \<Rightarrow> source_arg \<Rightarrow> pyexc + ((ustr \<times> bool) \<times> world)" where
  "prepare_xml_source h w arg =
     (case arg of
        Path p \<Rightarrow> Inr ((p, False), w)
      | Bytes i b \<Rightarrow>
          if writable w
          then Inr ((tmp_name i, True), w\<lparr>files := (files w)(tmp_name i \<mapsto> b)\<rparr>)
          else Inl (write_error h (tmp_name i)))"

text \<open>\<open>XmlParserBase.cleanup_tmp_file\<close>: a failing \<open>unlink\<close> is swallowed.\<close>

definition cleanup_tmp_file :: "world \<Rightarrow> ustr \<Rightarrow> bool \<Rightarrow> world" where
  "cleanup_tmp_file w source cleanup_needed =
     (if cleanup_needed \<and> writable w then w\<lparr>files := (files w)(source := None)\<rparr> else w)"

text \<open>\<open>ET.iterparse(source, events=("end",))\<close> on the file system.\<close>

definition iterparse :: "host \<Rightarrow> world \<Rightarrow> ustr \<Rightarrow> element list \<times> pyexc option" where
  "iterparse h w source =
     (case files w source of
        None \<Rightarrow> ([], Some (open_error h source))
      | Some b \<Rightarrow> iterparse_events h b)"

text \<open>
  The traversal loop shared, as identical text, by \<open>TradesParser.parse\<close> and
  \<open>TransfersParser.parse\<close>: elements other than \<open>details\<close> are skipped, a row's
  record is appended, and an exception leaving a row ends the loop. The result is the
  statistics, the records so far, and the exception if one was raised.
\<close>

fun details_loop ::
    "('s \<Rightarrow> attrs \<Rightarrow> 's \<times> (pyexc + OperationDTO option)) \<Rightarrow> 's \<Rightarrow> OperationDTO list \<Rightarrow>
     element list \<Rightarrow> 's \<times> OperationDTO list \<times> pyexc option" where
  "details_loop process st ops [] = (st, ops, None)"
| "details_loop process st ops (e # es) =
     (if py_lower (local_name (Some (tag e))) \<noteq> asc ''details''
      then details_loop process st ops es
      else case process st (normalize_attrib (attrib e)) of
             (st', Inl exc) \<Rightarrow> (st', ops, Some exc)
           | (st', Inr None) \<Rightarrow> details_loop process st' ops es
           | (st', Inr (Some operation)) \<Rightarrow> details_loop process st' (ops @ [operation]) es)"

text \<open>
  The body of \<open>parse\<close> of both streaming parsers. \<open>prepare_xml_source\<close> is called
  before the \<open>try\<close> statement, so its exception leaves the call. Inside the
  \<open>try\<close>, an exception of the reader or of a row is caught and reported under the
  \<open>error\<close> key, with the records accumulated so far; the \<open>finally\<close> clause removes
  the temporary file. The third component is the parser object's statistics after the call.
\<close>

definition streaming_parse ::
    "('s \<Rightarrow> attrs \<Rightarrow> 's \<times> (pyexc + OperationDTO option)) \<Rightarrow> host \<Rightarrow> world \<Rightarrow> 's \<Rightarrow> source_arg \<Rightarrow>
     (OperationDTO list \<times> 's diagnostics) outcome \<times> world \<times> 's" where
  "streaming_parse process h w st0 arg =
     (case prepare_xml_source h w arg of
        Inl e \<Rightarrow> (Raises e, w, st0)
      | Inr ((source, cleanup_needed), w1) \<Rightarrow>
          (case iterparse h w1 source of (elems, reader_exc) \<Rightarrow>
           case details_loop process st0 [] elems of (st, ops, row_exc) \<Rightarrow>
             let exc = (case row_exc of Some e \<Rightarrow> Some e | None \<Rightarrow> reader_exc)
             in (Returns (ops, Diagnostics (map_option exc_str exc) st),
                 cleanup_tmp_file w1 source cleanup_needed, st)))"

text \<open>\<open>TradesParser.parse\<close> and the public \<open>parse_trades_from_xml\<close>, which builds a
  new parser for every call.\<close>

definition TradesParser_parse ::
    "host \<Rightarrow> world \<Rightarrow> trades_stats \<Rightarrow> source_arg \<Rightarrow>
     (OperationDTO list \<times> trades_stats diagnostics) outcome \<times> world \<times> trades_stats" where
  "TradesParser_parse h w self arg =
     streaming_parse (Trades_process_details_element (ctor h)) h w self arg"

definition parse_trades_from_xml ::
    "host \<Rightarrow> world \<Rightarrow> source_arg \<Rightarrow> (OperationDTO list \<times> trades_stats diagnostics) outcome \<times> world" where
  "parse_trades_from_xml h w arg =
     (case TradesParser_parse h w TradesParser_init arg of (r, w', self') \<Rightarrow> (r, w'))"

section \<open>The transfers parser\<close>

record transfers_stats =
  xf_total_rows :: nat
  xf_parsed :: nat
  xf_skipped_not_conversion :: nat
  xf_skipped_no_date :: nat
  xf_skipped_no_qty :: nat
  xf_skipped_invalid :: nat

text \<open>\<open>TransfersParser.__init__\<close>\<close>

definition TransfersParser_init :: transfers_stats where
  "TransfersParser_init =
     \<lparr>xf_total_rows = 0, xf_parsed = 0, xf_skipped_not_conversion = 0, xf_skipped_no_date = 0,
      xf_skipped_no_qty = 0, xf_skipped_invalid = 0\<rparr>"

text \<open>\<open>sub in s\<close> on strings.\<close>

fun py_contains :: "ustr \<Rightarrow> ustr \<Rightarrow> bool" where
  "py_contains sub [] = (sub = [])"
| "py_contains sub (x # s) = (take (length sub) (x # s) = sub \<or> py_contains sub s)"

text \<open>The two Cyrillic words of the filter, by code point: the operation type
  "transfer" and the comment fragment "conversion", both in lower case.\<close>

definition word_perevod :: ustr where
  "word_perevod = [1087, 1077, 1088, 1077, 1074, 1086, 1076]"

definition word_konvertaciya :: ustr where
  "word_konvertaciya = [1082, 1086, 1085, 1074, 1077, 1088, 1090, 1072, 1094, 1080, 1103]"

text \<open>\<open>TransfersParser._is_conversion_operation\<close>\<close>

definition Transfers_is_conversion_operation :: "attrs \<Rightarrow> bool" where
  "Transfers_is_conversion_operation a =
     (let oper_type = py_lower (py_strip (or_str (a (asc ''oper_type'')) []));
          comment_new = py_lower (py_strip (or_str (a (asc ''comment_new'')) []))
      in oper_type = word_perevod \<and> py_contains word_konvertaciya comment_new)"

text \<open>\<open>utils.parse_datetime_from_components\<close>\<close>

definition before_T :: "ustr \<Rightarrow> ustr" where
  "before_T s = takeWhile (\<lambda>c. c \<noteq> 84) s"

definition parse_datetime_from_components ::
    "host \<Rightarrow> ustr option \<Rightarrow> ustr option \<Rightarrow> datetime option" where
  "parse_datetime_from_components h date_str time_str =
     (if \<not> truthy date_str then None
      else let d = the date_str;
               first_try =
                 (if 84 \<in> set d
                  then (if truthy time_str
                        then strptime (before_T d @ [32] @ takeWhile (\<lambda>c. c \<noteq> 46) (the time_str))
                               fmt_Ymd_HMS
                        else fromisoformat h d)
                  else (if truthy time_str
                        then strptime (d @ [32] @ the time_str) fmt_Ymd_HMS
                        else strptime d fmt_Ymd))
           in case first_try of
                Some r \<Rightarrow> Some r
              | None \<Rightarrow> if 84 \<in> set d then strptime (before_T d) fmt_Ymd else strptime d fmt_Ymd)"

text \<open>\<open>TransfersParser._extract_date\<close> and \<open>TransfersParser._extract_isin\<close>\<close>

definition Transfers_extract_date :: "host \<Rightarrow> attrs \<Rightarrow> datetime option" where
  "Transfers_extract_date h a =
     parse_datetime_from_components h (a (asc ''settlement_date'')) (a (asc ''settlement_time''))"

definition Transfers_extract_isin :: "attrs \<Rightarrow> ustr" where
  "Transfers_extract_isin a = extract_isin_from_attr (Some (or_str (a (asc ''p_name'')) []))"

text \<open>\<open>TransfersParser._process_details_element\<close>\<close>

definition Transfers_build :: "attrs \<Rightarrow> pyfloat \<Rightarrow> datetime \<Rightarrow> OperationDTO" where
  "Transfers_build a qty date_val =
     \<lparr>date = Some date_val,
      operation_type = (if float_pos qty then asc ''asset_receive'' else asc ''asset_withdrawal''),
      payment_sum = Fin 0,
      currency = [],
      ticker = [],
      isin = Transfers_extract_isin a,
      reg_number = [],
      price = Fin 0,
      quantity = PyFloat (py_fabs qty),
      aci = Fin 0,
      comment = or_str (a (asc ''comment_new'')) [],
      operation_id = [],
      commission = Fin 0\<rparr>"

definition Transfers_process_details_element ::
    "host \<Rightarrow> transfers_stats \<Rightarrow> attrs \<Rightarrow> transfers_stats \<times> (pyexc + OperationDTO option)" where
  "Transfers_process_details_element h st0 a =
     (let st = st0\<lparr>xf_total_rows := xf_total_rows st0 + 1\<rparr>
      in if \<not> Transfers_is_conversion_operation a
         then (st\<lparr>xf_skipped_not_conversion := xf_skipped_not_conversion st + 1\<rparr>, Inr None)
         else let qty = to_float_safe (Some (or_str (a (asc ''qty'')) (asc ''0'')))
              in if float_is_zero qty
                 then (st\<lparr>xf_skipped_no_qty := xf_skipped_no_qty st + 1\<rparr>, Inr None)
                 else case Transfers_extract_date h a of
                        None \<Rightarrow> (st\<lparr>xf_skipped_no_date := xf_skipped_no_date st + 1\<rparr>, Inr None)
                      | Some date_val \<Rightarrow>
                          (case ctor h (Transfers_build a qty date_val) of
                             Some e \<Rightarrow>
                               (st\<lparr>xf_skipped_invalid := xf_skipped_invalid st + 1\<rparr>, Inr None)
                           | None \<Rightarrow>
                               (st\<lparr>xf_parsed := xf_parsed st + 1\<rparr>,
                                Inr (Some (Transfers_build a qty date_val)))))"

text \<open>\<open>TransfersParser.parse\<close> and the public \<open>parse_transfers_from_xml\<close>\<close>

definition TransfersParser_parse ::
    "host \<Rightarrow> world \<Rightarrow> transfers_stats \<Rightarrow> source_arg \<Rightarrow>
     (OperationDTO list \<times> transfers_stats diagnostics) outcome \<times> world \<times> transfers_stats" where
  "TransfersParser_parse h w self arg =
     streaming_parse (Transfers_process_details_element h) h w self arg"

definition parse_transfers_from_xml ::
    "host \<Rightarrow> world \<Rightarrow> source_arg \<Rightarrow>
     (OperationDTO list \<times> transfers_stats diagnostics) outcome \<times> world" where
  "parse_transfers_from_xml h w arg =
     (case TransfersParser_parse h w TransfersParser_init arg of (r, w', self') \<Rightarrow> (r, w'))"

section \<open>The counter invariant of the trades parser\<close>


section \<open>Exact decimals\<close>

text \<open>
  A \<open>Decimal\<close> is a sign (\<open>True\<close> for negative), a coefficient and an exponent, an
  infinity, or a quiet or signalling NaN. The operations are those of the default context:
  precision 28, round-half-even, \<open>InvalidOperation\<close> and \<open>Overflow\<close> trapped (raised).
  The exponent limits of the context (beyond \<open>E+999999\<close>) are modelled for overflow only.
\<close>

datatype decimal = DFin bool nat int | DInf bool | DNaN | DsNaN

definition dec_zero :: decimal where
  "dec_zero = DFin False 0 0"

text \<open>Truthiness: only a finite zero is false.\<close>

definition dec_truthy :: "decimal \<Rightarrow> bool" where
  "dec_truthy d \<longleftrightarrow> (case d of DFin s c e \<Rightarrow> c \<noteq> 0 | _ \<Rightarrow> True)"

definition num_digits :: "nat \<Rightarrow> nat" where
  "num_digits c = length (str_nat c)"

text \<open>Division of a coefficient by a power of ten, rounded half to even.\<close>

definition div_half_even :: "nat \<Rightarrow> nat \<Rightarrow> nat" where
  "div_half_even c p =
     (let q = c div p; r = c mod p
      in if 2 * r < p then q else if p < 2 * r then q + 1 else if even q then q else q + 1)"

text \<open>
  Rounding of an exact result to the context (\<open>_fix\<close>): at most 28 digits, and an
  adjusted exponent of at most 999999.
\<close>

definition dec_fix :: "bool \<Rightarrow> nat \<Rightarrow> int \<Rightarrow> pyexc + decimal" where
  "dec_fix s c e =
     (let n = num_digits c;
          c1 = (if 28 < n then div_half_even c (10 ^ (n - 28)) else c);
          e1 = (if 28 < n then e + int (n - 28) else e);
          c2 = (if 28 < num_digits c1 then c1 div 10 else c1);
          e2 = (if 28 < num_digits c1 then e1 + 1 else e1)
      in if c \<noteq> 0 \<and> 999999 < e2 + int (num_digits c2) - 1
         then Inl (DecimalError (asc ''[<class 'decimal.Overflow'>]''))
         else Inr (DFin s c2 e2))"

text \<open>\<open>a + b\<close>\<close>

definition signed_coeff :: "bool \<Rightarrow> nat \<Rightarrow> int" where
  "signed_coeff s c = (if s then - int c else int c)"

definition invalid_operation :: pyexc where
  "invalid_operation = DecimalError (asc ''[<class 'decimal.InvalidOperation'>]'')"

fun dec_add :: "decimal \<Rightarrow> decimal \<Rightarrow> pyexc + decimal" where
  "dec_add DsNaN _ = Inl invalid_operation"
| "dec_add _ DsNaN = Inl invalid_operation"
| "dec_add DNaN _ = Inr DNaN"
| "dec_add _ DNaN = Inr DNaN"
| "dec_add (DInf s) (DInf t) = (if s = t then Inr (DInf s) else Inl invalid_operation)"
| "dec_add (DInf s) _ = Inr (DInf s)"
| "dec_add _ (DInf t) = Inr (DInf t)"
| "dec_add (DFin s c e) (DFin t d f) =
     (let g = min e f;
          v = signed_coeff s (c * 10 ^ nat (e - g)) + signed_coeff t (d * 10 ^ nat (f - g))
      in if v = 0 then dec_fix (s \<and> t) 0 g else dec_fix (v < 0) (nat \<bar>v\<bar>) g)"

text \<open>\<open>d > 0\<close> and \<open>d < 0\<close>: an ordering comparison with a NaN raises.\<close>

definition dec_gt0 :: "decimal \<Rightarrow> pyexc + bool" where
  "dec_gt0 d =
     (case d of
        DFin s c e \<Rightarrow> Inr (\<not> s \<and> c \<noteq> 0)
      | DInf s \<Rightarrow> Inr (\<not> s)
      | _ \<Rightarrow> Inl invalid_operation)"

definition dec_lt0 :: "decimal \<Rightarrow> pyexc + bool" where
  "dec_lt0 d =
     (case d of
        DFin s c e \<Rightarrow> Inr (s \<and> c \<noteq> 0)
      | DInf s \<Rightarrow> Inr s
      | _ \<Rightarrow> Inl invalid_operation)"

text \<open>\<open>float(d)\<close>: the nearest binary64 value; a signalling NaN raises.\<close>

definition dec_to_float :: "decimal \<Rightarrow> pyexc + pyfloat" where
  "dec_to_float d =
     (case d of
        DFin s c e \<Rightarrow> Inr (to_binary64 (of_int (signed_coeff s c) * pow10 e))
      | DInf s \<Rightarrow> Inr (if s then NInf else PInf)
      | DNaN \<Rightarrow> Inr NaN
      | DsNaN \<Rightarrow> Inl (DecimalError (asc ''cannot convert signaling NaN to float'')))"

text \<open>
  \<open>Decimal(str)\<close>: surrounding white space and all underscores are removed; then an
  optional sign and a decimal literal with at least one digit and an optional exponent,
  \<open>Inf\<close> or \<open>Infinity\<close>, or \<open>NaN\<close> or \<open>sNaN\<close> with optional diagnostic digits, in any
  case. \<open>None\<close> stands for \<open>InvalidOperation\<close>.
\<close>

definition py_decimal :: "ustr \<Rightarrow> decimal option" where
  "py_decimal s0 =
     (let (neg, body) = split_sign (filter (\<lambda>c. c \<noteq> 95) (py_strip s0));
          lw = py_lower body
      in if lw = asc ''inf'' \<or> lw = asc ''infinity'' then Some (DInf neg)
         else if take 3 lw = asc ''nan'' \<and> list_all is_decimal (drop 3 lw) then Some DNaN
         else if take 4 lw = asc ''snan'' \<and> list_all is_decimal (drop 4 lw) then Some DsNaN
         else case parse_decimal body of
                None \<Rightarrow> None
              | Some (m, e) \<Rightarrow> Some (DFin neg m e))"

text \<open>
  \<open>d.quantize(Decimal("0.0001"))\<close>: the value at exponent -4. It raises for an infinity
  and a signalling NaN, and when the result would have more than 28 digits; a quiet NaN is
  returned as it is.
\<close>

definition dec_quantize4 :: "decimal \<Rightarrow> pyexc + decimal" where
  "dec_quantize4 d =
     (case d of
        DsNaN \<Rightarrow> Inl invalid_operation
      | DNaN \<Rightarrow> Inr DNaN
      | DInf s \<Rightarrow> Inl invalid_operation
      | DFin s c e \<Rightarrow>
          if c = 0 then Inr (DFin s 0 (- 4))
          else if 999999 < e + int (num_digits c) - 1 then Inl invalid_operation
          else if 28 < e + int (num_digits c) - 1 + 4 + 1 then Inl invalid_operation
          else let c' = (if - 4 \<le> e then c * 10 ^ nat (e + 4)
                         else div_half_even c (10 ^ nat (- 4 - e)))
               in if 28 < num_digits c' then Inl invalid_operation
                  else Inr (DFin s c' (- 4)))"

text \<open>\<open>"%+d" % n\<close>\<close>

definition str_int_signed :: "int \<Rightarrow> ustr" where
  "str_int_signed n = (if n < 0 then 45 # str_nat (nat (- n)) else 43 # str_nat (nat n))"

text \<open>
  \<open>str(d)\<close>: the scientific string of the decimal arithmetic specification, from the
  digits \<open>ds\<close> of the coefficient, the position \<open>leftdigits\<close> of the decimal
  point relative to them, and the chosen \<open>dotplace\<close>.
\<close>

definition sci_place :: "bool \<Rightarrow> ustr \<Rightarrow> int \<Rightarrow> int \<Rightarrow> ustr" where
  "sci_place s ds leftdigits dotplace =
     (if s then [45] else []) @
     (if dotplace \<le> 0 then asc ''0''
      else if int (length ds) \<le> dotplace
           then ds @ replicate (nat (dotplace - int (length ds))) 48
           else take (nat dotplace) ds) @
     (if dotplace \<le> 0 then 46 # replicate (nat (- dotplace)) 48 @ ds
      else if int (length ds) \<le> dotplace then []
           else 46 # drop (nat dotplace) ds) @
     (if leftdigits = dotplace then [] else 69 # str_int_signed (leftdigits - dotplace))"

definition sci_string :: "bool \<Rightarrow> ustr \<Rightarrow> int \<Rightarrow> ustr" where
  "sci_string s ds e =
     sci_place s ds (e + int (length ds))
       (if e \<le> 0 \<and> - 6 < e + int (length ds) then e + int (length ds) else 1)"

definition dec_str :: "decimal \<Rightarrow> ustr" where
  "dec_str d =
     (case d of
        DInf s \<Rightarrow> (if s then asc ''-Infinity'' else asc ''Infinity'')
      | DNaN \<Rightarrow> asc ''NaN''
      | DsNaN \<Rightarrow> asc ''sNaN''
      | DFin s c e \<Rightarrow> sci_string s (str_nat c) e)"

text \<open>
  \<open>format(d, "f")\<close> without precision: the digits with the decimal point at
  \<open>dotplace\<close>, and no exponent.
\<close>

definition fixed_place :: "bool \<Rightarrow> ustr \<Rightarrow> int \<Rightarrow> ustr" where
  "fixed_place s ds dotplace =
     (if s then [45] else []) @
     (if dotplace < 0 then asc ''0''
      else if int (length ds) < dotplace
           then ds @ replicate (nat (dotplace - int (length ds))) 48
           else if dotplace = 0 then asc ''0'' else take (nat dotplace) ds) @
     (let fracpart = (if dotplace < 0 then replicate (nat (- dotplace)) 48 @ ds
                      else if int (length ds) < dotplace then []
                      else drop (nat dotplace) ds)
      in if fracpart = [] then [] else 46 # fracpart)"

definition dec_format_f :: "decimal \<Rightarrow> ustr" where
  "dec_format_f d =
     (case d of
        DInf s \<Rightarrow> (if s then asc ''-Infinity'' else asc ''Infinity'')
      | DNaN \<Rightarrow> asc ''NaN''
      | DsNaN \<Rightarrow> asc ''sNaN''
      | DFin s c e \<Rightarrow> fixed_place s (str_nat c) (e + int (length (str_nat c))))"

section \<open>The financial operations parser\<close>

text \<open>
  The diagnostics of the parser. The four exact-decimal entries are \<open>Decimal\<close> values
  while the parser runs and strings in the map that a successful parse returns, so the record
  is polymorphic in their type. A dictionary is an association list in insertion order.
\<close>

record 'v fo_stats =
  fo_total_rows :: nat
  fo_parsed :: nat
  fo_skipped :: nat
  fo_example_comments :: "ustr list"
  fo_amounts_by_mapped_type :: "(ustr \<times> 'v) list"
  fo_amounts_by_label :: "(ustr \<times> 'v) list"
  fo_total_income :: 'v
  fo_total_expense :: 'v

text \<open>\<open>FinancialOperationsParser.__init__\<close>\<close>

definition FinOps_init :: "decimal fo_stats" where
  "FinOps_init =
     \<lparr>fo_total_rows = 0, fo_parsed = 0, fo_skipped = 0, fo_example_comments = [],
      fo_amounts_by_mapped_type = [], fo_amounts_by_label = [],
      fo_total_income = dec_zero, fo_total_expense = dec_zero\<rparr>"

text \<open>\<open>d[k] = v\<close> and \<open>d.get(k, default)\<close> on a dictionary.\<close>

fun dict_set :: "'k \<Rightarrow> 'v \<Rightarrow> ('k \<times> 'v) list \<Rightarrow> ('k \<times> 'v) list" where
  "dict_set k v [] = [(k, v)]"
| "dict_set k v (p # ps) = (if fst p = k then (k, v) # ps else p # dict_set k v ps)"

definition dict_get :: "('k \<times> 'v) list \<Rightarrow> 'k \<Rightarrow> 'v \<Rightarrow> 'v" where
  "dict_get d k dflt = (case map_of d k of None \<Rightarrow> dflt | Some v \<Rightarrow> v)"

text \<open>
  \<open>Element.iter()\<close>: the element and its descendants in document order. The attribute
  names of an element are distinct, so \<open>attrib.get\<close> is a lookup in the list.
\<close>

fun iter_el :: "element \<Rightarrow> element list" where
  "iter_el (Element t a cs) = Element t a cs # concat (map iter_el cs)"

definition attrib_get :: "element \<Rightarrow> ustr \<Rightarrow> ustr option" where
  "attrib_get el k = map_of (attrib el) k"

definition has_local_name :: "ustr \<Rightarrow> element \<Rightarrow> bool" where
  "has_local_name local el \<longleftrightarrow> local_name (Some (tag el)) = local"

text \<open>\<open>_safe_attr\<close>\<close>

definition FinOps_safe_attr :: "element option \<Rightarrow> ustr \<Rightarrow> ustr option" where
  "FinOps_safe_attr elem name =
     (case elem of
        None \<Rightarrow> None
      | Some el \<Rightarrow>
          let v = py_or (attrib_get el name) (attrib_get el (py_lower name))
          in if truthy v \<and> py_strip (the v) \<noteq> [] then Some (py_strip (the v)) else None)"

text \<open>\<open>_parse_decimal\<close>\<close>

definition FinOps_parse_decimal :: "ustr option \<Rightarrow> decimal option" where
  "FinOps_parse_decimal v =
     (case v of None \<Rightarrow> None | Some s \<Rightarrow> py_decimal (py_replace 44 [46] s))"

text \<open>\<open>_parse_iso_datetime\<close>\<close>

definition FinOps_parse_iso_datetime :: "host \<Rightarrow> ustr option \<Rightarrow> datetime option" where
  "FinOps_parse_iso_datetime h v =
     (if \<not> truthy v then None
      else case fromisoformat h (the v) of
             Some d \<Rightarrow> Some d
           | None \<Rightarrow> strptime (before_T (the v)) fmt_Ymd)"

text \<open>\<open>_decimal_to_float\<close>\<close>

definition FinOps_decimal_to_float :: "decimal option \<Rightarrow> pyfloat" where
  "FinOps_decimal_to_float d =
     (case d of
        None \<Rightarrow> Fin 0
      | Some x \<Rightarrow> (case dec_to_float x of Inr f \<Rightarrow> f | Inl e \<Rightarrow> Fin 0))"

text \<open>\<open>_format_decimal\<close>: when \<open>quantize\<close> raises, the value is rendered by \<open>str\<close>.\<close>

definition FinOps_format_decimal :: "decimal \<Rightarrow> ustr" where
  "FinOps_format_decimal d =
     (case dec_quantize4 d of
        Inr q \<Rightarrow> dec_format_f q
      | Inl e \<Rightarrow> dec_str d)"

text \<open>\<open>_finalize_stats\<close>\<close>

definition FinOps_finalize_stats :: "decimal fo_stats \<Rightarrow> ustr fo_stats" where
  "FinOps_finalize_stats st =
     \<lparr>fo_total_rows = fo_total_rows st,
      fo_parsed = fo_parsed st,
      fo_skipped = fo_skipped st,
      fo_example_comments = fo_example_comments st,
      fo_amounts_by_mapped_type =
        map (\<lambda>(k, v). (k, FinOps_format_decimal v)) (fo_amounts_by_mapped_type st),
      fo_amounts_by_label =
        map (\<lambda>(k, v). (k, FinOps_format_decimal v)) (fo_amounts_by_label st),
      fo_total_income = FinOps_format_decimal (fo_total_income st),
      fo_total_expense = FinOps_format_decimal (fo_total_expense st)\<rparr>"

text \<open>\<open>_find_report_element\<close>: both branches under the first \<open>Report\<close> return it.\<close>

definition FinOps_find_report_element :: "element \<Rightarrow> element" where
  "FinOps_find_report_element root_el =
     (case find (has_local_name (asc ''Report'')) (iter_el root_el) of
        Some rep \<Rightarrow>
          let name = py_or (attrib_get rep (asc ''Name'')) (attrib_get rep (asc ''name''))
          in if truthy name \<and> py_contains (asc ''BrokerMoneyMove'') (the name) then rep else rep
      | None \<Rightarrow> root_el)"

text \<open>\<open>_collect_elements_by_local_name\<close>, \<open>_collect_rn_nodes\<close>,
  \<open>_find_first_descendant_by_local_name\<close>, \<open>_parse_settlement_date\<close>\<close>

definition FinOps_collect_elements_by_local_name :: "element \<Rightarrow> ustr \<Rightarrow> element list" where
  "FinOps_collect_elements_by_local_name root_el local = filter (has_local_name local) (iter_el root_el)"

definition FinOps_collect_rn_nodes :: "element \<Rightarrow> element list" where
  "FinOps_collect_rn_nodes settlement_node =
     (let rn_nodes = filter (has_local_name (asc ''rn'')) (iter_el settlement_node)
      in if rn_nodes = [] then filter (has_local_name (asc ''rn'')) (children settlement_node)
         else rn_nodes)"

definition FinOps_find_first_descendant_by_local_name :: "element \<Rightarrow> ustr \<Rightarrow> element option" where
  "FinOps_find_first_descendant_by_local_name root_el local = find (has_local_name local) (iter_el root_el)"

definition FinOps_parse_settlement_date :: "host \<Rightarrow> element \<Rightarrow> datetime option" where
  "FinOps_parse_settlement_date h settlement_node =
     FinOps_parse_iso_datetime h (FinOps_safe_attr (Some settlement_node) (asc ''settlement_date''))"

text \<open>
  \<open>_extract_oper_type_and_comment\<close>. The test \<open>if oper_type_elem\<close> is the truth value
  of an element, which is false for an element without children; the label is then the empty
  string. With children it is the attribute, or \<open>None\<close>.
\<close>

definition FinOps_extract_oper_type_and_comment :: "element \<Rightarrow> ustr option \<times> ustr" where
  "FinOps_extract_oper_type_and_comment rn_node =
     (let oper_type_elem = find (has_local_name (asc ''oper_type'')) (iter_el rn_node);
          oper_type_val =
            (if (case oper_type_elem of None \<Rightarrow> False | Some el \<Rightarrow> children el \<noteq> [])
             then FinOps_safe_attr oper_type_elem (asc ''oper_type'')
             else Some []);
          comment_elem0 =
            (case oper_type_elem of
               None \<Rightarrow> None
             | Some el \<Rightarrow> FinOps_find_first_descendant_by_local_name el (asc ''comment''));
          comment_elem =
            (case comment_elem0 of
               None \<Rightarrow> FinOps_find_first_descendant_by_local_name rn_node (asc ''comment'')
             | Some el \<Rightarrow> Some el)
      in (oper_type_val, or_str (FinOps_safe_attr comment_elem (asc ''comment'')) []))"

text \<open>\<open>_collect_p_code_candidates\<close> and the loop over the candidates.\<close>

definition FinOps_collect_p_code_candidates :: "element option \<Rightarrow> (ustr \<times> ustr) list list" where
  "FinOps_collect_p_code_candidates elem =
     (case elem of
        None \<Rightarrow> []
      | Some el \<Rightarrow> map attrib (filter (has_local_name (asc ''p_code'')) (iter_el el)))"

fun p_code_scan ::
    "ustr \<Rightarrow> decimal option \<Rightarrow> (ustr \<times> ustr) list list \<Rightarrow> ustr \<times> decimal option" where
  "p_code_scan currency_v amount [] = (currency_v, amount)"
| "p_code_scan currency_v amount (c # cs) =
     (let cur = get_or (map_of c) [asc ''p_code'', asc ''currency''];
          vol = get_or (map_of c) [asc ''volume'', asc ''volume1'', asc ''amount'']
      in p_code_scan
           (if truthy cur \<and> currency_v = [] then py_strip (the cur) else currency_v)
           (if truthy vol \<and> amount = None then FinOps_parse_decimal (Some (py_strip (the vol)))
            else amount)
           cs)"

text \<open>\<open>_extract_textbox_values\<close>: the first non-blank value of each mapped key.\<close>

definition textbox_mapping :: "ustr \<rightharpoonup> ustr" where
  "textbox_mapping =
     map_of [(asc ''Textbox83'', asc ''money_volume''), (asc ''Textbox84'', asc ''all_volume''),
             (asc ''Textbox93'', asc ''debet_volume''), (asc ''Textbox11'', asc ''acc_code'')]"

definition textbox_step :: "(ustr \<rightharpoonup> ustr) \<Rightarrow> element \<Rightarrow> (ustr \<rightharpoonup> ustr)" where
  "textbox_step res node =
     (case textbox_mapping (local_name (Some (tag node))) of
        None \<Rightarrow> res
      | Some key \<Rightarrow>
          if res key = None
          then (let v = attrib_get node key
                in if truthy v \<and> py_strip (the v) \<noteq> [] then res(key \<mapsto> py_strip (the v))
                   else res)
          else res)"

definition FinOps_extract_textbox_values :: "element option \<Rightarrow> (ustr \<rightharpoonup> ustr)" where
  "FinOps_extract_textbox_values comment_elem =
     (case comment_elem of
        None \<Rightarrow> Map.empty
      | Some el \<Rightarrow> foldl textbox_step Map.empty (iter_el el))"

fun textbox_amount :: "(ustr \<rightharpoonup> ustr) \<Rightarrow> ustr list \<Rightarrow> decimal option" where
  "textbox_amount tv [] = None"
| "textbox_amount tv (key # keys) =
     (if truthy (tv key)
      then (case FinOps_parse_decimal (tv key) of
              Some d \<Rightarrow> Some d
            | None \<Rightarrow> textbox_amount tv keys)
      else textbox_amount tv keys)"

text \<open>
  \<open>_extract_currency_and_amount\<close>: without a \<open>comment\<close> element the amount is
  \<open>None\<close>; otherwise \<open>amount or Decimal("0")\<close> replaces a missing amount and every
  zero by the integer zero.
\<close>

definition FinOps_extract_currency_and_amount :: "element \<Rightarrow> ustr \<times> decimal option" where
  "FinOps_extract_currency_and_amount rn_node =
     (case FinOps_find_first_descendant_by_local_name rn_node (asc ''comment'') of
        None \<Rightarrow> ([], None)
      | Some comment_elem \<Rightarrow>
          (case p_code_scan [] None (FinOps_collect_p_code_candidates (Some comment_elem)) of
             (currency_v, amount0) \<Rightarrow>
               let amount =
                     (if amount0 = None
                      then textbox_amount (FinOps_extract_textbox_values (Some comment_elem))
                             [asc ''money_volume'', asc ''all_volume'', asc ''debet_volume'']
                      else amount0)
               in (currency_v,
                   Some (case amount of
                           None \<Rightarrow> dec_zero
                         | Some d \<Rightarrow> if dec_truthy d then d else dec_zero))))"

text \<open>
  \<open>RE_REG_NUMBER\<close>, compiled with \<open>re.IGNORECASE\<close>: its letter ranges are the Latin
  and the Cyrillic capitals. With the flag they accept both cases of both alphabets and the
  characters the engine treats as their equivalents: those of \<open>[A-Z]\<close>, and the
  Cyrillic letter variants U+1C80 to U+1C86.
\<close>

definition reg_alnum :: "nat \<Rightarrow> bool" where
  "reg_alnum c \<longleftrightarrow>
     is_digit c \<or> letter_i c \<or> (1040 \<le> c \<and> c \<le> 1103) \<or> (7296 \<le> c \<and> c \<le> 7302)"

definition reg_sep :: "nat \<Rightarrow> bool" where
  "reg_sep c \<longleftrightarrow> c = 45 \<or> c = 47"

definition reg_body :: "nat \<Rightarrow> bool" where
  "reg_body c \<longleftrightarrow> reg_alnum c \<or> reg_sep c"

definition RE_REG_NUMBER :: "(nat \<Rightarrow> bool) \<Rightarrow> re_item list" where
  "RE_REG_NUMBER alnum =
     [WordB (is_word alnum), Chr is_digit, Rep reg_alnum 0 (Some 7), Chr reg_sep,
      Rep reg_body 0 None, Chr is_decimal, Rep reg_body 0 None, WordB (is_word alnum)]"

text \<open>\<open>_extract_reg_number\<close>\<close>

definition FinOps_extract_reg_number :: "(nat \<Rightarrow> bool) \<Rightarrow> ustr option \<Rightarrow> ustr" where
  "FinOps_extract_reg_number alnum comment_text =
     (if \<not> truthy comment_text then []
      else case re_search (RE_REG_NUMBER alnum) (the comment_text) of
             Some m \<Rightarrow> m
           | None \<Rightarrow> [])"

text \<open>
  \<open>_should_skip\<close>: \<open>float(amount or 0)\<close> is \<open>0.0\<close> for a zero and raises for a
  signalling NaN; otherwise the classifier decides.
\<close>

definition FinOps_label_source :: "ustr option \<Rightarrow> ustr \<Rightarrow> ustr" where
  "FinOps_label_source oper_type comment_text =
     (if py_strip (or_str oper_type []) \<noteq> [] then py_strip (or_str oper_type [])
      else py_strip comment_text)"

definition FinOps_amount_float :: "decimal option \<Rightarrow> pyexc + pyfloat" where
  "FinOps_amount_float amount =
     (case amount of
        None \<Rightarrow> Inr (Fin 0)
      | Some d \<Rightarrow> if dec_truthy d then dec_to_float d else Inr (Fin 0))"

definition FinOps_should_skip ::
    "host \<Rightarrow> ustr option \<Rightarrow> ustr \<Rightarrow> decimal option \<Rightarrow> pyexc + bool" where
  "FinOps_should_skip h oper_type comment_text amount =
     (let label_source = FinOps_label_source oper_type comment_text
      in if label_source \<noteq> []
         then should_skip_operation h oper_type comment_text label_source
         else if amount = None then Inr True
         else case FinOps_amount_float amount of
                Inl e \<Rightarrow> Inl e
              | Inr f \<Rightarrow> if float_is_zero f then Inr True
                         else should_skip_operation h oper_type comment_text label_source)"

text \<open>
  \<open>_create_operation_dto\<close>: a \<open>datetime\<close> is always true, so
  \<open>settlement_date or rn_last_update_dt\<close> is the settlement date unless it is \<open>None\<close>.
  An exception of the constructor leaves the function.
\<close>

definition FinOps_build ::
    "host \<Rightarrow> datetime option \<Rightarrow> element \<Rightarrow> ustr \<Rightarrow> ustr \<Rightarrow> pyfloat \<Rightarrow> ustr \<Rightarrow> ustr \<Rightarrow> ustr \<Rightarrow>
     OperationDTO" where
  "FinOps_build h settlement_date rn_node op_type currency_v payment_sum_v comment_text
       reg_number_v isin_v =
     \<lparr>date = (case settlement_date of
                Some d \<Rightarrow> Some d
              | None \<Rightarrow> FinOps_parse_iso_datetime h
                          (FinOps_safe_attr (Some rn_node) (asc ''last_update''))),
      operation_type = op_type,
      payment_sum = payment_sum_v,
      currency = currency_v,
      ticker = [],
      isin = isin_v,
      reg_number = reg_number_v,
      price = Fin 0,
      quantity = PyInt 0,
      aci = Fin 0,
      comment = comment_text,
      operation_id = [],
      commission = Fin 0\<rparr>"

definition FinOps_create_operation_dto ::
    "host \<Rightarrow> datetime option \<Rightarrow> element \<Rightarrow> ustr \<Rightarrow> ustr \<Rightarrow> pyfloat \<Rightarrow> ustr \<Rightarrow> ustr \<Rightarrow> ustr \<Rightarrow>
     pyexc + OperationDTO" where
  "FinOps_create_operation_dto h settlement_date rn_node op_type currency_v payment_sum_v
       comment_text reg_number_v isin_v =
     (let operation = FinOps_build h settlement_date rn_node op_type currency_v payment_sum_v
                        comment_text reg_number_v isin_v
      in case ctor h operation of Some e \<Rightarrow> Inl e | None \<Rightarrow> Inr operation)"

text \<open>
  \<open>_update_stats\<close>. Each step mutates the statistics, so an exception leaves behind the
  steps before it: a sum may raise (signalling NaN, opposite infinities, overflow), and so
  may the comparison of a NaN with zero. The first line of a text ends at the first line
  boundary recognised by \<open>str.splitlines\<close>.
\<close>

definition is_linebreak :: "nat \<Rightarrow> bool" where
  "is_linebreak c \<longleftrightarrow> c \<in> {10, 11, 12, 13, 28, 29, 30, 133, 8232, 8233}"

definition first_line :: "ustr \<Rightarrow> ustr" where
  "first_line s = takeWhile (\<lambda>c. \<not> is_linebreak c) s"

definition FinOps_label_key :: "ustr option \<Rightarrow> ustr \<Rightarrow> ustr" where
  "FinOps_label_key oper_type comment_text =
     (if py_strip (or_str oper_type []) \<noteq> [] then py_strip (or_str oper_type [])
      else if comment_text \<noteq> [] then py_strip (first_line comment_text) else [])"

definition FinOps_update_totals :: "decimal fo_stats \<Rightarrow> decimal \<Rightarrow> decimal fo_stats \<times> pyexc option" where
  "FinOps_update_totals st amount =
     (case dec_gt0 amount of
        Inl e \<Rightarrow> (st, Some e)
      | Inr True \<Rightarrow>
          (case dec_add (fo_total_income st) amount of
             Inl e \<Rightarrow> (st, Some e)
           | Inr v \<Rightarrow> (st\<lparr>fo_total_income := v\<rparr>, None))
      | Inr False \<Rightarrow>
          (case dec_lt0 amount of
             Inl e \<Rightarrow> (st, Some e)
           | Inr True \<Rightarrow>
               (case dec_add (fo_total_expense st) amount of
                  Inl e \<Rightarrow> (st, Some e)
                | Inr v \<Rightarrow> (st\<lparr>fo_total_expense := v\<rparr>, None))
           | Inr False \<Rightarrow> (st, None)))"

definition FinOps_update_label :: "decimal fo_stats \<Rightarrow> ustr \<Rightarrow> decimal \<Rightarrow> decimal fo_stats \<times> pyexc option" where
  "FinOps_update_label st label_key amount =
     (if label_key = [] then FinOps_update_totals st amount
      else case dec_add (dict_get (fo_amounts_by_label st) label_key dec_zero) amount of
             Inl e \<Rightarrow> (st, Some e)
           | Inr v \<Rightarrow>
               FinOps_update_totals
                 (st\<lparr>fo_amounts_by_label := dict_set label_key v (fo_amounts_by_label st)\<rparr>)
                 amount)"

definition FinOps_update_stats ::
    "decimal fo_stats \<Rightarrow> ustr option \<Rightarrow> ustr \<Rightarrow> decimal option \<Rightarrow> ustr \<Rightarrow>
     decimal fo_stats \<times> pyexc option" where
  "FinOps_update_stats st oper_type comment_text amount mapped_type =
     (case amount of
        None \<Rightarrow> (st, None)
      | Some a \<Rightarrow>
          (case dec_add (dict_get (fo_amounts_by_mapped_type st) mapped_type dec_zero) a of
             Inl e \<Rightarrow> (st, Some e)
           | Inr v \<Rightarrow>
               FinOps_update_label
                 (st\<lparr>fo_amounts_by_mapped_type :=
                       dict_set mapped_type v (fo_amounts_by_mapped_type st)\<rparr>)
                 (FinOps_label_key oper_type comment_text) a))"

text \<open>\<open>_collect_example_comment\<close>\<close>

definition FinOps_collect_example_comment :: "decimal fo_stats \<Rightarrow> ustr \<Rightarrow> decimal fo_stats" where
  "FinOps_collect_example_comment st comment_text =
     (if comment_text \<noteq> [] \<and> length (fo_example_comments st) < 5
      then st\<lparr>fo_example_comments := fo_example_comments st @ [comment_text]\<rparr>
      else st)"

text \<open>
  \<open>_process_rn_node\<close>: the statistics after the row, and the record, \<open>None\<close> for a
  skipped row, or the exception that leaves the row. Nothing in the row is guarded by a
  \<open>try\<close>. \<open>FinOps_classify\<close> is the part of the method after the skip test.
\<close>

definition FinOps_classify ::
    "host \<Rightarrow> decimal fo_stats \<Rightarrow> element \<Rightarrow> datetime option \<Rightarrow> ustr option \<Rightarrow> ustr \<Rightarrow> ustr \<Rightarrow>
     decimal option \<Rightarrow> ustr \<Rightarrow> ustr \<Rightarrow> decimal fo_stats \<times> (pyexc + OperationDTO option)" where
  "FinOps_classify h st rn_node settlement_date oper_type comment_text currency_v amount
       reg_number_v isin_v =
     (let payment_sum_v = FinOps_decimal_to_float amount
      in case determine_operation_type h oper_type comment_text payment_sum_v of
           Inl e \<Rightarrow> (st, Inl e)
         | Inr op_type \<Rightarrow>
             if op_type = asc ''_skip_'' then (st\<lparr>fo_skipped := fo_skipped st + 1\<rparr>, Inr None)
             else case FinOps_create_operation_dto h settlement_date rn_node op_type currency_v
                         payment_sum_v comment_text reg_number_v isin_v of
                    Inl e \<Rightarrow> (st, Inl e)
                  | Inr operation \<Rightarrow>
                      (case FinOps_update_stats st oper_type comment_text amount op_type of
                         (st1, Some e) \<Rightarrow> (st1, Inl e)
                       | (st1, None) \<Rightarrow>
                           let st2 = FinOps_collect_example_comment st1 comment_text
                           in (st2\<lparr>fo_parsed := fo_parsed st2 + 1\<rparr>, Inr (Some operation))))"

definition FinOps_process_rn_node ::
    "host \<Rightarrow> decimal fo_stats \<Rightarrow> element \<Rightarrow> datetime option \<Rightarrow>
     decimal fo_stats \<times> (pyexc + OperationDTO option)" where
  "FinOps_process_rn_node h st0 rn_node settlement_date =
     (let st = st0\<lparr>fo_total_rows := fo_total_rows st0 + 1\<rparr>
      in case FinOps_extract_oper_type_and_comment rn_node of (oper_type, comment_text) \<Rightarrow>
         case FinOps_extract_currency_and_amount rn_node of (currency_v, amount) \<Rightarrow>
         let reg_number_v = FinOps_extract_reg_number (isalnum h) (Some comment_text);
             isin_v = FinOps_extract_isin (isalnum h) (Some comment_text)
         in case FinOps_should_skip h oper_type comment_text amount of
              Inl e \<Rightarrow> (st, Inl e)
            | Inr True \<Rightarrow> (st\<lparr>fo_skipped := fo_skipped st + 1\<rparr>, Inr None)
            | Inr False \<Rightarrow>
                FinOps_classify h st rn_node settlement_date oper_type comment_text currency_v
                  amount reg_number_v isin_v)"

text \<open>
  The two loops of \<open>_parse_root\<close>: over the \<open>rn\<close> nodes of a settlement date, and
  over the settlement dates. An exception ends both. A record counts as true in
  \<open>if operation\<close>.
\<close>

fun rn_loop ::
    "host \<Rightarrow> datetime option \<Rightarrow> decimal fo_stats \<Rightarrow> OperationDTO list \<Rightarrow> element list \<Rightarrow>
     decimal fo_stats \<times> OperationDTO list \<times> pyexc option" where
  "rn_loop h settlement_date st ops [] = (st, ops, None)"
| "rn_loop h settlement_date st ops (rn_node # rn_nodes) =
     (case FinOps_process_rn_node h st rn_node settlement_date of
        (st', Inl e) \<Rightarrow> (st', ops, Some e)
      | (st', Inr None) \<Rightarrow> rn_loop h settlement_date st' ops rn_nodes
      | (st', Inr (Some operation)) \<Rightarrow> rn_loop h settlement_date st' (ops @ [operation]) rn_nodes)"

fun settlement_loop ::
    "host \<Rightarrow> decimal fo_stats \<Rightarrow> OperationDTO list \<Rightarrow> element list \<Rightarrow>
     decimal fo_stats \<times> OperationDTO list \<times> pyexc option" where
  "settlement_loop h st ops [] = (st, ops, None)"
| "settlement_loop h st ops (settlement_node # settlement_nodes) =
     (case rn_loop h (FinOps_parse_settlement_date h settlement_node) st ops
             (FinOps_collect_rn_nodes settlement_node) of
        (st', ops', Some e) \<Rightarrow> (st', ops', Some e)
      | (st', ops', None) \<Rightarrow> settlement_loop h st' ops' settlement_nodes)"

text \<open>\<open>_parse_root\<close>: the statistics of the parser, and the result or the exception.\<close>

definition FinOps_parse_root ::
    "host \<Rightarrow> decimal fo_stats \<Rightarrow> element \<Rightarrow>
     decimal fo_stats \<times> (pyexc + OperationDTO list \<times> ustr fo_stats)" where
  "FinOps_parse_root h st root_el =
     (case settlement_loop h st []
             (FinOps_collect_elements_by_local_name (FinOps_find_report_element root_el)
                (asc ''settlement_date'')) of
        (st', ops, Some e) \<Rightarrow> (st', Inl e)
      | (st', ops, None) \<Rightarrow> (st', Inr (ops, FinOps_finalize_stats st')))"

text \<open>
  \<open>_parse_bytes\<close> and \<open>_parse_file\<close>. \<open>lstrip\<close> with the three bytes of the mark
  removes every leading byte that is one of them.
\<close>

definition bom :: "nat list" where
  "bom = [239, 187, 191]"

definition FinOps_parse_bytes :: "host \<Rightarrow> nat list \<Rightarrow> pyexc + element" where
  "FinOps_parse_bytes h data =
     parse_tree h (if take 3 data = bom then dropWhile (\<lambda>b. b \<in> set bom) data else data)"

definition FinOps_parse_file :: "host \<Rightarrow> world \<Rightarrow> ustr \<Rightarrow> pyexc + element" where
  "FinOps_parse_file h w file_path =
     (case files w file_path of
        None \<Rightarrow> Inl (open_error h file_path)
      | Some b \<Rightarrow> parse_tree h b)"

text \<open>
  The map returned by \<open>parse\<close>: the finalised statistics, or the \<open>error\<close> key with
  the statistics as they are, the exact-decimal entries still \<open>Decimal\<close> values.
\<close>

datatype fo_diagnostics = FoOk "ustr fo_stats" | FoError ustr "decimal fo_stats"

text \<open>
  \<open>FinancialOperationsParser.parse\<close>: every exception is caught, and the result is then
  the empty list. \<open>FinOps_read\<close> is the first statement of the \<open>try\<close> block, which
  reads the tree from the bytes or from the file. The second component of the result of
  \<open>FinOps_parse\<close> is the parser's statistics after the call.
\<close>

definition FinOps_read :: "host \<Rightarrow> world \<Rightarrow> source_arg \<Rightarrow> pyexc + element" where
  "FinOps_read h w arg =
     (case arg of
        Bytes i b \<Rightarrow> FinOps_parse_bytes h b
      | Path p \<Rightarrow> FinOps_parse_file h w p)"

definition FinOps_parse ::
    "host \<Rightarrow> world \<Rightarrow> decimal fo_stats \<Rightarrow> source_arg \<Rightarrow>
     (OperationDTO list \<times> fo_diagnostics) \<times> decimal fo_stats" where
  "FinOps_parse h w self arg =
     (case FinOps_read h w arg of
        Inl e \<Rightarrow> (([], FoError (exc_str e) self), self)
      | Inr root_el \<Rightarrow>
          (case FinOps_parse_root h self root_el of
             (st, Inl e) \<Rightarrow> (([], FoError (exc_str e) st), st)
           | (st, Inr (ops, stats)) \<Rightarrow> ((ops, FoOk stats), st)))"

text \<open>The public \<open>parse_fin_operations_from_xml\<close>\<close>

definition parse_fin_operations_from_xml ::
    "host \<Rightarrow> world \<Rightarrow> source_arg \<Rightarrow> (OperationDTO list \<times> fo_diagnostics) outcome \<times> world" where
  "parse_fin_operations_from_xml h w arg =
     (case FinOps_parse h w FinOps_init arg of (r, self') \<Rightarrow> (Returns r, w))"

section \<open>Example inputs\<close>

text \<open>
  The trades row of the specification's example, with exactly its five attributes, and the
  point in time its \<open>db_time\<close> denotes. The value of \<open>curr\<close> is the
  Cyrillic rouble abbreviation.
\<close>

definition attrib_C4 :: "(ustr \<times> ustr) list" where
  "attrib_C4 =
     [(asc ''qty'', asc ''-10''), (asc ''price'', asc ''100.5''),
      (asc ''summ_trade'', asc ''-1005.00''), (asc ''curr'', [1056, 1059, 1041]),
      (asc ''db_time'', asc ''25.03.2024 10:00:00'')]"

definition row_C4 :: attrs where
  "row_C4 = normalize_attrib attrib_C4"

definition dt_C4 :: datetime where
  "dt_C4 = \<lparr>dt_year = 2024, dt_month = 3, dt_day = 25, dt_hour = 10, dt_minute = 0,
            dt_second = 0, dt_microsecond = 0, dt_utcoffset = None\<rparr>"

text \<open>
  The example row with one more attribute: a settlement currency \<open>curr_calc\<close>, or an
  instrument name \<open>p_name\<close> that is a single blank.
\<close>

definition row_C4_usd :: attrs where
  "row_C4_usd = normalize_attrib (attrib_C4 @ [(asc ''curr_calc'', asc ''USD'')])"

definition attrib_blank_name :: "(ustr \<times> ustr) list" where
  "attrib_blank_name = attrib_C4 @ [(asc ''p_name'', asc '' '')]"

definition row_blank_name :: attrs where
  "row_blank_name = normalize_attrib attrib_blank_name"

text \<open>A row whose quantity text denotes a fraction that rounds to zero.\<close>

definition row_qty_04 :: attrs where
  "row_qty_04 = normalize_attrib [(asc ''qty'', asc ''0.4'')]"

text \<open>
  A host for the examples: the streaming reader yields, for every content, the example row, a
  namespaced row with a quantity and no date, and one other element; the alphanumeric
  characters outside ASCII are the Latin letters up to U+024F and the basic Cyrillic block;
  the constructor accepts every record; the classifier never skips and answers with one fixed
  type.
\<close>

definition doc_example :: "element list" where
  "doc_example =
     [Element (asc ''details'') attrib_C4 [],
      Element (asc ''{urn:x}Details'') [(asc ''QTY'', asc ''5'')] [],
      Element (asc ''Report'') [] []]"

definition host_example :: host where
  "host_example =
     \<lparr>iterparse_events = (\<lambda>b. (doc_example, None)),
      parse_tree = (\<lambda>b. Inl (ParseError (asc ''no element found''))),
      open_error = OSError,
      write_error = OSError,
      fromisoformat = (\<lambda>s. None),
      isalnum = (\<lambda>c. (192 \<le> c \<and> c \<le> 591 \<and> c \<noteq> 215 \<and> c \<noteq> 247) \<or> is_cyrillic c),
      ctor = (\<lambda>d. None),
      should_skip_operation = (\<lambda>label c src. Inr False),
      determine_operation_type = (\<lambda>label c amount. Inr (asc ''other''))\<rparr>"

text \<open>
  A document with the example row followed by the row with the blank instrument name, and the
  host whose streaming reader yields it.
\<close>

definition doc_blank_name :: "element list" where
  "doc_blank_name =
     [Element (asc ''details'') attrib_C4 [], Element (asc ''details'') attrib_blank_name []]"

definition host_blank_name :: host where
  "host_blank_name = host_example\<lparr>iterparse_events := (\<lambda>b. (doc_blank_name, None))\<rparr>"

definition world_example :: world where
  "world_example = \<lparr>files = Map.empty, writable = True\<rparr>"

definition world_read_only :: world where
  "world_read_only = \<lparr>files = Map.empty, writable = False\<rparr>"

text \<open>
  Two transfers rows. The first has the operation type "purchase" and a comment that contains
  the conversion word. The second is the specification's example: the operation type
  "transfer", capitalised and padded with blanks, a comment starting with the capitalised
  conversion word, quantity -500, and a settlement date and time.
\<close>

definition row_xf_skip :: attrs where
  "row_xf_skip = normalize_attrib
     [(asc ''oper_type'', [1055, 1086, 1082, 1091, 1087, 1082, 1072]),
      (asc ''comment_new'', word_konvertaciya)]"

definition row_xf_conv :: attrs where
  "row_xf_conv = normalize_attrib
     [(asc ''oper_type'', [32, 1055, 1077, 1088, 1077, 1074, 1086, 1076, 32]),
      (asc ''comment_new'',
         [1050, 1086, 1085, 1074, 1077, 1088, 1090, 1072, 1094, 1080, 1103, 32, 85, 83, 68]),
      (asc ''qty'', asc ''-500''),
      (asc ''settlement_date'', asc ''2024-03-25''),
      (asc ''settlement_time'', asc ''12:00:00'')]"

text \<open>
  A row of the financial operations report whose label and comment are blank and whose
  amount is the zero \<open>0.00\<close>.
\<close>

definition row_fo_blank :: element where
  "row_fo_blank =
     Element (asc ''rn'') []
       [Element (asc ''oper_type'') [(asc ''oper_type'', asc '' '')]
          [Element (asc ''comment'') [(asc ''comment'', asc '' '')]
             [Element (asc ''p_code'') [(asc ''p_code'', asc ''RUB''), (asc ''volume'', asc ''0.00'')]
                []]]]"

text \<open>
  A financial operations report with one settlement date and, for each of the given amount
  texts, a row labelled \<open>Dividend\<close> with the comment \<open>x\<close> and that amount in roubles;
  and the host whose tree reader yields a given document.
\<close>

definition row_fo :: "ustr \<Rightarrow> element" where
  "row_fo vol =
     Element (asc ''rn'') []
       [Element (asc ''oper_type'') [(asc ''oper_type'', asc ''Dividend'')]
          [Element (asc ''comment'') [(asc ''comment'', asc ''x'')]
             [Element (asc ''p_code'') [(asc ''p_code'', asc ''RUB''), (asc ''volume'', vol)] []]]]"

definition sd_fo :: "ustr list \<Rightarrow> element" where
  "sd_fo vols =
     Element (asc ''settlement_date'') [(asc ''settlement_date'', asc ''2024-03-25'')]
       (map row_fo vols)"

definition doc_fo :: "ustr list \<Rightarrow> element" where
  "doc_fo vols = Element (asc ''Report'') [] [sd_fo vols]"

definition host_fo :: "element \<Rightarrow> host" where
  "host_fo doc = host_example\<lparr>parse_tree := (\<lambda>b. Inr doc)\<rparr>"

definition date_fo :: datetime where
  "date_fo = \<lparr>dt_year = 2024, dt_month = 3, dt_day = 25, dt_hour = 0, dt_minute = 0,
              dt_second = 0, dt_microsecond = 0, dt_utcoffset = None\<rparr>"

text \<open>
  The statistics of the financial operations parser after \<open>n\<close> rows of such a report
  of which \<open>p\<close> were parsed: \<open>v\<close> is the value accumulated under the mapped type
  and under the label, \<open>inc\<close> the total income and \<open>ex\<close> the total expense.
\<close>

definition fo_row_stats :: "nat \<Rightarrow> nat \<Rightarrow> 'v \<Rightarrow> 'v \<Rightarrow> 'v \<Rightarrow> 'v fo_stats" where
  "fo_row_stats n p v inc ex =
     \<lparr>fo_total_rows = n, fo_parsed = p, fo_skipped = 0,
      fo_example_comments = replicate p (asc ''x''),
      fo_amounts_by_mapped_type = [(asc ''other'', v)],
      fo_amounts_by_label = [(asc ''Dividend'', v)],
      fo_total_income = inc, fo_total_expense = ex\<rparr>"

text \<open>The record of such a row, with the payment sum \<open>f\<close>.\<close>

definition op_fo :: "pyfloat \<Rightarrow> OperationDTO" where
  "op_fo f =
     \<lparr>date = Some date_fo, operation_type = asc ''other'', payment_sum = f,
      currency = asc ''RUB'', ticker = [], isin = [], reg_number = [], price = Fin 0,
      quantity = PyInt 0, aci = Fin 0, comment = asc ''x'', operation_id = [],
      commission = Fin 0\<rparr>"

section \<open>Properties of the regular expression engine\<close>

lemma map_option_add0: "map_option ((+) (0::nat)) v = v"
  by (cases v) simp_all

text \<open>A repetition with equal bounds consumes exactly that many characters of its class.\<close>

lemma re_match_exact:
  "re_match (Rep c n (Some n) # r) p s =
     (if n \<le> length s \<and> list_all c (take n s)
      then map_option ((+) n) (re_match r (prev_of p s n) (drop n s))
      else None)"
proof (induction n arbitrary: p s)
  case 0
  show ?case by (cases s) (simp_all add: prev_of_def map_option_add0)
next
  case (Suc n)
  show ?case
  proof (cases s)
    case Nil
    then show ?thesis by simp
  next
    case (Cons x xs)
    show ?thesis
      unfolding Cons
      by (simp add: Suc prev_of_def option.map_comp comp_def split: option.splits)
  qed
qed

lemma is_AZ_word: "is_AZ c \<Longrightarrow> is_word alnum c"
  by (simp add: is_word_def is_AZ_def)

lemma alnum_upper_word: "alnum_upper c \<Longrightarrow> is_word alnum c"
  by (auto simp: is_word_def alnum_upper_def is_AZ_def is_digit_def)

lemma re_match_RE_ISIN:
  "re_match (RE_ISIN alnum) p s =
     (if spec_isin_shape False (take 12 s) \<and> spec_word_bounded alnum p (drop 12 s)
      then Some 12 else None)"
proof (cases "12 \<le> length s \<and> list_all is_AZ (take 2 s) \<and> list_all alnum_upper (take 10 (drop 2 s))")
  case False
  then have "\<not> spec_isin_shape False (take 12 s)"
    by (auto simp: spec_isin_shape_def spec_letter_def spec_letter_or_digit_def alnum_upper_def
        drop_take min_def list_all_iff)
  with False show ?thesis
    by (auto simp: RE_ISIN_def re_match_exact prev_of_def)
next
  case True
  then have len: "12 \<le> length s" and l2: "list_all is_AZ (take 2 s)"
    and l10: "list_all alnum_upper (take 10 (drop 2 s))" by auto
  have shape: "spec_isin_shape False (take 12 s)"
    using True
    by (auto simp: spec_isin_shape_def spec_letter_def spec_letter_or_digit_def alnum_upper_def
        drop_take min_def list_all_iff)
  from len obtain x xs where s: "s = x # xs" by (cases s) auto
  have wx: "is_word alnum x" using l2 s by (simp add: is_AZ_word)
  have "take 10 (drop 2 s) ! 9 \<in> set (take 10 (drop 2 s))"
    using len by (intro nth_mem) simp
  then have "alnum_upper (take 10 (drop 2 s) ! 9)"
    using l10 by (simp add: list_all_iff)
  then have w11: "is_word alnum (s ! 11)" using len by (simp add: alnum_upper_word)
  have b1: "at_boundary (is_word alnum) p s \<longleftrightarrow>
      \<not> (case p of None \<Rightarrow> False | Some c \<Rightarrow> is_word alnum c)"
    using wx by (simp add: at_boundary_def s)
  have b2: "at_boundary (is_word alnum) (Some (s ! 11)) (drop 12 s) \<longleftrightarrow>
      \<not> (case drop 12 s of [] \<Rightarrow> False | x # _ \<Rightarrow> is_word alnum x)"
    using w11 by (simp add: at_boundary_def)
  show ?thesis
    using True shape len b1 b2
    by (auto simp: RE_ISIN_def re_match_exact prev_of_def spec_word_bounded_def nth_append)
qed

lemma re_search_from_RE_ISIN:
  "re_search_from (RE_ISIN alnum) p s =
     (case spec_first_isin alnum False p s of [] \<Rightarrow> None | m \<Rightarrow> Some m)"
proof (induction s arbitrary: p)
  case Nil
  show ?case by (simp add: re_match_RE_ISIN spec_isin_shape_def)
next
  case (Cons x s)
  show ?case
    by (auto simp: re_match_RE_ISIN Cons split: list.splits)
qed

lemma FinOps_extract_isin_scan:
  "FinOps_extract_isin alnum c =
     (case c of None \<Rightarrow> [] | Some s \<Rightarrow> spec_first_isin alnum False None s)"
  by (cases c)
     (auto simp: FinOps_extract_isin_def truthy_def re_search_def re_search_from_RE_ISIN
       split: list.splits)





section \<open>Claims about ISIN extraction\<close>

text \<open>
  C2 as stated: the \<open>isin\<close> field of the Financial Operations Parser is the first
  case-insensitive match of the pattern in the comment. On the lower-case comment
  \<open>ru0009029540\<close> the code extracts nothing, while the case-insensitive first match is
  the whole comment: \<open>RE_ISIN\<close> is compiled without \<open>re.IGNORECASE\<close>.
\<close>

theorem FinOps_isin_case_sensitive_cex:
  "FinOps_extract_isin (isalnum host_example) (Some (asc ''ru0009029540'')) = [] \<and>
   spec_first_isin (isalnum host_example) True None (asc ''ru0009029540'') = asc ''ru0009029540''"
  by (simp add: FinOps_extract_isin_scan asc_def spec_isin_shape_def spec_letter_def
      spec_letter_or_digit_def spec_word_bounded_def is_AZ_def is_az_def is_digit_def)

text \<open>
  C2 (amended): for every comment text, the \<open>isin\<close> field is the first match of the
  pattern "two upper-case Latin letters followed by exactly ten upper-case letters or digits,
  word-bounded", matched case-sensitively, and the empty string when the comment has no such
  match or is absent or empty. A word character is an underscore or a character that
  \<open>str.isalnum\<close> accepts; the statement holds whatever \<open>str.isalnum\<close> accepts
  outside ASCII.
\<close>

theorem FinOps_extract_isin_first_match:
  "FinOps_extract_isin alnum c =
     (case c of None \<Rightarrow> [] | Some s \<Rightarrow> spec_first_isin alnum False None s)"
  by (rule FinOps_extract_isin_scan)

text \<open>
  Examples: the first of two codes is extracted; a code that follows the letter U+00E9
  without a separator is not word-bounded, so nothing is extracted.
\<close>

theorem FinOps_extract_isin_first_match_witness:
  "FinOps_extract_isin (isalnum host_example) (Some (asc ''x RU0009029540, US0378331005'')) =
     asc ''RU0009029540'' \<and>
   FinOps_extract_isin (isalnum host_example) (Some (233 # asc ''RU0009029540'')) = []"
  using FinOps_extract_isin_first_match [of "isalnum host_example"
      "Some (asc ''x RU0009029540, US0378331005'')"]
    FinOps_extract_isin_first_match [of "isalnum host_example" "Some (233 # asc ''RU0009029540'')"]
  by (simp add: asc_def spec_isin_shape_def spec_letter_def host_example_def
      spec_letter_or_digit_def spec_word_bounded_def is_AZ_def is_az_def is_digit_def is_word_def
      is_cyrillic_def)



lemma floor_rat_frac [simp]: "\<lfloor>(numeral a :: rat) / numeral b\<rfloor> = numeral a div numeral b"
  using floor_divide_of_int_eq [of "numeral a" "numeral b", where ?'a = rat] by simp

lemma floor_rat_neg_frac [simp]: "\<lfloor>- ((numeral a :: rat) / numeral b)\<rfloor> = - numeral a div numeral b"
  using floor_divide_of_int_eq [of "- numeral a" "numeral b", where ?'a = rat] by simp

lemma floor_rat_one_frac [simp]: "\<lfloor>(1 :: rat) / numeral b\<rfloor> = 1 div numeral b"
  using floor_divide_of_int_eq [of 1 "numeral b", where ?'a = rat] by simp

lemma floor_rat_neg_one_frac [simp]: "\<lfloor>- ((1 :: rat) / numeral b)\<rfloor> = - 1 div numeral b"
  using floor_divide_of_int_eq [of "- 1" "numeral b", where ?'a = rat] by simp

lemma ceiling_rat_one_frac [simp]: "\<lceil>(1 :: rat) / numeral b\<rceil> = - (- 1 div numeral b)"
  by (simp add: ceiling_def)

lemma ceiling_rat_neg_one_frac [simp]: "\<lceil>- ((1 :: rat) / numeral b)\<rceil> = - (1 div numeral b)"
  by (simp add: ceiling_def)

lemma ceiling_rat_frac [simp]: "\<lceil>(numeral a :: rat) / numeral b\<rceil> = - (- numeral a div numeral b)"
  by (simp add: ceiling_def)

lemma ceiling_rat_neg_frac [simp]: "\<lceil>- ((numeral a :: rat) / numeral b)\<rceil> = - (numeral a div numeral b)"
  by (simp add: ceiling_def)

lemma to_binary64_zero [simp]: "to_binary64 0 = Fin 0"
  by (simp add: to_binary64_def)

lemmas binary64_eval = to_binary64_def ilog2_def compute_bitlen pow2_def round_half_even_def Let_def

lemmas float_eval = py_float_def float_strip_def float_isspace_def py_strip_def py_isspace_def
  split_sign_def parse_decimal_def parse_exponent_def digits_val_def decimal_value_def
  is_decimal_def is_digit_def py_lower_def lower_cp_def pow10_def asc_def
  py_replace_def normalize_number_def

lemmas regex_eval = re_search_def is_decimal_def is_digit_def is_dot_def is_colon_def
  py_isspace_def asc_def

lemmas strptime_eval = strptime_def alts_def alt_matches_def rng_def is_decimal_def
  is_digit_def field_def digits_val_def decimal_value_def valid_datetime_def days_in_month_def is_leap_def lower_cp_def py_isspace_def
  Let_def

lemma get_or_first: "truthy (a k) \<Longrightarrow> get_or a (k # ks) = a k"
  by (cases ks) (simp_all add: py_or_def)

lemma get_or_skip: "\<not> truthy (a k) \<Longrightarrow> ks \<noteq> [] \<Longrightarrow> get_or a (k # ks) = get_or a ks"
  by (cases ks) (simp_all add: py_or_def)

declare get_or.simps [simp del]

lemma truthy_Some: "truthy (Some s) \<longleftrightarrow> s \<noteq> []"
  by (simp add: truthy_def)

lemma to_int_safe_m10: "to_int_safe (asc ''-10'') = - 10"
  by (simp add: to_int_safe_def py_round_def float_eval binary64_eval)

lemma to_float_safe_price: "to_float_safe (Some (asc ''100.5'')) = Fin (201 / 2)"
  by (simp add: to_float_safe_def float_eval binary64_eval)

lemma to_float_safe_total: "to_float_safe (Some (asc ''-1005.00'')) = Fin (- 1005)"
  by (simp add: to_float_safe_def float_eval binary64_eval)

lemma parse_db_time:
  "parse_datetime_from_text (Some (asc ''25.03.2024 10:00:00'')) = Some dt_C4"
proof -
  have 1: "re_search RE_DATE_HMS (asc ''25.03.2024 10:00:00'') = Some (asc ''25.03.2024 10:00:00'')"
    by (simp add: RE_DATE_HMS_def RE_DATE_HM_def regex_eval)
  have 2: "strptime (asc ''25.03.2024 10:00:00'') fmt_dmY_HMS = Some dt_C4"
    by (simp add: fmt_dmY_HMS_def strptime_eval asc_def dt_C4_def)
  have 3: "asc ''25.03.2024 10:00:00'' \<noteq> []"
    by (simp add: asc_def)
  show ?thesis
    by (simp add: parse_datetime_from_text_def truthy_def try_search_def 1 2 3)
qed

lemma rouble_currency:
  "py_strip [1056, 1059, 1041] = [1056, 1059, 1041] \<and>
   py_upper [1056, 1059, 1041] \<in> set rouble_aliases"
  by (simp add: py_strip_def py_isspace_def py_upper_def upper_cp_def rouble_aliases_def)

lemma Trades_sale_row_gen:
  assumes qty: "a (asc ''qty'') = Some (asc ''-10'')"
    and price: "a (asc ''price'') = Some (asc ''100.5'')"
    and summ: "a (asc ''summ_trade'') = Some (asc ''-1005.00'')"
    and db_time: "a (asc ''db_time'') = Some (asc ''25.03.2024 10:00:00'')"
    and inst: "Trades_extract_instrument_data a = Inr inst"
    and ctor_ok: "\<And>d. c d = None"
  shows "\<exists>r. Trades_process_details_element c st a =
           (st\<lparr>tr_total_rows := tr_total_rows st + 1, tr_parsed := tr_parsed st + 1,
               tr_total_commission :=
                 py_fadd (tr_total_commission st) (Trades_extract_commission a)\<rparr>,
            Inr (Some r)) \<and>
         operation_type r = asc ''sale'' \<and> quantity r = PyInt 10 \<and>
         price r = Fin (201 / 2) \<and> payment_sum r = Fin (- 1005) \<and>
         currency r = snd (snd (snd (Trades_extract_trade_data a)))"
proof -
  have ne: "asc ''-10'' \<noteq> []" "asc ''100.5'' \<noteq> []" "asc ''-1005.00'' \<noteq> []"
    "asc ''25.03.2024 10:00:00'' \<noteq> []"
    by (simp_all add: asc_def)
  have q: "Trades_extract_quantity a = - 10"
    using qty ne
    by (simp add: Trades_extract_quantity_def Trades_quantity_text_def get_or_first truthy_Some
        or_str_def to_int_safe_m10)
  have d: "Trades_extract_date a = Some dt_C4"
    using db_time ne
    by (simp add: Trades_extract_date_def Trades_date_keys_def parse_db_time truthy_Some)
  obtain nkd cur where td: "Trades_extract_trade_data a = (Fin (201 / 2), Fin (- 1005), nkd, cur)"
  proof -
    have p: "get_or a [asc ''price'', asc ''textbox25'', asc ''price ''] = Some (asc ''100.5'')"
      using price ne by (simp add: get_or_first truthy_Some)
    have t: "get_or a [asc ''summ_trade'', asc ''summtrade'', asc ''summ_trade'', asc ''summ_trade'']
        = Some (asc ''-1005.00'')"
      using summ ne by (simp add: get_or_first truthy_Some)
    show ?thesis
      using that
      by (simp add: Trades_extract_trade_data_def p t to_float_safe_price to_float_safe_total
          Let_def)
  qed
  show ?thesis
    by (simp add: Trades_process_details_element_def q d td inst ctor_ok Trades_build_def Let_def
        split: prod.splits)
qed

lemma Trades_row_raises:
  assumes qty: "a (asc ''qty'') = Some (asc ''-10'')"
    and db_time: "a (asc ''db_time'') = Some (asc ''25.03.2024 10:00:00'')"
    and inst: "Trades_extract_instrument_data a = Inl e"
  shows "Trades_process_details_element c st a =
           (st\<lparr>tr_total_rows := tr_total_rows st + 1\<rparr>, Inl e)"
proof -
  have ne: "asc ''-10'' \<noteq> []" "asc ''25.03.2024 10:00:00'' \<noteq> []"
    by (simp_all add: asc_def)
  have q: "Trades_extract_quantity a = - 10"
    using qty ne
    by (simp add: Trades_extract_quantity_def Trades_quantity_text_def get_or_first truthy_Some
        or_str_def to_int_safe_m10)
  have d: "Trades_extract_date a = Some dt_C4"
    using db_time ne
    by (simp add: Trades_extract_date_def Trades_date_keys_def parse_db_time truthy_Some)
  show ?thesis
    by (simp add: Trades_process_details_element_def q d inst Let_def)
qed

lemma Trades_sale_row_aux:
  assumes qty: "a (asc ''qty'') = Some (asc ''-10'')"
    and price: "a (asc ''price'') = Some (asc ''100.5'')"
    and summ: "a (asc ''summ_trade'') = Some (asc ''-1005.00'')"
    and curr: "a (asc ''curr'') = Some [1056, 1059, 1041]"
    and db_time: "a (asc ''db_time'') = Some (asc ''25.03.2024 10:00:00'')"
    and no_curr_calc: "\<not> truthy (a (asc ''curr_calc''))"
    and inst: "Trades_extract_instrument_data a = Inr inst"
    and ctor_ok: "\<And>d. c d = None"
  shows "\<exists>r. Trades_process_details_element c st a =
           (st\<lparr>tr_total_rows := tr_total_rows st + 1, tr_parsed := tr_parsed st + 1,
               tr_total_commission :=
                 py_fadd (tr_total_commission st) (Trades_extract_commission a)\<rparr>,
            Inr (Some r)) \<and>
         operation_type r = asc ''sale'' \<and> quantity r = PyInt 10 \<and>
         currency r = asc ''RUB'' \<and> price r = Fin (201 / 2) \<and> payment_sum r = Fin (- 1005)"
proof -
  have ne: "asc ''-10'' \<noteq> []" "asc ''100.5'' \<noteq> []" "asc ''-1005.00'' \<noteq> []"
    "asc ''25.03.2024 10:00:00'' \<noteq> []"
    by (simp_all add: asc_def)
  have q: "Trades_extract_quantity a = - 10"
    using qty ne
    by (simp add: Trades_extract_quantity_def Trades_quantity_text_def get_or_first truthy_Some
        or_str_def to_int_safe_m10)
  have d: "Trades_extract_date a = Some dt_C4"
    using db_time ne
    by (simp add: Trades_extract_date_def Trades_date_keys_def parse_db_time truthy_Some)
  obtain nkd where td: "Trades_extract_trade_data a = (Fin (201 / 2), Fin (- 1005), nkd, asc ''RUB'')"
  proof -
    have p: "get_or a [asc ''price'', asc ''textbox25'', asc ''price ''] = Some (asc ''100.5'')"
      using price ne by (simp add: get_or_first truthy_Some)
    have t: "get_or a [asc ''summ_trade'', asc ''summtrade'', asc ''summ_trade'', asc ''summ_trade'']
        = Some (asc ''-1005.00'')"
      using summ ne by (simp add: get_or_first truthy_Some)
    have c: "get_or a [asc ''curr_calc'', asc ''curr'', asc ''textbox14''] = Some [1056, 1059, 1041]"
      using curr no_curr_calc by (simp add: get_or_skip get_or_first truthy_Some)
    show ?thesis
      using that rouble_currency
      by (simp add: Trades_extract_trade_data_def p t c to_float_safe_price to_float_safe_total
          or_str_def truthy_Some Let_def)
  qed
  show ?thesis
    by (simp add: Trades_process_details_element_def q d td inst ctor_ok Trades_build_def Let_def
        split: prod.splits)
qed

lemma row_C4_facts:
  "row_C4 (asc ''qty'') = Some (asc ''-10'')"
  "row_C4 (asc ''price'') = Some (asc ''100.5'')"
  "row_C4 (asc ''summ_trade'') = Some (asc ''-1005.00'')"
  "row_C4 (asc ''curr'') = Some [1056, 1059, 1041]"
  "row_C4 (asc ''db_time'') = Some (asc ''25.03.2024 10:00:00'')"
  "\<not> truthy (row_C4 (asc ''curr_calc''))"
  "Trades_extract_instrument_data row_C4 = Inr ([], [], [])"
  "Trades_extract_commission row_C4 = Fin 0"
proof -
  have a: "row_C4 (asc ''qty'') = Some (asc ''-10'')"
    "row_C4 (asc ''price'') = Some (asc ''100.5'')"
    "row_C4 (asc ''summ_trade'') = Some (asc ''-1005.00'')"
    "row_C4 (asc ''curr'') = Some [1056, 1059, 1041]"
    "row_C4 (asc ''db_time'') = Some (asc ''25.03.2024 10:00:00'')"
    "row_C4 (asc ''curr_calc'') = None"
    "row_C4 (asc ''bank_tax'') = None" "row_C4 (asc ''banktax'') = None"
    "row_C4 (asc ''isin_reg'') = None" "row_C4 (asc ''isin1'') = None" "row_C4 (asc ''isin'') = None"
    "row_C4 (asc ''p_name'') = None" "row_C4 (asc ''pname'') = None"
    "row_C4 (asc ''active_name'') = None"
    "row_C4 (asc ''trade_no'') = None" "row_C4 (asc ''tradeno'') = None"
    "row_C4 (asc ''trade'') = None"
    by (simp_all add: row_C4_def attrib_C4_def normalize_attrib_def asc_def py_lower_def lower_cp_def)
  have i: "Trades_extract_instrument_data row_C4 = Inr ([], [], [])"
    by (simp add: Trades_extract_instrument_data_def a get_or.simps py_or_def truthy_def
        or_str_def extract_isin_from_attr_def Trades_extract_ticker_from_name_def
        extract_first_value_def py_strip_def)
  have c: "Trades_extract_commission row_C4 = Fin 0"
    by (simp add: Trades_extract_commission_def a get_or.simps py_or_def truthy_def
        to_float_safe_def)
  have n: "\<not> truthy (row_C4 (asc ''curr_calc''))"
    by (simp add: a truthy_def)
  show "row_C4 (asc ''qty'') = Some (asc ''-10'')"
    "row_C4 (asc ''price'') = Some (asc ''100.5'')"
    "row_C4 (asc ''summ_trade'') = Some (asc ''-1005.00'')"
    "row_C4 (asc ''curr'') = Some [1056, 1059, 1041]"
    "row_C4 (asc ''db_time'') = Some (asc ''25.03.2024 10:00:00'')"
    "\<not> truthy (row_C4 (asc ''curr_calc''))"
    "Trades_extract_instrument_data row_C4 = Inr ([], [], [])"
    "Trades_extract_commission row_C4 = Fin 0"
    by (rule a i c n)+
qed

lemma row_C4_result:
  assumes "\<And>d. c d = None"
  shows "\<exists>r. Trades_process_details_element c st row_C4 =
     (st\<lparr>tr_total_rows := tr_total_rows st + 1, tr_parsed := tr_parsed st + 1,
         tr_total_commission := py_fadd (tr_total_commission st) (Fin 0)\<rparr>, Inr (Some r))"
  using Trades_sale_row_aux [of row_C4 "([], [], [])" c st, OF row_C4_facts(1-7) assms]
  by (auto simp: row_C4_facts(8))

lemma row_C4_usd_facts:
  "row_C4_usd (asc ''qty'') = Some (asc ''-10'')"
  "row_C4_usd (asc ''price'') = Some (asc ''100.5'')"
  "row_C4_usd (asc ''summ_trade'') = Some (asc ''-1005.00'')"
  "row_C4_usd (asc ''curr'') = Some [1056, 1059, 1041]"
  "row_C4_usd (asc ''db_time'') = Some (asc ''25.03.2024 10:00:00'')"
  "Trades_extract_instrument_data row_C4_usd = Inr ([], [], [])"
  "Trades_extract_commission row_C4_usd = Fin 0"
  "snd (snd (snd (Trades_extract_trade_data row_C4_usd))) = asc ''USD''"
proof -
  have a: "row_C4_usd (asc ''qty'') = Some (asc ''-10'')"
    "row_C4_usd (asc ''price'') = Some (asc ''100.5'')"
    "row_C4_usd (asc ''summ_trade'') = Some (asc ''-1005.00'')"
    "row_C4_usd (asc ''curr'') = Some [1056, 1059, 1041]"
    "row_C4_usd (asc ''db_time'') = Some (asc ''25.03.2024 10:00:00'')"
    "row_C4_usd (asc ''curr_calc'') = Some (asc ''USD'')"
    "row_C4_usd (asc ''bank_tax'') = None" "row_C4_usd (asc ''banktax'') = None"
    "row_C4_usd (asc ''isin_reg'') = None" "row_C4_usd (asc ''isin1'') = None"
    "row_C4_usd (asc ''isin'') = None"
    "row_C4_usd (asc ''p_name'') = None" "row_C4_usd (asc ''pname'') = None"
    "row_C4_usd (asc ''active_name'') = None"
    "row_C4_usd (asc ''trade_no'') = None" "row_C4_usd (asc ''tradeno'') = None"
    "row_C4_usd (asc ''trade'') = None"
    by (simp_all add: row_C4_usd_def attrib_C4_def normalize_attrib_def asc_def py_lower_def
        lower_cp_def)
  have i: "Trades_extract_instrument_data row_C4_usd = Inr ([], [], [])"
    by (simp add: Trades_extract_instrument_data_def a get_or.simps py_or_def truthy_def
        or_str_def extract_isin_from_attr_def Trades_extract_ticker_from_name_def
        extract_first_value_def py_strip_def)
  have c: "Trades_extract_commission row_C4_usd = Fin 0"
    by (simp add: Trades_extract_commission_def a get_or.simps py_or_def truthy_def
        to_float_safe_def)
  have ne: "asc ''USD'' \<noteq> []" by (simp add: asc_def)
  have g: "get_or row_C4_usd [asc ''curr_calc'', asc ''curr'', asc ''textbox14''] = Some (asc ''USD'')"
    using ne by (simp add: get_or_first a truthy_Some)
  have u: "py_strip (asc ''USD'') = asc ''USD''" "py_upper (asc ''USD'') \<notin> set rouble_aliases"
    by (simp_all add: asc_def py_strip_def py_isspace_def py_upper_def upper_cp_def
        rouble_aliases_def)
  have t: "snd (snd (snd (Trades_extract_trade_data row_C4_usd))) = asc ''USD''"
    using ne by (simp add: Trades_extract_trade_data_def g or_str_def truthy_Some u Let_def)
  show "row_C4_usd (asc ''qty'') = Some (asc ''-10'')"
    "row_C4_usd (asc ''price'') = Some (asc ''100.5'')"
    "row_C4_usd (asc ''summ_trade'') = Some (asc ''-1005.00'')"
    "row_C4_usd (asc ''curr'') = Some [1056, 1059, 1041]"
    "row_C4_usd (asc ''db_time'') = Some (asc ''25.03.2024 10:00:00'')"
    "Trades_extract_instrument_data row_C4_usd = Inr ([], [], [])"
    "Trades_extract_commission row_C4_usd = Fin 0"
    "snd (snd (snd (Trades_extract_trade_data row_C4_usd))) = asc ''USD''"
    by (rule a i c t)+
qed

lemma row_blank_name_facts:
  "row_blank_name (asc ''qty'') = Some (asc ''-10'')"
  "row_blank_name (asc ''price'') = Some (asc ''100.5'')"
  "row_blank_name (asc ''summ_trade'') = Some (asc ''-1005.00'')"
  "row_blank_name (asc ''curr'') = Some [1056, 1059, 1041]"
  "row_blank_name (asc ''db_time'') = Some (asc ''25.03.2024 10:00:00'')"
  "Trades_extract_instrument_data row_blank_name = Inl IndexError"
proof -
  have a: "row_blank_name (asc ''qty'') = Some (asc ''-10'')"
    "row_blank_name (asc ''price'') = Some (asc ''100.5'')"
    "row_blank_name (asc ''summ_trade'') = Some (asc ''-1005.00'')"
    "row_blank_name (asc ''curr'') = Some [1056, 1059, 1041]"
    "row_blank_name (asc ''db_time'') = Some (asc ''25.03.2024 10:00:00'')"
    "row_blank_name (asc ''isin_reg'') = None" "row_blank_name (asc ''isin1'') = None"
    "row_blank_name (asc ''isin'') = None"
    "row_blank_name (asc ''p_name'') = Some (asc '' '')"
    by (simp_all add: row_blank_name_def attrib_blank_name_def attrib_C4_def normalize_attrib_def
        asc_def py_lower_def lower_cp_def)
  have ne: "asc '' '' \<noteq> []" by (simp add: asc_def)
  have g: "get_or row_blank_name [asc ''p_name'', asc ''pname'', asc ''active_name''] = Some (asc '' '')"
    using ne by (simp add: get_or_first a truthy_Some)
  have b: "py_strip (asc '' '') = []"
    by (simp add: asc_def py_strip_def py_isspace_def)
  have i: "Trades_extract_instrument_data row_blank_name = Inl IndexError"
    using ne
    by (simp add: Trades_extract_instrument_data_def g or_str_def truthy_Some
        Trades_extract_ticker_from_name_def b Let_def)
  show "row_blank_name (asc ''qty'') = Some (asc ''-10'')"
    "row_blank_name (asc ''price'') = Some (asc ''100.5'')"
    "row_blank_name (asc ''summ_trade'') = Some (asc ''-1005.00'')"
    "row_blank_name (asc ''curr'') = Some [1056, 1059, 1041]"
    "row_blank_name (asc ''db_time'') = Some (asc ''25.03.2024 10:00:00'')"
    "Trades_extract_instrument_data row_blank_name = Inl IndexError"
    by (rule a i)+
qed

section \<open>Claims about the trades parser\<close>

text \<open>
  C4 as stated: every details row whose normalised attributes include \<open>qty="-10"\<close>,
  \<open>price="100.5"\<close>, \<open>summ_trade="-1005.00"\<close>, the Cyrillic rouble abbreviation as
  \<open>curr\<close> and \<open>db_time="25.03.2024 10:00:00"\<close> produces one record with currency
  \<open>RUB\<close>. Two rows that include the five attributes do not. With
  \<open>curr_calc="USD"\<close> the record's currency is \<open>USD\<close>, because \<open>curr_calc\<close> is
  read before \<open>curr\<close>. With a blank \<open>p_name\<close> the ticker extraction raises
  \<open>IndexError\<close>, outside the guarded part of the row, and no record is produced.
\<close>

theorem Trades_sale_row_cex:
  "row_C4_usd (asc ''qty'') = Some (asc ''-10'') \<and>
   row_C4_usd (asc ''price'') = Some (asc ''100.5'') \<and>
   row_C4_usd (asc ''summ_trade'') = Some (asc ''-1005.00'') \<and>
   row_C4_usd (asc ''curr'') = Some [1056, 1059, 1041] \<and>
   row_C4_usd (asc ''db_time'') = Some (asc ''25.03.2024 10:00:00'') \<and>
   (\<exists>r. Trades_process_details_element (\<lambda>d. None) TradesParser_init row_C4_usd =
           (TradesParser_init\<lparr>tr_total_rows := 1, tr_parsed := 1\<rparr>, Inr (Some r)) \<and>
         currency r = asc ''USD'') \<and>
   row_blank_name (asc ''qty'') = Some (asc ''-10'') \<and>
   row_blank_name (asc ''price'') = Some (asc ''100.5'') \<and>
   row_blank_name (asc ''summ_trade'') = Some (asc ''-1005.00'') \<and>
   row_blank_name (asc ''curr'') = Some [1056, 1059, 1041] \<and>
   row_blank_name (asc ''db_time'') = Some (asc ''25.03.2024 10:00:00'') \<and>
   Trades_process_details_element (\<lambda>d. None) TradesParser_init row_blank_name =
     (TradesParser_init\<lparr>tr_total_rows := 1\<rparr>, Inl IndexError)"
proof -
  have u: "\<exists>r. Trades_process_details_element (\<lambda>d. None) TradesParser_init row_C4_usd =
           (TradesParser_init\<lparr>tr_total_rows := 1, tr_parsed := 1\<rparr>, Inr (Some r)) \<and>
         currency r = asc ''USD''"
    using Trades_sale_row_gen [of row_C4_usd "([], [], [])" "\<lambda>d. None" TradesParser_init,
        OF row_C4_usd_facts(1-3) row_C4_usd_facts(5,6)]
    by (auto simp: row_C4_usd_facts(7,8) TradesParser_init_def)
  have b: "Trades_process_details_element (\<lambda>d. None) TradesParser_init row_blank_name =
     (TradesParser_init\<lparr>tr_total_rows := 1\<rparr>, Inl IndexError)"
    using Trades_row_raises [of row_blank_name IndexError "\<lambda>d. None" TradesParser_init,
        OF row_blank_name_facts(1) row_blank_name_facts(5,6)]
    by (simp add: TradesParser_init_def)
  show ?thesis
    using u b row_C4_usd_facts(1-5) row_blank_name_facts(1-5) by simp
qed

text \<open>
  C4 (amended): a details row whose normalised attributes include \<open>qty="-10"\<close>,
  \<open>price="100.5"\<close>, \<open>summ_trade="-1005.00"\<close>, the Cyrillic rouble
  abbreviation as \<open>curr\<close> and \<open>db_time="25.03.2024 10:00:00"\<close> produces
  one record with operation type \<open>sale\<close>, quantity 10, currency \<open>RUB\<close>,
  price 100.5 and payment sum -1005.0, provided that the row carries no non-empty
  \<open>curr_calc\<close>, that the extraction of the instrument data does not raise (the
  instrument name is not white space only), and that the record's constructor accepts the
  values. The row may carry any further attributes.
\<close>

theorem Trades_sale_row:
  assumes qty: "a (asc ''qty'') = Some (asc ''-10'')"
    and price: "a (asc ''price'') = Some (asc ''100.5'')"
    and summ: "a (asc ''summ_trade'') = Some (asc ''-1005.00'')"
    and curr: "a (asc ''curr'') = Some [1056, 1059, 1041]"
    and db_time: "a (asc ''db_time'') = Some (asc ''25.03.2024 10:00:00'')"
    and no_curr_calc: "\<not> truthy (a (asc ''curr_calc''))"
    and inst: "Trades_extract_instrument_data a = Inr inst"
    and ctor_ok: "\<And>d. c d = None"
  shows "\<exists>r. Trades_process_details_element c st a =
           (st\<lparr>tr_total_rows := tr_total_rows st + 1, tr_parsed := tr_parsed st + 1,
               tr_total_commission :=
                 py_fadd (tr_total_commission st) (Trades_extract_commission a)\<rparr>,
            Inr (Some r)) \<and>
         operation_type r = asc ''sale'' \<and> quantity r = PyInt 10 \<and>
         currency r = asc ''RUB'' \<and> price r = Fin (201 / 2) \<and> payment_sum r = Fin (- 1005)"
  using assms by (rule Trades_sale_row_aux)

theorem Trades_sale_row_witness:
  "row_C4 (asc ''qty'') = Some (asc ''-10'') \<and>
   row_C4 (asc ''price'') = Some (asc ''100.5'') \<and>
   row_C4 (asc ''summ_trade'') = Some (asc ''-1005.00'') \<and>
   row_C4 (asc ''curr'') = Some [1056, 1059, 1041] \<and>
   row_C4 (asc ''db_time'') = Some (asc ''25.03.2024 10:00:00'') \<and>
   \<not> truthy (row_C4 (asc ''curr_calc'')) \<and>
   Trades_extract_instrument_data row_C4 = Inr ([], [], []) \<and>
   (\<exists>r. Trades_process_details_element (\<lambda>d. None) TradesParser_init row_C4 =
           (TradesParser_init\<lparr>tr_total_rows := 1, tr_parsed := 1\<rparr>, Inr (Some r)) \<and>
         operation_type r = asc ''sale'' \<and> quantity r = PyInt 10 \<and>
         currency r = asc ''RUB'' \<and> price r = Fin (201 / 2) \<and> payment_sum r = Fin (- 1005))"
  using Trades_sale_row [of row_C4 "([], [], [])" "\<lambda>d. None" TradesParser_init,
      OF row_C4_facts(1-7)] row_C4_facts
  by (simp add: TradesParser_init_def)







lemma doc_blank_name_loop:
  "\<exists>r. details_loop (Trades_process_details_element (\<lambda>d. None)) TradesParser_init []
       doc_blank_name = (TradesParser_init\<lparr>tr_total_rows := 2, tr_parsed := 1\<rparr>, [r], Some IndexError)"
proof -
  have names: "py_lower (local_name (Some (asc ''details''))) = asc ''details''"
    by (simp add: local_name_def asc_def py_lower_def lower_cp_def)
  have "\<exists>r. Trades_process_details_element (\<lambda>d. None) TradesParser_init row_C4 =
         (TradesParser_init\<lparr>tr_total_rows := 1, tr_parsed := 1\<rparr>, Inr (Some r))"
    using row_C4_result [of "\<lambda>d. None" TradesParser_init]
    by (simp add: TradesParser_init_def)
  then obtain r where
    r: "Trades_process_details_element (\<lambda>d. None) TradesParser_init (normalize_attrib attrib_C4) =
         (TradesParser_init\<lparr>tr_total_rows := 1, tr_parsed := 1\<rparr>, Inr (Some r))"
    by (auto simp: row_C4_def)
  have b: "Trades_process_details_element (\<lambda>d. None)
             (TradesParser_init\<lparr>tr_total_rows := Suc 0, tr_parsed := Suc 0\<rparr>)
             (normalize_attrib attrib_blank_name) =
           (TradesParser_init\<lparr>tr_total_rows := 2, tr_parsed := 1\<rparr>, Inl IndexError)"
    using Trades_row_raises [of row_blank_name IndexError "\<lambda>d. None"
        "TradesParser_init\<lparr>tr_total_rows := 1, tr_parsed := 1\<rparr>",
        OF row_blank_name_facts(1) row_blank_name_facts(5,6)]
    by (simp add: row_blank_name_def TradesParser_init_def)
  show ?thesis
    by (rule exI [of _ r]) (simp add: doc_blank_name_def names r b)
qed




text \<open>
  C10: the quantity of a trades row is the round-half-to-even of the float its text denotes,
  so a row whose quantity text denotes a value that rounds to zero is skipped and counted
  under \<open>skipped_no_qty\<close>.
\<close>

theorem Trades_fractional_quantity_skipped:
  assumes "py_float (normalize_number (Trades_quantity_text a)) = Some (Fin x)"
  shows "Trades_extract_quantity a = round_half_even x \<and>
     (round_half_even x = 0 \<longrightarrow>
        Trades_process_details_element c st a =
          (st\<lparr>tr_total_rows := tr_total_rows st + 1,
              tr_skipped_no_qty := tr_skipped_no_qty st + 1\<rparr>, Inr None))"
proof -
  have ne: "normalize_number (Trades_quantity_text a) \<noteq> []"
  proof
    assume "normalize_number (Trades_quantity_text a) = []"
    with assms show False
      by (simp add: py_float_def float_strip_def split_sign_def parse_decimal_def py_lower_def
          asc_def)
  qed
  have q: "Trades_extract_quantity a = round_half_even x"
    using assms ne by (simp add: Trades_extract_quantity_def to_int_safe_def py_round_def Let_def)
  show ?thesis
    by (simp add: q Trades_process_details_element_def Let_def)
qed

theorem Trades_fractional_quantity_skipped_witness:
  "py_float (normalize_number (Trades_quantity_text row_qty_04)) =
     Some (Fin (3602879701896397 / 9007199254740992)) \<and>
   round_half_even (3602879701896397 / 9007199254740992) = 0 \<and>
   Trades_extract_quantity row_qty_04 = 0 \<and>
   Trades_process_details_element (\<lambda>d. None) TradesParser_init row_qty_04 =
     (TradesParser_init\<lparr>tr_total_rows := 1, tr_skipped_no_qty := 1\<rparr>, Inr None)"
proof -
  have a: "row_qty_04 (asc ''qty'') = Some (asc ''0.4'')"
    by (simp add: row_qty_04_def normalize_attrib_def asc_def py_lower_def lower_cp_def)
  have ne: "asc ''0.4'' \<noteq> []" by (simp add: asc_def)
  have t: "Trades_quantity_text row_qty_04 = asc ''0.4''"
    using ne by (simp add: Trades_quantity_text_def get_or_first a truthy_Some or_str_def)
  have f: "py_float (normalize_number (Trades_quantity_text row_qty_04)) =
     Some (Fin (3602879701896397 / 9007199254740992))"
    unfolding t by (simp add: float_eval binary64_eval)
  have r: "round_half_even (3602879701896397 / 9007199254740992) = 0"
    by (simp add: round_half_even_def Let_def)
  from Trades_fractional_quantity_skipped [OF f, of "\<lambda>d. None" TradesParser_init] r
  show ?thesis
    using f by (simp add: TradesParser_init_def)
qed

lemma py_contains_iff: "py_contains sub s \<longleftrightarrow> (\<exists>pre post. s = pre @ sub @ post)"
proof (induction s)
  case Nil
  show ?case by auto
next
  case (Cons x s)
  have pre: "take (length sub) (x # s) = sub \<longleftrightarrow> (\<exists>post. x # s = sub @ post)"
  proof
    assume "take (length sub) (x # s) = sub"
    then have "x # s = sub @ drop (length sub) (x # s)"
      using append_take_drop_id [of "length sub" "x # s"] by simp
    then show "\<exists>post. x # s = sub @ post" ..
  next
    assume "\<exists>post. x # s = sub @ post"
    then show "take (length sub) (x # s) = sub" by auto
  qed
  show ?case
  proof
    assume "py_contains sub (x # s)"
    then consider "take (length sub) (x # s) = sub" | "py_contains sub s" by auto
    then show "\<exists>pre post. x # s = pre @ sub @ post"
    proof cases
      case 1
      with pre obtain post where "x # s = [] @ sub @ post" by auto
      then show ?thesis by blast
    next
      case 2
      with Cons obtain pre' post where "s = pre' @ sub @ post" by blast
      then have "x # s = (x # pre') @ sub @ post" by simp
      then show ?thesis by blast
    qed
  next
    assume "\<exists>pre post. x # s = pre @ sub @ post"
    then obtain pre' post where e: "x # s = pre' @ sub @ post" by blast
    show "py_contains sub (x # s)"
    proof (cases pre')
      case Nil
      with e have "\<exists>post. x # s = sub @ post" by auto
      with pre have "take (length sub) (x # s) = sub" by blast
      then show ?thesis by simp
    next
      case (Cons y ys)
      with e have "s = ys @ sub @ post" by simp
      with Cons.IH show ?thesis by auto
    qed
  qed
qed

section \<open>Claims about the transfers parser\<close>

text \<open>
  C5: a transfers row passes the filter exactly when its \<open>oper_type\<close>, trimmed and
  lower-cased, is the word "transfer" and its \<open>comment_new\<close>, trimmed and lower-cased,
  contains the word "conversion" (an absent attribute counts as the empty string). A row that
  fails the filter yields no record and adds one to \<open>skipped_not_conversion\<close> (and to
  \<open>total_rows\<close>), whatever its other attributes are; a row that passes is not counted
  there.
\<close>

theorem Transfers_filter:
  "(Transfers_is_conversion_operation a \<longleftrightarrow>
      py_lower (py_strip (or_str (a (asc ''oper_type'')) [])) = word_perevod \<and>
      (\<exists>pre post. py_lower (py_strip (or_str (a (asc ''comment_new'')) [])) =
                  pre @ word_konvertaciya @ post)) \<and>
   (\<not> Transfers_is_conversion_operation a \<longrightarrow>
      Transfers_process_details_element h st a =
        (st\<lparr>xf_total_rows := xf_total_rows st + 1,
            xf_skipped_not_conversion := xf_skipped_not_conversion st + 1\<rparr>, Inr None)) \<and>
   (Transfers_is_conversion_operation a \<longrightarrow>
      xf_skipped_not_conversion (fst (Transfers_process_details_element h st a)) =
        xf_skipped_not_conversion st)"
proof (intro conjI)
  show "Transfers_is_conversion_operation a \<longleftrightarrow>
      py_lower (py_strip (or_str (a (asc ''oper_type'')) [])) = word_perevod \<and>
      (\<exists>pre post. py_lower (py_strip (or_str (a (asc ''comment_new'')) [])) =
                  pre @ word_konvertaciya @ post)"
    by (simp add: Transfers_is_conversion_operation_def Let_def py_contains_iff)
  show "\<not> Transfers_is_conversion_operation a \<longrightarrow>
      Transfers_process_details_element h st a =
        (st\<lparr>xf_total_rows := xf_total_rows st + 1,
            xf_skipped_not_conversion := xf_skipped_not_conversion st + 1\<rparr>, Inr None)"
    by (simp add: Transfers_process_details_element_def Let_def)
  show "Transfers_is_conversion_operation a \<longrightarrow>
      xf_skipped_not_conversion (fst (Transfers_process_details_element h st a)) =
        xf_skipped_not_conversion st"
    by (simp add: Transfers_process_details_element_def Let_def split: option.splits)
qed

theorem Transfers_filter_witness:
  "\<not> Transfers_is_conversion_operation row_xf_skip \<and>
   Transfers_process_details_element host_example TransfersParser_init row_xf_skip =
     (TransfersParser_init\<lparr>xf_total_rows := 1, xf_skipped_not_conversion := 1\<rparr>, Inr None) \<and>
   Transfers_is_conversion_operation row_xf_conv \<and>
   xf_skipped_not_conversion
     (fst (Transfers_process_details_element host_example TransfersParser_init row_xf_conv)) = 0"
proof -
  have s: "\<not> Transfers_is_conversion_operation row_xf_skip"
    by (simp add: Transfers_is_conversion_operation_def row_xf_skip_def normalize_attrib_def
        asc_def py_lower_def lower_cp_def or_str_def truthy_def py_strip_def py_isspace_def
        word_perevod_def word_konvertaciya_def)
  have c: "Transfers_is_conversion_operation row_xf_conv"
    by (simp add: Transfers_is_conversion_operation_def row_xf_conv_def normalize_attrib_def
        asc_def py_lower_def lower_cp_def or_str_def truthy_def py_strip_def py_isspace_def
        word_perevod_def word_konvertaciya_def)
  from Transfers_filter [of row_xf_skip host_example TransfersParser_init]
    Transfers_filter [of row_xf_conv host_example TransfersParser_init] s c
  show ?thesis by (simp add: TransfersParser_init_def)
qed

text \<open>The specification's example row becomes a withdrawal of 500 units.\<close>

lemma Transfers_conversion_example:
  "\<exists>r. Transfers_process_details_element host_example TransfersParser_init row_xf_conv =
         (TransfersParser_init\<lparr>xf_total_rows := 1, xf_parsed := 1\<rparr>, Inr (Some r)) \<and>
       operation_type r = asc ''asset_withdrawal'' \<and> quantity r = PyFloat (Fin 500) \<and>
       date r = Some \<lparr>dt_year = 2024, dt_month = 3, dt_day = 25, dt_hour = 12, dt_minute = 0,
                         dt_second = 0, dt_microsecond = 0, dt_utcoffset = None\<rparr>"
proof -
  have c: "Transfers_is_conversion_operation row_xf_conv"
    by (simp add: Transfers_is_conversion_operation_def row_xf_conv_def normalize_attrib_def
        asc_def py_lower_def lower_cp_def or_str_def truthy_def py_strip_def py_isspace_def
        word_perevod_def word_konvertaciya_def)
  have a: "row_xf_conv (asc ''qty'') = Some (asc ''-500'')"
    "row_xf_conv (asc ''settlement_date'') = Some (asc ''2024-03-25'')"
    "row_xf_conv (asc ''settlement_time'') = Some (asc ''12:00:00'')"
    by (simp_all add: row_xf_conv_def normalize_attrib_def asc_def py_lower_def lower_cp_def)
  have q: "to_float_safe (Some (or_str (Some (asc ''-500'')) (asc ''0''))) = Fin (- 500)"
    by (simp add: or_str_def truthy_def to_float_safe_def float_eval binary64_eval)
  have d: "Transfers_extract_date host_example row_xf_conv =
      Some \<lparr>dt_year = 2024, dt_month = 3, dt_day = 25, dt_hour = 12, dt_minute = 0,
            dt_second = 0, dt_microsecond = 0, dt_utcoffset = None\<rparr>"
  proof -
    have t: "truthy (Some (asc ''2024-03-25''))" "truthy (Some (asc ''12:00:00''))"
      "84 \<notin> set (asc ''2024-03-25'')"
      by (simp_all add: truthy_def asc_def)
    have s: "strptime (asc ''2024-03-25'' @ 32 # asc ''12:00:00'') fmt_Ymd_HMS =
      Some \<lparr>dt_year = 2024, dt_month = 3, dt_day = 25, dt_hour = 12, dt_minute = 0,
            dt_second = 0, dt_microsecond = 0, dt_utcoffset = None\<rparr>"
      by (simp add: asc_def fmt_Ymd_HMS_def strptime_eval)
    show ?thesis
      unfolding Transfers_extract_date_def a parse_datetime_from_components_def
      by (simp add: t s Let_def)
  qed
  have k: "ctor host_example = (\<lambda>d. None)"
    by (simp add: host_example_def)
  show ?thesis
    unfolding Transfers_process_details_element_def a
    by (simp add: c q d k Let_def float_is_zero_def Transfers_build_def float_pos_def
        py_fabs_def TransfersParser_init_def)
qed

section \<open>Financial operations: the skip decision\<close>

lemma FinOps_should_skip_blank_zero:
  assumes "py_strip (or_str oper_type []) = []" and "py_strip comment_text = []"
      and "amount = None \<or> (\<exists>s e. amount = Some (DFin s 0 e))"
  shows "FinOps_should_skip h oper_type comment_text amount = Inr True"
  using assms
  by (auto simp add: FinOps_should_skip_def FinOps_label_source_def FinOps_amount_float_def
        dec_truthy_def float_is_zero_def)

lemmas el_eval = has_local_name_def local_name_def attrib_get_def asc_def

lemmas str_eval0 = py_or_def truthy_def py_strip_def py_isspace_def or_str_def py_lower_def
  lower_cp_def is_AZ_def

lemma row_fo_blank_label: "FinOps_extract_oper_type_and_comment row_fo_blank = (None, [])"
  by (simp add: row_fo_blank_def FinOps_extract_oper_type_and_comment_def
        FinOps_find_first_descendant_by_local_name_def FinOps_safe_attr_def el_eval
        str_eval0 Let_def)

lemma row_fo_blank_amount:
  "FinOps_extract_currency_and_amount row_fo_blank = (asc ''RUB'', Some dec_zero)"
  by (simp add: row_fo_blank_def FinOps_extract_currency_and_amount_def
        FinOps_find_first_descendant_by_local_name_def FinOps_collect_p_code_candidates_def
        FinOps_parse_decimal_def py_decimal_def py_replace_def split_sign_def parse_decimal_def
        parse_exponent_def digits_val_def decimal_value_def underscores_ok.simps
        el_eval get_or.simps is_decimal_def is_digit_def str_eval0 dec_truthy_def dec_zero_def
        Let_def)

text \<open>
  C6. A row of the financial operations report whose label and comment are empty after
  trimming (the label possibly absent) and whose extracted amount is absent or a zero is
  skipped: \<open>_should_skip\<close> answers true without consulting the classifier, and
  \<open>_process_rn_node\<close> counts the row under \<open>total_rows\<close> and \<open>skipped\<close>, produces
  no record and raises nothing. The host \<open>h\<close>, and with it both entry points of the
  Operation Classifier, is arbitrary.
\<close>

theorem FinOps_blank_zero_row_skipped:
  assumes "FinOps_extract_oper_type_and_comment rn_node = (oper_type, comment_text)"
      and "FinOps_extract_currency_and_amount rn_node = (currency_v, amount)"
      and "py_strip (or_str oper_type []) = []"
      and "py_strip comment_text = []"
      and "amount = None \<or> (\<exists>s e. amount = Some (DFin s 0 e))"
  shows "FinOps_should_skip h oper_type comment_text amount = Inr True \<and>
         FinOps_process_rn_node h st rn_node settlement_date =
           (st\<lparr>fo_total_rows := fo_total_rows st + 1, fo_skipped := fo_skipped st + 1\<rparr>,
            Inr None)"
proof -
  have s: "FinOps_should_skip h oper_type comment_text amount = Inr True"
    using assms(3-5) by (rule FinOps_should_skip_blank_zero)
  show ?thesis
    by (simp add: FinOps_process_rn_node_def assms(1,2) s Let_def)
qed

text \<open>
  The example row, under a classifier that never skips and maps every row to one fixed type:
  the row is skipped all the same.
\<close>

theorem FinOps_blank_zero_row_skipped_witness:
  "should_skip_operation host_example None [] [] = Inr False \<and>
   determine_operation_type host_example None [] (Fin 0) = Inr (asc ''other'') \<and>
   FinOps_should_skip host_example None [] (Some dec_zero) = Inr True \<and>
   FinOps_process_rn_node host_example FinOps_init row_fo_blank None =
     (FinOps_init\<lparr>fo_total_rows := 1, fo_skipped := 1\<rparr>, Inr None)"
proof -
  have z: "Some dec_zero = None \<or> (\<exists>s e. Some dec_zero = Some (DFin s 0 e))"
    unfolding dec_zero_def by blast
  have b: "py_strip (or_str None []) = []" "py_strip [] = []"
    by (simp_all add: py_strip_def or_str_def truthy_def)
  from FinOps_blank_zero_row_skipped [OF row_fo_blank_label row_fo_blank_amount b z,
      of host_example FinOps_init None]
  show ?thesis
    by (simp add: FinOps_init_def host_example_def)
qed

section \<open>Financial operations: evaluation of the example report\<close>

lemma row_fo_label:
  "FinOps_extract_oper_type_and_comment (row_fo vol) = (Some (asc ''Dividend''), asc ''x'')"
  by (simp add: row_fo_def FinOps_extract_oper_type_and_comment_def
        FinOps_find_first_descendant_by_local_name_def FinOps_safe_attr_def el_eval
        str_eval0 Let_def)

lemma row_fo_amount:
  assumes v: "vol \<noteq> []" and p: "FinOps_parse_decimal (Some (py_strip vol)) = Some a"
      and t: "dec_truthy a"
  shows "FinOps_extract_currency_and_amount (row_fo vol) = (asc ''RUB'', Some a)"
proof -
  let ?c = "[(asc ''p_code'', asc ''RUB''), (asc ''volume'', vol)]"
  let ?e = "Element (asc ''comment'') [(asc ''comment'', asc ''x'')] [Element (asc ''p_code'') ?c []]"
  have g1: "get_or (map_of ?c) [asc ''p_code'', asc ''currency''] = Some (asc ''RUB'')"
    by (simp add: get_or.simps py_or_def truthy_def asc_def)
  have g2: "get_or (map_of ?c) [asc ''volume'', asc ''volume1'', asc ''amount''] = Some vol"
    using v by (simp add: get_or.simps py_or_def truthy_def asc_def)
  have s: "py_strip (asc ''RUB'') = asc ''RUB''"
    by (simp add: asc_def py_strip_def py_isspace_def)
  have sc: "p_code_scan [] None [?c] = (asc ''RUB'', Some a)"
    unfolding p_code_scan.simps g1 g2 Let_def using v by (simp add: truthy_def s p)
  have f: "FinOps_find_first_descendant_by_local_name (row_fo vol) (asc ''comment'') = Some ?e"
    by (simp add: row_fo_def FinOps_find_first_descendant_by_local_name_def has_local_name_def
          local_name_def asc_def)
  have cands: "FinOps_collect_p_code_candidates (Some ?e) = [?c]"
    by (simp add: FinOps_collect_p_code_candidates_def has_local_name_def local_name_def asc_def)
  show ?thesis
    by (simp add: FinOps_extract_currency_and_amount_def f cands sc t del: p_code_scan.simps)
qed

lemma fo_regs:
  "FinOps_extract_reg_number alnum (Some (asc ''x'')) = []"
  "FinOps_extract_isin alnum (Some (asc ''x'')) = []"
  by (simp_all add: FinOps_extract_reg_number_def FinOps_extract_isin_def truthy_def asc_def
       re_search_def RE_REG_NUMBER_def RE_ISIN_def at_boundary_def is_word_def is_digit_def
       is_AZ_def is_az_def)

lemma fo_date: "FinOps_parse_settlement_date (host_fo doc) (sd_fo vols) = Some date_fo"
proof -
  have a: "FinOps_safe_attr (Some (sd_fo vols)) (asc ''settlement_date'') = Some (asc ''2024-03-25'')"
    by (simp add: sd_fo_def FinOps_safe_attr_def attrib_get_def py_or_def truthy_def)
       (simp add: asc_def py_strip_def py_isspace_def)
  have s: "strptime (asc ''2024-03-25'') fmt_Ymd = Some date_fo"
    by (simp add: fmt_Ymd_def strptime_eval asc_def date_fo_def)
  have b: "before_T (asc ''2024-03-25'') = asc ''2024-03-25''"
    by (simp add: before_T_def asc_def)
  show ?thesis
    by (simp add: FinOps_parse_settlement_date_def a FinOps_parse_iso_datetime_def truthy_def
          host_fo_def host_example_def b s)
       (simp add: asc_def)
qed

lemma fo_iter_row:
  "filter (has_local_name (asc ''rn'')) (iter_el (row_fo vol)) = [row_fo vol]"
  "filter (has_local_name (asc ''settlement_date'')) (iter_el (row_fo vol)) = []"
  "find (has_local_name (asc ''Report'')) (iter_el (row_fo vol)) = None"
  by (simp_all add: row_fo_def has_local_name_def local_name_def asc_def)

lemma fo_iter_rows:
  "filter (has_local_name (asc ''rn'')) (concat (map (iter_el \<circ> row_fo) vols)) = map row_fo vols"
  "filter (has_local_name (asc ''settlement_date'')) (concat (map (iter_el \<circ> row_fo) vols)) = []"
  by (induction vols) (simp_all add: fo_iter_row)

lemma fo_collect_rn: "FinOps_collect_rn_nodes (sd_fo vols) = map row_fo vols"
proof -
  have n: "\<not> has_local_name (asc ''rn'') (sd_fo vols)"
    by (simp add: sd_fo_def has_local_name_def local_name_def asc_def)
  have i: "iter_el (sd_fo vols) = sd_fo vols # concat (map (iter_el \<circ> row_fo) vols)"
    by (simp add: sd_fo_def)
  show ?thesis
    by (simp add: FinOps_collect_rn_nodes_def i n fo_iter_rows Let_def)
       (simp add: sd_fo_def)
qed

lemma fo_collect_sd:
  "FinOps_collect_elements_by_local_name (FinOps_find_report_element (doc_fo vols))
     (asc ''settlement_date'') = [sd_fo vols]"
proof -
  have r: "FinOps_find_report_element (doc_fo vols) = doc_fo vols"
    by (simp add: FinOps_find_report_element_def doc_fo_def has_local_name_def local_name_def
          Let_def) (simp add: asc_def)
  have n: "\<not> has_local_name (asc ''settlement_date'') (doc_fo vols)"
    "has_local_name (asc ''settlement_date'') (sd_fo vols)"
    by (simp_all add: doc_fo_def sd_fo_def has_local_name_def local_name_def asc_def)
  have i: "iter_el (doc_fo vols) = doc_fo vols # sd_fo vols # concat (map (iter_el \<circ> row_fo) vols)"
    by (simp add: doc_fo_def sd_fo_def)
  show ?thesis
    by (simp add: FinOps_collect_elements_by_local_name_def r i n fo_iter_rows)
qed

lemma row_fo_process:
  assumes amt: "FinOps_extract_currency_and_amount (row_fo vol) = (asc ''RUB'', Some a)"
  shows "FinOps_process_rn_node (host_fo doc) st (row_fo vol) sd =
     (case FinOps_update_stats (st\<lparr>fo_total_rows := fo_total_rows st + 1\<rparr>)
             (Some (asc ''Dividend'')) (asc ''x'') (Some a) (asc ''other'') of
        (st1, Some e) \<Rightarrow> (st1, Inl e)
      | (st1, None) \<Rightarrow>
          ((FinOps_collect_example_comment st1 (asc ''x''))
             \<lparr>fo_parsed := fo_parsed (FinOps_collect_example_comment st1 (asc ''x'')) + 1\<rparr>,
           Inr (Some (FinOps_build (host_fo doc) sd (row_fo vol) (asc ''other'') (asc ''RUB'')
                        (FinOps_decimal_to_float (Some a)) (asc ''x'') [] []))))"
proof -
  have l: "FinOps_label_source (Some (asc ''Dividend'')) (asc ''x'') \<noteq> []"
    by (simp add: FinOps_label_source_def or_str_def truthy_def asc_def py_strip_def py_isspace_def)
  have ne: "asc ''other'' \<noteq> asc ''_skip_''"
    by (simp add: asc_def)
  have s: "FinOps_should_skip (host_fo doc) (Some (asc ''Dividend'')) (asc ''x'') (Some a) = Inr False"
    using l by (simp add: FinOps_should_skip_def host_fo_def host_example_def Let_def)
  have d: "\<And>x y z. determine_operation_type (host_fo doc) x y z = Inr (asc ''other'')"
    and c: "\<And>r. ctor (host_fo doc) r = None"
    by (simp_all add: host_fo_def host_example_def)
  show ?thesis
    by (simp add: FinOps_process_rn_node_def row_fo_label amt fo_regs s FinOps_classify_def
          FinOps_create_operation_dto_def ne d c Let_def split: prod.splits option.splits)
qed

lemmas decimal_parse_eval = FinOps_parse_decimal_def py_decimal_def py_replace_def py_strip_def
  py_isspace_def split_sign_def parse_decimal_def parse_exponent_def digits_val_def
  decimal_value_def underscores_ok.simps is_decimal_def is_digit_def py_lower_def lower_cp_def
  is_AZ_def asc_def Let_def

lemma fo_parse_amounts:
  "FinOps_parse_decimal (Some (py_strip (asc ''12.3''))) = Some (DFin False 123 (- 1))"
  "FinOps_parse_decimal (Some (py_strip (asc ''NaN''))) = Some DNaN"
  "FinOps_parse_decimal (Some (py_strip (asc ''Infinity''))) = Some (DInf False)"
  by (simp_all add: decimal_parse_eval)

lemma fo_amounts:
  "FinOps_extract_currency_and_amount (row_fo (asc ''12.3'')) =
     (asc ''RUB'', Some (DFin False 123 (- 1)))"
  "FinOps_extract_currency_and_amount (row_fo (asc ''NaN'')) = (asc ''RUB'', Some DNaN)"
  "FinOps_extract_currency_and_amount (row_fo (asc ''Infinity'')) =
     (asc ''RUB'', Some (DInf False))"
  by (rule row_fo_amount, simp add: asc_def, rule fo_parse_amounts, simp add: dec_truthy_def)+

lemma fo_label_key:
  "FinOps_label_key (Some (asc ''Dividend'')) (asc ''x'') = asc ''Dividend''"
  "asc ''Dividend'' \<noteq> []"
  by (simp_all add: FinOps_label_key_def or_str_def truthy_def asc_def py_strip_def py_isspace_def)

lemmas update_eval = FinOps_update_stats_def FinOps_update_label_def FinOps_update_totals_def
  fo_label_key dict_get_def dec_gt0_def dec_lt0_def

lemmas dec_add_eval = dec_zero_def dec_fix_def signed_coeff_def num_digits_def str_nat.simps
  div_half_even_def

lemma fo_update_first:
  "FinOps_update_stats (FinOps_init\<lparr>fo_total_rows := 1\<rparr>) (Some (asc ''Dividend'')) (asc ''x'')
     (Some (DFin False 123 (- 1))) (asc ''other'') =
   (fo_row_stats 1 0 (DFin False 123 (- 1)) (DFin False 123 (- 1)) dec_zero, None)"
  by (simp add: update_eval FinOps_init_def fo_row_stats_def dec_add_eval)

lemma fo_update_first_inf:
  "FinOps_update_stats (FinOps_init\<lparr>fo_total_rows := 1\<rparr>) (Some (asc ''Dividend'')) (asc ''x'')
     (Some (DInf False)) (asc ''other'') =
   (fo_row_stats 1 0 (DInf False) (DInf False) dec_zero, None)"
  by (simp add: update_eval FinOps_init_def fo_row_stats_def dec_zero_def)

lemma fo_update_nan:
  "FinOps_update_stats
     ((fo_row_stats 1 1 (DFin False 123 (- 1)) (DFin False 123 (- 1)) dec_zero)
        \<lparr>fo_total_rows := 2\<rparr>)
     (Some (asc ''Dividend'')) (asc ''x'') (Some DNaN) (asc ''other'') =
   (fo_row_stats 2 1 DNaN (DFin False 123 (- 1)) dec_zero, Some invalid_operation)"
  by (simp add: update_eval fo_row_stats_def)

lemma fo_build:
  "FinOps_build h (Some date_fo) rn (asc ''other'') (asc ''RUB'') f (asc ''x'') [] [] = op_fo f"
  by (simp add: FinOps_build_def op_fo_def)

lemma fo_floats:
  "FinOps_decimal_to_float (Some (DFin False 123 (- 1))) = to_binary64 (123 / 10)"
  "FinOps_decimal_to_float (Some (DInf False)) = PInf"
  "FinOps_decimal_to_float (Some DNaN) = NaN"
  by (simp_all add: FinOps_decimal_to_float_def dec_to_float_def signed_coeff_def pow10_def)

lemma fo_row_first:
  "FinOps_process_rn_node (host_fo doc) FinOps_init (row_fo (asc ''12.3'')) (Some date_fo) =
     (fo_row_stats 1 1 (DFin False 123 (- 1)) (DFin False 123 (- 1)) dec_zero,
      Inr (Some (op_fo (to_binary64 (123 / 10)))))"
proof -
  have i: "FinOps_init\<lparr>fo_total_rows := fo_total_rows FinOps_init + 1\<rparr> =
      FinOps_init\<lparr>fo_total_rows := 1\<rparr>"
    by (simp add: FinOps_init_def)
  show ?thesis
    unfolding row_fo_process [OF fo_amounts(1)] i fo_update_first fo_build fo_floats
    by (simp add: FinOps_collect_example_comment_def fo_row_stats_def asc_def)
qed

lemma fo_row_first_inf:
  "FinOps_process_rn_node (host_fo doc) FinOps_init (row_fo (asc ''Infinity'')) (Some date_fo) =
     (fo_row_stats 1 1 (DInf False) (DInf False) dec_zero, Inr (Some (op_fo PInf)))"
proof -
  have i: "FinOps_init\<lparr>fo_total_rows := fo_total_rows FinOps_init + 1\<rparr> =
      FinOps_init\<lparr>fo_total_rows := 1\<rparr>"
    by (simp add: FinOps_init_def)
  show ?thesis
    unfolding row_fo_process [OF fo_amounts(3)] i fo_update_first_inf fo_build fo_floats
    by (simp add: FinOps_collect_example_comment_def fo_row_stats_def asc_def)
qed

lemma fo_row_second_nan:
  "FinOps_process_rn_node (host_fo doc)
     (fo_row_stats 1 1 (DFin False 123 (- 1)) (DFin False 123 (- 1)) dec_zero)
     (row_fo (asc ''NaN'')) (Some date_fo) =
     (fo_row_stats 2 1 DNaN (DFin False 123 (- 1)) dec_zero, Inl invalid_operation)"
proof -
  let ?s = "fo_row_stats 1 1 (DFin False 123 (- 1)) (DFin False 123 (- 1)) dec_zero"
  have i: "?s\<lparr>fo_total_rows := fo_total_rows ?s + 1\<rparr> = ?s\<lparr>fo_total_rows := 2\<rparr>"
    by (simp add: fo_row_stats_def)
  show ?thesis
    unfolding row_fo_process [OF fo_amounts(2)] i fo_update_nan
    by simp
qed

lemma fo_parse_doc:
  assumes "rn_loop (host_fo (doc_fo vols)) (Some date_fo) FinOps_init [] (map row_fo vols) =
             (st, ops, exc)"
  shows "FinOps_parse (host_fo (doc_fo vols)) w FinOps_init (Bytes i b) =
     (case exc of
        Some e \<Rightarrow> (([], FoError (exc_str e) st), st)
      | None \<Rightarrow> ((ops, FoOk (FinOps_finalize_stats st)), st))"
proof -
  have t: "FinOps_read (host_fo (doc_fo vols)) w (Bytes i b) = Inr (doc_fo vols)"
    by (simp add: FinOps_read_def FinOps_parse_bytes_def host_fo_def)
  have r: "FinOps_parse_root (host_fo (doc_fo vols)) FinOps_init (doc_fo vols) =
      (case exc of Some e \<Rightarrow> (st, Inl e) | None \<Rightarrow> (st, Inr (ops, FinOps_finalize_stats st)))"
    by (simp add: FinOps_parse_root_def fo_collect_sd fo_date fo_collect_rn assms
        split: option.splits)
  show ?thesis
    by (simp add: FinOps_parse_def t r split: option.splits)
qed

lemma fo_loop_nan:
  "rn_loop (host_fo doc) (Some date_fo) FinOps_init [] (map row_fo [asc ''12.3'', asc ''NaN'']) =
     (fo_row_stats 2 1 DNaN (DFin False 123 (- 1)) dec_zero, [op_fo (to_binary64 (123 / 10))],
      Some invalid_operation)"
  unfolding list.map rn_loop.simps fo_row_first by (simp add: fo_row_second_nan del: One_nat_def)

lemma fo_loop_one:
  "rn_loop (host_fo doc) (Some date_fo) FinOps_init [] (map row_fo [asc ''12.3'']) =
     (fo_row_stats 1 1 (DFin False 123 (- 1)) (DFin False 123 (- 1)) dec_zero,
      [op_fo (to_binary64 (123 / 10))], None)"
  unfolding list.map rn_loop.simps fo_row_first by simp

lemma fo_loop_inf:
  "rn_loop (host_fo doc) (Some date_fo) FinOps_init [] (map row_fo [asc ''Infinity'']) =
     (fo_row_stats 1 1 (DInf False) (DInf False) dec_zero, [op_fo PInf], None)"
  unfolding list.map rn_loop.simps fo_row_first_inf by simp

section \<open>The public entry points\<close>

lemma details_loop_raised_prefix:
  "details_loop P st ops es = (st', ops', Some e) \<Longrightarrow>
   \<exists>pre x post st1. es = pre @ x # post \<and> details_loop P st ops pre = (st1, ops', None) \<and>
      py_lower (local_name (Some (tag x))) = asc ''details'' \<and>
      P st1 (normalize_attrib (attrib x)) = (st', Inl e)"
proof (induction es arbitrary: st ops)
  case Nil
  then show ?case by simp
next
  case (Cons y es)
  show ?case
  proof (cases "py_lower (local_name (Some (tag y))) \<noteq> asc ''details''")
    case True
    with Cons.prems have "details_loop P st ops es = (st', ops', Some e)" by simp
    from Cons.IH [OF this] obtain pre x post st1 where
      a: "es = pre @ x # post" "details_loop P st ops pre = (st1, ops', None)"
        "py_lower (local_name (Some (tag x))) = asc ''details''"
        "P st1 (normalize_attrib (attrib x)) = (st', Inl e)"
      by blast
    have "y # es = (y # pre) @ x # post" using a(1) by simp
    moreover have "details_loop P st ops (y # pre) = (st1, ops', None)"
      using True a(2) by simp
    ultimately show ?thesis using a(3,4) by blast
  next
    case False
    obtain s1 r where p: "P st (normalize_attrib (attrib y)) = (s1, r)"
      by (cases "P st (normalize_attrib (attrib y))") auto
    show ?thesis
    proof (cases r)
      case (Inl e')
      with Cons.prems False p have "s1 = st'" "ops = ops'" "e' = e" by simp_all
      then have "y # es = [] @ y # es \<and> details_loop P st ops [] = (st, ops', None) \<and>
          py_lower (local_name (Some (tag y))) = asc ''details'' \<and>
          P st (normalize_attrib (attrib y)) = (st', Inl e)"
        using p Inl False by simp
      then show ?thesis by blast
    next
      case (Inr v)
      let ?ops1 = "(case v of None \<Rightarrow> ops | Some operation \<Rightarrow> ops @ [operation])"
      have l: "details_loop P s1 ?ops1 es = (st', ops', Some e)"
        using Cons.prems False p Inr by (cases v) simp_all
      from Cons.IH [OF l] obtain pre x post st1 where
        a: "es = pre @ x # post" "details_loop P s1 ?ops1 pre = (st1, ops', None)"
          "py_lower (local_name (Some (tag x))) = asc ''details''"
          "P st1 (normalize_attrib (attrib x)) = (st', Inl e)"
        by blast
      have "y # es = (y # pre) @ x # post" using a(1) by simp
      moreover have "details_loop P st ops (y # pre) = (st1, ops', None)"
        using False p Inr a(2) by (cases v) simp_all
      ultimately show ?thesis using a(3,4) by blast
    qed
  qed
qed

lemma streaming_parse_staged:
  assumes "prepare_xml_source h w arg = Inr ((src, cn), w1)"
    and "iterparse h w1 src = (elems, rexc)"
    and "details_loop P st0 [] elems = (st, ops, row_exc)"
  shows "streaming_parse P h w st0 arg =
     (Returns (ops, Diagnostics (map_option exc_str
                                   (case row_exc of Some e \<Rightarrow> Some e | None \<Rightarrow> rexc)) st),
      cleanup_tmp_file w1 src cn, st)"
  using assms by (simp add: streaming_parse_def)

lemma streaming_parse_not_staged:
  "prepare_xml_source h w arg = Inl e \<Longrightarrow> streaming_parse P h w st0 arg = (Raises e, w, st0)"
  by (simp add: streaming_parse_def)

lemma FinOps_parse_returns:
  "fst (FinOps_parse h w self arg) =
     (case FinOps_read h w arg of
        Inl e \<Rightarrow> ([], FoError (exc_str e) self)
      | Inr root_el \<Rightarrow>
          (case FinOps_parse_root h self root_el of
             (st, Inl e) \<Rightarrow> ([], FoError (exc_str e) st)
           | (st, Inr (ops, stats)) \<Rightarrow> (ops, FoOk stats)))"
  by (simp add: FinOps_parse_def split: sum.splits prod.splits)

lemma entry_points_not_staged:
  "parse_trades_from_xml host_example world_read_only (Bytes 7 []) =
     (Raises (OSError (tmp_name 7)), world_read_only)"
  "parse_transfers_from_xml host_example world_read_only (Bytes 7 []) =
     (Raises (OSError (tmp_name 7)), world_read_only)"
  by (simp_all add: parse_trades_from_xml_def TradesParser_parse_def parse_transfers_from_xml_def
      TransfersParser_parse_def streaming_parse_def prepare_xml_source_def world_read_only_def
      host_example_def)

lemma fo_parse_nan:
  "parse_fin_operations_from_xml (host_fo (doc_fo [asc ''12.3'', asc ''NaN''])) world_example
     (Bytes 7 []) =
   (Returns ([], FoError (asc ''[<class 'decimal.InvalidOperation'>]'')
                   (fo_row_stats 2 1 DNaN (DFin False 123 (- 1)) dec_zero)), world_example)"
  by (simp add: parse_fin_operations_from_xml_def fo_parse_doc [OF fo_loop_nan] exc_str_def
      invalid_operation_def)

text \<open>
  C1 as stated: no entry point raises, and a failure returns the records accumulated so far.
  With a bytes argument and a working directory that cannot be written, the staging step of
  the trades and of the transfers parser fails; \<open>prepare_xml_source\<close> logs the exception
  and raises it again, and the call is outside the \<open>try\<close> of \<open>parse\<close>, so the
  exception leaves the entry point. In the financial operations parser a report whose second
  row has the amount \<open>NaN\<close> fails in the statistics of that row, after the first row's
  record was appended; the call returns the empty list, not that record.
\<close>

theorem entry_points_failure_policy_cex:
  "parse_trades_from_xml host_example world_read_only (Bytes 7 []) =
     (Raises (OSError (tmp_name 7)), world_read_only) \<and>
   parse_transfers_from_xml host_example world_read_only (Bytes 7 []) =
     (Raises (OSError (tmp_name 7)), world_read_only) \<and>
   rn_loop (host_fo (doc_fo [asc ''12.3'', asc ''NaN''])) (Some date_fo) FinOps_init []
       (map row_fo [asc ''12.3'', asc ''NaN'']) =
     (fo_row_stats 2 1 DNaN (DFin False 123 (- 1)) dec_zero, [op_fo (to_binary64 (123 / 10))],
      Some invalid_operation) \<and>
   parse_fin_operations_from_xml (host_fo (doc_fo [asc ''12.3'', asc ''NaN''])) world_example
       (Bytes 7 []) =
     (Returns ([], FoError (asc ''[<class 'decimal.InvalidOperation'>]'')
                     (fo_row_stats 2 1 DNaN (DFin False 123 (- 1)) dec_zero)), world_example)"
  by (simp only: entry_points_not_staged fo_loop_nan fo_parse_nan simp_thms)

text \<open>
  C1 (amended). The trades and the transfers entry point raise exactly when the staging step
  raises, with its exception. When staging succeeds they return: the records and the
  statistics are those the traversal loop has reached, and the \<open>error\<close> key holds the
  text of the exception of the failing row or, if no row failed, of the reader; it is absent
  when neither failed. When a row fails, the records returned are those of the rows before
  it. The financial operations entry point returns for every argument: the empty list and
  the \<open>error\<close> key with the unformatted statistics when reading the tree or processing
  it raised, and the records with the finalised statistics otherwise.
\<close>

theorem entry_points_failure_policy:
  "(\<forall>e. prepare_xml_source h w arg = Inl e \<longrightarrow>
      parse_trades_from_xml h w arg = (Raises e, w) \<and>
      parse_transfers_from_xml h w arg = (Raises e, w)) \<and>
   (\<forall>src cn w1 elems rexc.
      prepare_xml_source h w arg = Inr ((src, cn), w1) \<and> iterparse h w1 src = (elems, rexc) \<longrightarrow>
      (\<forall>st ops row_exc.
         details_loop (Trades_process_details_element (ctor h)) TradesParser_init [] elems =
           (st, ops, row_exc) \<longrightarrow>
         fst (parse_trades_from_xml h w arg) =
           Returns (ops, Diagnostics (map_option exc_str
                           (case row_exc of Some e \<Rightarrow> Some e | None \<Rightarrow> rexc)) st)) \<and>
      (\<forall>st ops row_exc.
         details_loop (Transfers_process_details_element h) TransfersParser_init [] elems =
           (st, ops, row_exc) \<longrightarrow>
         fst (parse_transfers_from_xml h w arg) =
           Returns (ops, Diagnostics (map_option exc_str
                           (case row_exc of Some e \<Rightarrow> Some e | None \<Rightarrow> rexc)) st))) \<and>
   (\<forall>P st0 es st ops e.
      details_loop P st0 [] es = (st, ops, Some e) \<longrightarrow>
      (\<exists>pre x post st1. es = pre @ x # post \<and> details_loop P st0 [] pre = (st1, ops, None) \<and>
         P st1 (normalize_attrib (attrib x)) = (st, Inl e))) \<and>
   parse_fin_operations_from_xml h w arg =
     (Returns (case FinOps_read h w arg of
                 Inl e \<Rightarrow> ([], FoError (exc_str e) FinOps_init)
               | Inr root_el \<Rightarrow>
                   (case FinOps_parse_root h FinOps_init root_el of
                      (st, Inl e) \<Rightarrow> ([], FoError (exc_str e) st)
                    | (st, Inr (ops, stats)) \<Rightarrow> (ops, FoOk stats))), w)"
proof (intro conjI allI impI)
  fix e assume "prepare_xml_source h w arg = Inl e"
  then show "parse_trades_from_xml h w arg = (Raises e, w)"
    by (simp add: parse_trades_from_xml_def TradesParser_parse_def streaming_parse_not_staged)
next
  fix e assume "prepare_xml_source h w arg = Inl e"
  then show "parse_transfers_from_xml h w arg = (Raises e, w)"
    by (simp add: parse_transfers_from_xml_def TransfersParser_parse_def streaming_parse_not_staged)
next
  fix src cn w1 elems rexc st ops row_exc
  assume "prepare_xml_source h w arg = Inr ((src, cn), w1) \<and> iterparse h w1 src = (elems, rexc)"
    and "details_loop (Trades_process_details_element (ctor h)) TradesParser_init [] elems =
           (st, ops, row_exc)"
  then show "fst (parse_trades_from_xml h w arg) =
           Returns (ops, Diagnostics (map_option exc_str
                           (case row_exc of Some e \<Rightarrow> Some e | None \<Rightarrow> rexc)) st)"
    by (simp add: parse_trades_from_xml_def TradesParser_parse_def streaming_parse_staged)
next
  fix src cn w1 elems rexc st ops row_exc
  assume "prepare_xml_source h w arg = Inr ((src, cn), w1) \<and> iterparse h w1 src = (elems, rexc)"
    and "details_loop (Transfers_process_details_element h) TransfersParser_init [] elems =
           (st, ops, row_exc)"
  then show "fst (parse_transfers_from_xml h w arg) =
           Returns (ops, Diagnostics (map_option exc_str
                           (case row_exc of Some e \<Rightarrow> Some e | None \<Rightarrow> rexc)) st)"
    by (simp add: parse_transfers_from_xml_def TransfersParser_parse_def streaming_parse_staged)
next
  fix P :: "'s \<Rightarrow> attrs \<Rightarrow> 's \<times> (pyexc + OperationDTO option)"
  fix st0 es st ops e
  assume "details_loop P st0 [] es = (st, ops, Some e)"
  from details_loop_raised_prefix [OF this]
  show "\<exists>pre x post st1. es = pre @ x # post \<and> details_loop P st0 [] pre = (st1, ops, None) \<and>
         P st1 (normalize_attrib (attrib x)) = (st, Inl e)"
    by blast
next
  show "parse_fin_operations_from_xml h w arg =
     (Returns (case FinOps_read h w arg of
                 Inl e \<Rightarrow> ([], FoError (exc_str e) FinOps_init)
               | Inr root_el \<Rightarrow>
                   (case FinOps_parse_root h FinOps_init root_el of
                      (st, Inl e) \<Rightarrow> ([], FoError (exc_str e) st)
                    | (st, Inr (ops, stats)) \<Rightarrow> (ops, FoOk stats))), w)"
  proof (cases "FinOps_parse h w FinOps_init arg")
    case (Pair r st)
    with FinOps_parse_returns [of h w FinOps_init arg] show ?thesis
      by (simp add: parse_fin_operations_from_xml_def)
  qed
qed

text \<open>
  The document whose second row raises, staged in a writable directory; and a directory that
  cannot be written.
\<close>

theorem entry_points_failure_policy_witness:
  "\<exists>r. fst (parse_trades_from_xml host_blank_name world_example (Bytes 7 [])) =
         Returns ([r], Diagnostics (Some (asc ''list index out of range''))
                         (TradesParser_init\<lparr>tr_total_rows := 2, tr_parsed := 1\<rparr>)) \<and>
       parse_trades_from_xml host_example world_read_only (Bytes 7 []) =
         (Raises (OSError (tmp_name 7)), world_read_only)"
proof -
  from doc_blank_name_loop obtain r where
    l: "details_loop (Trades_process_details_element (\<lambda>d. None)) TradesParser_init []
          doc_blank_name =
          (TradesParser_init\<lparr>tr_total_rows := 2, tr_parsed := 1\<rparr>, [r], Some IndexError)"
    by blast
  let ?w1 = "world_example\<lparr>files := (files world_example)(tmp_name 7 \<mapsto> [])\<rparr>"
  have p: "prepare_xml_source host_blank_name world_example (Bytes 7 []) =
      Inr ((tmp_name 7, True), ?w1)"
    by (simp add: prepare_xml_source_def world_example_def)
  have i: "iterparse host_blank_name ?w1 (tmp_name 7) = (doc_blank_name, None)"
    by (simp add: iterparse_def host_blank_name_def)
  have c: "ctor host_blank_name = (\<lambda>d. None)"
    by (simp add: host_blank_name_def host_example_def)
  have q: "prepare_xml_source host_example world_read_only (Bytes 7 []) = Inl (OSError (tmp_name 7))"
    by (simp add: prepare_xml_source_def world_read_only_def host_example_def)
  have l': "details_loop (Trades_process_details_element (ctor host_blank_name))
          TradesParser_init [] doc_blank_name =
          (TradesParser_init\<lparr>tr_total_rows := 2, tr_parsed := 1\<rparr>, [r], Some IndexError)"
    using l by (simp add: c)
  have a: "fst (parse_trades_from_xml host_blank_name world_example (Bytes 7 [])) =
         Returns ([r], Diagnostics (Some (asc ''list index out of range''))
                         (TradesParser_init\<lparr>tr_total_rows := 2, tr_parsed := 1\<rparr>))"
    using entry_points_failure_policy [of host_blank_name world_example "Bytes 7 []",
        THEN conjunct2, THEN conjunct1, rule_format, OF conjI [OF p i], THEN conjunct1,
        rule_format, OF l']
    by (simp add: exc_str_def)
  have b: "parse_trades_from_xml host_example world_read_only (Bytes 7 []) =
         (Raises (OSError (tmp_name 7)), world_read_only)"
    using entry_points_failure_policy [of host_example world_read_only "Bytes 7 []",
        THEN conjunct1, rule_format, OF q, THEN conjunct1]
    by simp
  from a b show ?thesis by blast
qed

lemma streaming_parse_same_bytes:
  "writable w \<Longrightarrow> writable w' \<Longrightarrow>
   fst (streaming_parse P h w st0 (Bytes i b)) = fst (streaming_parse P h w' st0 (Bytes j b))"
  by (simp add: streaming_parse_def prepare_xml_source_def iterparse_def split: prod.splits)

lemma streaming_parse_same_file:
  "files w p = Some b \<Longrightarrow> files w' p' = Some b \<Longrightarrow>
   fst (streaming_parse P h w st0 (Path p)) = fst (streaming_parse P h w' st0 (Path p'))"
  by (simp add: streaming_parse_def prepare_xml_source_def iterparse_def split: prod.splits)

lemma streaming_parse_bytes_file:
  "writable w \<Longrightarrow> files w' p = Some b \<Longrightarrow>
   fst (streaming_parse P h w st0 (Bytes i b)) = fst (streaming_parse P h w' st0 (Path p))"
  by (simp add: streaming_parse_def prepare_xml_source_def iterparse_def split: prod.splits)

lemma streaming_parse_writable:
  "writable (fst (snd (streaming_parse P h w st0 arg))) = writable w"
  by (cases arg)
     (simp_all add: streaming_parse_def prepare_xml_source_def cleanup_tmp_file_def
       split: prod.splits)

lemma streaming_parse_returns_writable:
  "fst (streaming_parse P h w st0 (Bytes i b)) = Returns r \<Longrightarrow> writable w"
  by (cases "writable w") (simp_all add: streaming_parse_def prepare_xml_source_def)

lemma fst_case_prod3: "fst (case x of (r, w', s) \<Rightarrow> (r, w')) = fst x"
  by (cases x) auto

lemma snd_case_prod3: "snd (case x of (r, w', s) \<Rightarrow> (r, w')) = fst (snd x)"
  by (cases x) auto

text \<open>
  C8: every call of an entry point starts from the statistics of a new parser, and its result
  is a function of the content alone. Two calls of the trades or of the transfers entry point
  on bytes of equal content that return, return the same records and diagnostics, whatever
  the identities of the two bytes objects and the rest of the file system; they do return
  whenever the working directory accepts the temporary file, also when the second call
  follows the first. So do two calls on files of equal content, and a call on bytes and a
  call on a file of that content. The financial operations entry point returns the same for
  equal bytes, and for files of equal content, and leaves the file system as it is. The
  host, that is the XML reader, the classifier and the record constructor, is the same
  function in both calls.
\<close>

theorem entry_points_deterministic:
  "fst (parse_trades_from_xml h w arg) = fst (TradesParser_parse h w TradesParser_init arg) \<and>
   fst (parse_transfers_from_xml h w arg) =
     fst (TransfersParser_parse h w TransfersParser_init arg) \<and>
   fst (parse_fin_operations_from_xml h w arg) = Returns (fst (FinOps_parse h w FinOps_init arg)) \<and>
   (\<forall>r r'. fst (parse_trades_from_xml h w (Bytes i b)) = Returns r \<and>
            fst (parse_trades_from_xml h w' (Bytes j b)) = Returns r' \<longrightarrow> r = r') \<and>
   (\<forall>r r'. fst (parse_transfers_from_xml h w (Bytes i b)) = Returns r \<and>
            fst (parse_transfers_from_xml h w' (Bytes j b)) = Returns r' \<longrightarrow> r = r') \<and>
   (writable w \<and> writable w' \<longrightarrow>
      fst (parse_trades_from_xml h w (Bytes i b)) = fst (parse_trades_from_xml h w' (Bytes j b)) \<and>
      fst (parse_transfers_from_xml h w (Bytes i b)) =
        fst (parse_transfers_from_xml h w' (Bytes j b))) \<and>
   (writable w \<longrightarrow>
      fst (parse_trades_from_xml h (snd (parse_trades_from_xml h w (Bytes i b))) (Bytes j b)) =
        fst (parse_trades_from_xml h w (Bytes i b)) \<and>
      fst (parse_transfers_from_xml h (snd (parse_transfers_from_xml h w (Bytes i b)))
             (Bytes j b)) =
        fst (parse_transfers_from_xml h w (Bytes i b))) \<and>
   (files w p = Some b \<and> files w' p' = Some b \<longrightarrow>
      fst (parse_trades_from_xml h w (Path p)) = fst (parse_trades_from_xml h w' (Path p')) \<and>
      fst (parse_transfers_from_xml h w (Path p)) =
        fst (parse_transfers_from_xml h w' (Path p')) \<and>
      fst (parse_fin_operations_from_xml h w (Path p)) =
        fst (parse_fin_operations_from_xml h w' (Path p'))) \<and>
   (writable w \<and> files w' p = Some b \<longrightarrow>
      fst (parse_trades_from_xml h w (Bytes i b)) = fst (parse_trades_from_xml h w' (Path p)) \<and>
      fst (parse_transfers_from_xml h w (Bytes i b)) =
        fst (parse_transfers_from_xml h w' (Path p))) \<and>
   fst (parse_fin_operations_from_xml h w (Bytes i b)) =
     fst (parse_fin_operations_from_xml h w' (Bytes j b)) \<and>
   snd (parse_fin_operations_from_xml h w arg) = w"
proof -
  have t: "\<And>w arg. fst (parse_trades_from_xml h w arg) =
      fst (streaming_parse (Trades_process_details_element (ctor h)) h w TradesParser_init arg)"
    by (simp add: parse_trades_from_xml_def TradesParser_parse_def fst_case_prod3)
  have x: "\<And>w arg. fst (parse_transfers_from_xml h w arg) =
      fst (streaming_parse (Transfers_process_details_element h) h w TransfersParser_init arg)"
    by (simp add: parse_transfers_from_xml_def TransfersParser_parse_def fst_case_prod3)
  have tw: "\<And>w arg. writable (snd (parse_trades_from_xml h w arg)) = writable w"
    by (simp add: parse_trades_from_xml_def TradesParser_parse_def snd_case_prod3
        streaming_parse_writable)
  have xw: "\<And>w arg. writable (snd (parse_transfers_from_xml h w arg)) = writable w"
    by (simp add: parse_transfers_from_xml_def TransfersParser_parse_def snd_case_prod3
        streaming_parse_writable)
  have f: "\<And>w arg. parse_fin_operations_from_xml h w arg =
      (Returns (fst (FinOps_parse h w FinOps_init arg)), w)"
    by (simp add: parse_fin_operations_from_xml_def split: prod.splits)
  have fb: "\<And>w w' i j. FinOps_parse h w FinOps_init (Bytes i b) =
      FinOps_parse h w' FinOps_init (Bytes j b)"
    by (simp add: FinOps_parse_def FinOps_read_def)
  have fp: "files w p = Some b \<Longrightarrow> files w' p' = Some b \<Longrightarrow>
      FinOps_parse h w FinOps_init (Path p) = FinOps_parse h w' FinOps_init (Path p')"
    by (simp add: FinOps_parse_def FinOps_read_def FinOps_parse_file_def)
  have tr: "\<forall>r r'. fst (parse_trades_from_xml h w (Bytes i b)) = Returns r \<and>
            fst (parse_trades_from_xml h w' (Bytes j b)) = Returns r' \<longrightarrow> r = r'"
  proof (intro allI impI)
    fix r r'
    assume a: "fst (parse_trades_from_xml h w (Bytes i b)) = Returns r \<and>
            fst (parse_trades_from_xml h w' (Bytes j b)) = Returns r'"
    then have "writable w" "writable w'"
      by (auto simp: t dest: streaming_parse_returns_writable)
    from streaming_parse_same_bytes [OF this,
        of "Trades_process_details_element (ctor h)" h TradesParser_init i b j] a
    show "r = r'"
      by (auto simp: t)
  qed
  have xr: "\<forall>r r'. fst (parse_transfers_from_xml h w (Bytes i b)) = Returns r \<and>
            fst (parse_transfers_from_xml h w' (Bytes j b)) = Returns r' \<longrightarrow> r = r'"
  proof (intro allI impI)
    fix r r'
    assume a: "fst (parse_transfers_from_xml h w (Bytes i b)) = Returns r \<and>
            fst (parse_transfers_from_xml h w' (Bytes j b)) = Returns r'"
    then have "writable w" "writable w'"
      by (auto simp: x dest: streaming_parse_returns_writable)
    from streaming_parse_same_bytes [OF this,
        of "Transfers_process_details_element h" h TransfersParser_init i b j] a
    show "r = r'"
      by (auto simp: x)
  qed
  have rest: "fst (parse_trades_from_xml h w arg) =
       fst (TradesParser_parse h w TradesParser_init arg) \<and>
   fst (parse_transfers_from_xml h w arg) =
     fst (TransfersParser_parse h w TransfersParser_init arg) \<and>
   fst (parse_fin_operations_from_xml h w arg) = Returns (fst (FinOps_parse h w FinOps_init arg)) \<and>
   (writable w \<and> writable w' \<longrightarrow>
      fst (parse_trades_from_xml h w (Bytes i b)) = fst (parse_trades_from_xml h w' (Bytes j b)) \<and>
      fst (parse_transfers_from_xml h w (Bytes i b)) =
        fst (parse_transfers_from_xml h w' (Bytes j b))) \<and>
   (writable w \<longrightarrow>
      fst (parse_trades_from_xml h (snd (parse_trades_from_xml h w (Bytes i b))) (Bytes j b)) =
        fst (parse_trades_from_xml h w (Bytes i b)) \<and>
      fst (parse_transfers_from_xml h (snd (parse_transfers_from_xml h w (Bytes i b)))
             (Bytes j b)) =
        fst (parse_transfers_from_xml h w (Bytes i b))) \<and>
   (files w p = Some b \<and> files w' p' = Some b \<longrightarrow>
      fst (parse_trades_from_xml h w (Path p)) = fst (parse_trades_from_xml h w' (Path p')) \<and>
      fst (parse_transfers_from_xml h w (Path p)) =
        fst (parse_transfers_from_xml h w' (Path p')) \<and>
      fst (parse_fin_operations_from_xml h w (Path p)) =
        fst (parse_fin_operations_from_xml h w' (Path p'))) \<and>
   (writable w \<and> files w' p = Some b \<longrightarrow>
      fst (parse_trades_from_xml h w (Bytes i b)) = fst (parse_trades_from_xml h w' (Path p)) \<and>
      fst (parse_transfers_from_xml h w (Bytes i b)) =
        fst (parse_transfers_from_xml h w' (Path p))) \<and>
   fst (parse_fin_operations_from_xml h w (Bytes i b)) =
     fst (parse_fin_operations_from_xml h w' (Bytes j b)) \<and>
   snd (parse_fin_operations_from_xml h w arg) = w"
    using fp fb [of w i w' j]
    by (simp add: f t x tw xw TradesParser_parse_def TransfersParser_parse_def
        streaming_parse_same_bytes streaming_parse_same_file streaming_parse_bytes_file)
  from tr xr rest show ?thesis by blast
qed

text \<open>
  Two worlds that differ in their files, two bytes objects of equal content: the results
  agree, also for the second of two calls in a row.
\<close>

theorem entry_points_deterministic_witness:
  "fst (parse_trades_from_xml host_example world_example (Bytes 7 [60])) =
     fst (parse_trades_from_xml host_example
            (world_example\<lparr>files := [asc ''a.xml'' \<mapsto> [60]]\<rparr>) (Bytes 8 [60])) \<and>
   fst (parse_trades_from_xml host_example
          (snd (parse_trades_from_xml host_example world_example (Bytes 7 [60]))) (Bytes 8 [60])) =
     fst (parse_trades_from_xml host_example world_example (Bytes 7 [60])) \<and>
   fst (parse_trades_from_xml host_example world_example (Bytes 7 [60])) =
     fst (parse_trades_from_xml host_example
            (world_example\<lparr>files := [asc ''a.xml'' \<mapsto> [60]]\<rparr>) (Path (asc ''a.xml''))) \<and>
   fst (parse_fin_operations_from_xml host_example world_example (Bytes 7 [60])) =
     fst (parse_fin_operations_from_xml host_example world_read_only (Bytes 8 [60]))"
proof -
  let ?w2 = "world_example\<lparr>files := [asc ''a.xml'' \<mapsto> [60]]\<rparr>"
  have w: "writable world_example" "writable ?w2" "files ?w2 (asc ''a.xml'') = Some [60]"
    by (simp_all add: world_example_def)
  note d = entry_points_deterministic [where h = host_example and w = world_example
      and arg = "Bytes 7 [60]" and w' = ?w2 and i = 7 and b = "[60]" and j = 8
      and p = "asc ''a.xml''" and p' = "asc ''a.xml''", THEN conjunct2, THEN conjunct2, THEN conjunct2,
      THEN conjunct2, THEN conjunct2]
  note e = entry_points_deterministic [where h = host_example and w = world_example
      and arg = "Bytes 7 [60]" and w' = world_read_only and i = 7 and b = "[60]" and j = 8
      and p = "asc ''a.xml''" and p' = "asc ''a.xml''", THEN conjunct2, THEN conjunct2,
      THEN conjunct2, THEN conjunct2, THEN conjunct2]
  have 1: "fst (parse_trades_from_xml host_example world_example (Bytes 7 [60])) =
     fst (parse_trades_from_xml host_example ?w2 (Bytes 8 [60]))"
    using d w by blast
  have 2: "fst (parse_trades_from_xml host_example
          (snd (parse_trades_from_xml host_example world_example (Bytes 7 [60]))) (Bytes 8 [60])) =
     fst (parse_trades_from_xml host_example world_example (Bytes 7 [60]))"
    using d w by blast
  have 3: "fst (parse_trades_from_xml host_example world_example (Bytes 7 [60])) =
     fst (parse_trades_from_xml host_example ?w2 (Path (asc ''a.xml'')))"
    using d w by blast
  have 4: "fst (parse_fin_operations_from_xml host_example world_example (Bytes 7 [60])) =
     fst (parse_fin_operations_from_xml host_example world_read_only (Bytes 8 [60]))"
    using e by blast
  from 1 2 3 4 show ?thesis by blast
qed

end
